theory Spec2Isabelle
  imports Main "HOL-Library.AList"
begin

section \<open>JavaScript strings and values\<close>

text \<open>
  Strings are lists of characters. \<open>indexOf\<close> is \<^verbatim>\<open>String.prototype.indexOf\<close> for a
  one-character needle (\<open>-1\<close> when it does not occur) and \<open>substring\<close> is
  \<^verbatim>\<open>String.prototype.substring\<close>: both bounds are clamped to the string and swapped when
  they come in the wrong order.
\<close>

fun indexOf :: "string \<Rightarrow> char \<Rightarrow> int" where
  "indexOf [] c = - 1"
| "indexOf (x # xs) c =
     (if x = c then 0 else (let i = indexOf xs c in if i < 0 then - 1 else i + 1))"

definition substring :: "string \<Rightarrow> int \<Rightarrow> int \<Rightarrow> string" where
  "substring s i j =
     (let n = int (length s);
          a = max 0 (min i n);
          b = max 0 (min j n)
      in take (nat (max a b - min a b)) (drop (nat (min a b)) s))"

fun join_with :: "string \<Rightarrow> string list \<Rightarrow> string" where
  "join_with sep [] = []"
| "join_with sep [x] = x"
| "join_with sep (x # y # ys) = x @ sep @ join_with sep (y # ys)"

fun show_nat :: "nat \<Rightarrow> string" where
  "show_nat n =
     (if n < 10 then [char_of (48 + n)]
      else show_nat (n div 10) @ [char_of (48 + n mod 10)])"

declare show_nat.simps [simp del]

definition show_int :: "int \<Rightarrow> string" where
  "show_int i = (if i < 0 then CHR ''-'' # show_nat (nat (- i)) else show_nat (nat i))"

text \<open>
  The values the mapper handles are the JSON documents of the content store and what the
  mapper builds from them. An object is the list of its properties in enumeration order;
  numbers are the integers.
\<close>

datatype json =
    JUndefined
  | JNull
  | JBool bool
  | JNum int
  | JStr string
  | JArr "json list"
  | JObj "(string \<times> json) list"

fun truthy :: "json \<Rightarrow> bool" where
  "truthy JUndefined = False"
| "truthy JNull = False"
| "truthy (JBool b) = b"
| "truthy (JNum n) = (n \<noteq> 0)"
| "truthy (JStr s) = (s \<noteq> [])"
| "truthy (JArr xs) = True"
| "truthy (JObj kvs) = True"

text \<open>An optional string parameter (\<^verbatim>\<open>x?: string\<close>) is truthy when given and not empty.\<close>

fun truthy_str :: "string option \<Rightarrow> bool" where
  "truthy_str None = False"
| "truthy_str (Some s) = (s \<noteq> [])"

fun opt_json :: "string option \<Rightarrow> json" where
  "opt_json None = JUndefined"
| "opt_json (Some s) = JStr s"

text \<open>\<open>toStr\<close> is the conversion a template literal, \<^verbatim>\<open>+\<close> on a string and \<^verbatim>\<open>join\<close> apply.\<close>

fun toStr :: "json \<Rightarrow> string" where
  "toStr JUndefined = ''undefined''"
| "toStr JNull = ''null''"
| "toStr (JBool b) = (if b then ''true'' else ''false'')"
| "toStr (JNum n) = show_int n"
| "toStr (JStr s) = s"
| "toStr (JArr xs) =
     join_with '','' (map (\<lambda>x. if x = JUndefined \<or> x = JNull then [] else toStr x) xs)"
| "toStr (JObj kvs) = ''[object Object]''"

definition join :: "json list \<Rightarrow> string \<Rightarrow> string" where
  "join xs sep =
     join_with sep (map (\<lambda>x. if x = JUndefined \<or> x = JNull then [] else toStr x) xs)"

section \<open>Errors and logging\<close>

datatype api_error = NOT_AUTHORIZED | UNKNOWN_ERROR | UNKNOWN_REMOTE

datatype error =
    TypeError
  | Error string
  | ApiError api_error
  | Rejected string
  | OutOfFuel

text \<open>
  \<open>TypeError\<close> is what reading a property of \<^verbatim>\<open>undefined\<close> or \<^verbatim>\<open>null\<close>, or calling a
  method a value does not have, throws. \<open>Error msg\<close> is \<^verbatim>\<open>new Error(msg)\<close> thrown by the
  mapper, \<open>ApiError\<close> an error of \<^verbatim>\<open>FSXAApiErrors\<close>, \<open>Rejected\<close> a failure of an external
  collaborator. \<open>OutOfFuel\<close> is no outcome of the program: it marks a run of the model
  that was given too little fuel.
\<close>

type_synonym 'a result = "error + 'a"

definition andThen :: "'a result \<Rightarrow> ('a \<Rightarrow> 'b result) \<Rightarrow> 'b result" where
  "andThen r f = (case r of Inl e \<Rightarrow> Inl e | Inr x \<Rightarrow> f x)"

datatype log_level = DEBUG | INFO | WARNING | ERROR | NONE

text \<open>A call \<^verbatim>\<open>logger.warn(msg, ...args)\<close> is recorded as \<open>Log WARNING msg args\<close>.\<close>

datatype log_entry = Log log_level string "json list"

section \<open>The mapper and its registries\<close>

type_synonym path = "json list"

type_synonym ReferencedItemsInfo = "(string \<times> path list) list"

type_synonym ResolvedReferencesInfo = "(string \<times> json) list"

record remote_config =
  rc_id :: string
  rc_locale :: string

datatype content_mode = PREVIEW | RELEASE

record api =
  remotes :: "(string \<times> remote_config) list"
  contentMode :: content_mode
  api_maxReferenceDepth :: "int option"
  api_logLevel :: log_level

record mapper =
  api :: api
  m_locale :: string
  referenceDepth :: int
  maxReferenceDepth :: int
  resolvedReferences :: ResolvedReferencesInfo
  referencedItems :: ReferencedItemsInfo
  remoteReferences :: "(string \<times> ReferencedItemsInfo) list"
  logLevel :: log_level
  logged :: "log_entry list"

definition REFERENCED_ITEMS_CHUNK_SIZE :: nat where
  "REFERENCED_ITEMS_CHUNK_SIZE = 30"

definition DEFAULT_MAX_REFERENCE_DEPTH :: int where
  "DEFAULT_MAX_REFERENCE_DEPTH = 10"

definition logger :: "log_level \<Rightarrow> string \<Rightarrow> json list \<Rightarrow> mapper \<Rightarrow> mapper" where
  "logger lvl msg args m = m\<lparr>logged := logged m @ [Log lvl msg args]\<rparr>"

text \<open>
  The constructor: one empty registry per configured remote project, the depth counter
  at \<open>utils.referenceDepth ?? 0\<close> and the bound at
  \<open>utils.maxReferenceDepth ?? DEFAULT_MAX_REFERENCE_DEPTH\<close>.
\<close>

definition CaaSMapper ::
  "api \<Rightarrow> string \<Rightarrow> int option \<Rightarrow> int option \<Rightarrow> log_level \<Rightarrow> mapper" where
  "CaaSMapper a loc depth maxDepth lvl =
     logger DEBUG ''Created new CaaSMapper'' []
       \<lparr> api = a,
         m_locale = loc,
         referenceDepth = (case depth of Some d \<Rightarrow> d | None \<Rightarrow> 0),
         maxReferenceDepth =
           (case maxDepth of Some d \<Rightarrow> d | None \<Rightarrow> DEFAULT_MAX_REFERENCE_DEPTH),
         resolvedReferences = [],
         referencedItems = [],
         remoteReferences =
           foldl (\<lambda>acc entry. AList.update (rc_id entry) [] acc) [] (map snd (remotes a)),
         logLevel = lvl,
         logged = [] \<rparr>"

definition getRemoteConfigForProject :: "mapper \<Rightarrow> string option \<Rightarrow> remote_config option" where
  "getRemoteConfigForProject m projectId =
     (if truthy_str projectId
      then find (\<lambda>entry. Some (rc_id entry) = projectId) (map snd (remotes (api m)))
      else None)"

definition unifyId :: "mapper \<Rightarrow> string \<Rightarrow> remote_config option \<Rightarrow> string" where
  "unifyId m ident remoteProjectConfiguration =
     (let indexOfSeparator = indexOf ident (CHR ''.'');
          remoteLocale = map_option rc_locale remoteProjectConfiguration;
          idWithLocale =
            (if indexOfSeparator > 0
             then (if truthy_str remoteLocale
                   then substring ident 0 indexOfSeparator @ ''.'' @ the remoteLocale
                   else ident)
             else ident @ ''.'' @ (if truthy_str remoteLocale then the remoteLocale
                                   else m_locale m))
      in case remoteProjectConfiguration of
           Some cfg \<Rightarrow> rc_id cfg @ ''#'' @ idWithLocale
         | None \<Rightarrow> idWithLocale)"

definition registered :: "ReferencedItemsInfo \<Rightarrow> string \<Rightarrow> path list" where
  "registered reg unifiedId = (case map_of reg unifiedId of Some ps \<Rightarrow> ps | None \<Rightarrow> [])"

definition placeholder :: "string \<Rightarrow> string option \<Rightarrow> string \<Rightarrow> string" where
  "placeholder kind imageMapResolution unifiedId =
     (if truthy_str imageMapResolution
      then ''IMAGEMAP___'' @ the imageMapResolution @ ''___'' @ unifiedId
      else ''['' @ kind @ unifiedId @ '']'')"

definition registerReferencedItem ::
  "mapper \<Rightarrow> string \<Rightarrow> path \<Rightarrow> string option \<Rightarrow> string option \<Rightarrow> (string \<times> mapper) result" where
  "registerReferencedItem m identifier path remoteProjectId imageMapResolution =
     (let remoteData = getRemoteConfigForProject m remoteProjectId;
          remoteProjectKey = map_option rc_id remoteData;
          m1 = (if truthy_str remoteProjectId \<and> \<not> truthy_str remoteProjectKey
                then logger WARNING
                       (''Item with identifier '' @ [CHR 0x27] @ identifier @ [CHR 0x27] @
                        '' was tried to register from remoteProject '' @ [CHR 0x27] @
                        the remoteProjectId @ [CHR 0x27] @
                        '' but no remote key was found in the config.'') [] m
                else m);
          unifiedId = unifyId m1 identifier remoteData;
          m2 = (if logLevel m1 = DEBUG
                then logger DEBUG ''Registering Referenced Item ''
                       [JObj [(''remoteProjectKey'', opt_json remoteProjectKey),
                              (''identifier'', JStr identifier),
                              (''path'', JStr (join path ''/''))]] m1
                else m1)
      in if truthy_str remoteProjectKey
         then (case map_of (remoteReferences m2) (the remoteProjectKey) of
                 None \<Rightarrow> Inl TypeError
               | Some bucket \<Rightarrow>
                   Inr (placeholder ''REFERENCED-REMOTE-ITEM-'' imageMapResolution unifiedId,
                        m2\<lparr>remoteReferences :=
                             AList.update (the remoteProjectKey)
                               (AList.update unifiedId (registered bucket unifiedId @ [path]) bucket)
                               (remoteReferences m2)\<rparr>))
         else Inr (placeholder ''REFERENCED-ITEM-'' imageMapResolution unifiedId,
                   m2\<lparr>referencedItems :=
                        AList.update unifiedId
                          (registered (referencedItems m2) unifiedId @ [path])
                          (referencedItems m2)\<rparr>))"

definition buildPreviewId :: "mapper \<Rightarrow> json \<Rightarrow> string option \<Rightarrow> string" where
  "buildPreviewId m identifier remoteProjectLocale =
     join [identifier,
           (if truthy_str remoteProjectLocale then JStr (the remoteProjectLocale)
            else JStr (m_locale m))] ''.''"

section \<open>Requests to the content store\<close>

text \<open>
  A request stands for the URL that \<^verbatim>\<open>buildCaaSUrl\<close> builds and the options given to
  \<^verbatim>\<open>fetch\<close>: it holds what they are built from. The world is what a call leaves behind
  outside the mapper: the requests issued so far, in order, and the log of the API.
\<close>

datatype ComparisonQueryOperatorEnum = IN | EQUALS

record QueryBuilderQuery =
  q_operator :: ComparisonQueryOperatorEnum
  q_value :: json
  q_field :: string

record FetchByFilterParams =
  p_filters :: "QueryBuilderQuery list"
  p_locale :: "string option"
  p_page :: "int option"
  p_pagesize :: "int option"
  p_additionalParams :: json
  p_remoteProject :: "string option"
  p_fetchOptions :: json
  p_filterContext :: json
  p_sort :: "json list option"
  p_normalized :: "bool option"

record request =
  r_filters :: "QueryBuilderQuery list"
  r_locale :: "string option"
  r_page :: int
  r_pagesize :: int
  r_additionalParams :: json
  r_remoteProject :: "string option"
  r_sort :: "json list"
  r_fetchOptions :: json

record http_response =
  ok :: bool
  status :: int
  json_body :: "json result"

record world =
  requests :: "request list"
  api_logged :: "log_entry list"

record MapResponse =
  mappedItems :: "json list"
  referenceMap :: ReferencedItemsInfo
  mr_resolvedReferences :: ResolvedReferencesInfo

record FetchResponse =
  fr_page :: int
  fr_pagesize :: int
  fr_totalPages :: json
  fr_size :: json
  fr_items :: "json list"
  fr_referenceMap :: "ReferencedItemsInfo option"
  fr_resolvedReferences :: "ResolvedReferencesInfo option"



definition bucket :: "mapper \<Rightarrow> string \<Rightarrow> ReferencedItemsInfo" where
  "bucket m projectKey =
     (case map_of (remoteReferences m) projectKey of Some b \<Rightarrow> b | None \<Rightarrow> [])"

definition example_api :: api where
  "example_api =
     \<lparr> remotes = [(''media'', \<lparr>rc_id = ''media'', rc_locale = ''en_GB''\<rparr>)],
       contentMode = RELEASE,
       api_maxReferenceDepth = None,
       api_logLevel = ERROR \<rparr>"

definition example_mapper :: mapper where
  "example_mapper = CaaSMapper example_api ''en_GB'' None None ERROR"

section \<open>Reading JSON values\<close>

text \<open>
  \<open>getProp\<close> is the property read \<^verbatim>\<open>j.k\<close>: it throws on \<^verbatim>\<open>undefined\<close> and \<^verbatim>\<open>null\<close>, gives
  the property of an object when it has one and \<^verbatim>\<open>undefined\<close> otherwise. The mapper reads
  data properties only (never \<^verbatim>\<open>length\<close> or an index), so arrays and primitive values
  give \<^verbatim>\<open>undefined\<close>. \<open>optProp\<close> is the optional chaining \<^verbatim>\<open>j?.k\<close>.
\<close>

fun getProp :: "json \<Rightarrow> string \<Rightarrow> json result" where
  "getProp JUndefined k = Inl TypeError"
| "getProp JNull k = Inl TypeError"
| "getProp (JObj kvs) k = Inr (case map_of kvs k of Some v \<Rightarrow> v | None \<Rightarrow> JUndefined)"
| "getProp j k = Inr JUndefined"

fun getPath :: "json \<Rightarrow> string list \<Rightarrow> json result" where
  "getPath j [] = Inr j"
| "getPath j (k # ks) = andThen (getProp j k) (\<lambda>v. getPath v ks)"

fun optProp :: "json \<Rightarrow> string \<Rightarrow> json" where
  "optProp (JObj kvs) k = (case map_of kvs k of Some v \<Rightarrow> v | None \<Rightarrow> JUndefined)"
| "optProp j k = JUndefined"

fun setProp :: "json \<Rightarrow> string \<Rightarrow> json \<Rightarrow> json" where
  "setProp (JObj kvs) k v = JObj (AList.update k v kvs)"
| "setProp j k v = j"

text \<open>
  The own enumerable properties of a value, in the order of \<^verbatim>\<open>Object.keys\<close>: the
  properties of an object, the elements of an array and the characters of a string
  under their indices, nothing for the other values.
\<close>

fun ownProperties :: "json \<Rightarrow> (string \<times> json) list" where
  "ownProperties (JObj kvs) = map (\<lambda>k. (k, optProp (JObj kvs) k)) (map fst kvs)"
| "ownProperties (JArr xs) = map (\<lambda>i. (show_nat i, xs ! i)) [0..<length xs]"
| "ownProperties (JStr s) = map (\<lambda>i. (show_nat i, JStr [s ! i])) [0..<length s]"
| "ownProperties j = []"

text \<open>
  Method calls: \<^verbatim>\<open>xs.map(f)\<close> needs an array. Parameters and fields that the TypeScript
  declarations type as \<^verbatim>\<open>string\<close> are read with \<open>asString\<close>, optional ones with
  \<open>asOptString\<close>; a value of another type there is outside the declared input and
  the model stops with \<open>TypeError\<close>.
\<close>

fun asArray :: "json \<Rightarrow> json list result" where
  "asArray (JArr xs) = Inr xs"
| "asArray j = Inl TypeError"

fun asString :: "json \<Rightarrow> string result" where
  "asString (JStr s) = Inr s"
| "asString j = Inl TypeError"

fun asOptString :: "json \<Rightarrow> string option result" where
  "asOptString (JStr s) = Inr (Some s)"
| "asOptString JUndefined = Inr None"
| "asOptString JNull = Inr None"
| "asOptString j = Inl TypeError"

fun mapM :: "('a \<Rightarrow> 'b result) \<Rightarrow> 'a list \<Rightarrow> 'b list result" where
  "mapM f [] = Inr []"
| "mapM f (x # xs) = andThen (f x) (\<lambda>y. andThen (mapM f xs) (\<lambda>ys. Inr (y # ys)))"

text \<open>
  \<^verbatim>\<open>Promise.all(xs.map((x, index) => f(x, index)))\<close> on the mapper: the calls are started
  in index order, and the model runs each to its end before the next one starts, which
  is one of the schedules of the asynchronous program. The results keep the order of
  the input.
\<close>

fun Promise_all_map ::
  "('a \<Rightarrow> nat \<Rightarrow> mapper \<Rightarrow> ('b \<times> mapper) result) \<Rightarrow> 'a list \<Rightarrow> nat \<Rightarrow> mapper
     \<Rightarrow> ('b list \<times> mapper) result" where
  "Promise_all_map f [] index m = Inr ([], m)"
| "Promise_all_map f (x # xs) index m =
     andThen (f x index m) (\<lambda>(y, m1).
     andThen (Promise_all_map f xs (Suc index) m1) (\<lambda>(ys, m2).
     Inr (y # ys, m2)))"

definition assign :: "(string \<times> 'v) list \<Rightarrow> (string \<times> 'v) list \<Rightarrow> (string \<times> 'v) list" where
  "assign target source = foldl (\<lambda>acc (k, v). AList.update k v acc) target source"

definition idx :: "nat \<Rightarrow> json" where
  "idx i = JNum (int i)"

section \<open>External collaborators\<close>

text \<open>
  What the mapper calls but does not define is a parameter of the model: the custom
  mapping hook, the XML parser of rich text, \<^verbatim>\<open>parseISO\<close>, the values of the enum
  \<^verbatim>\<open>ImageMapAreaType\<close>, the helpers \<^verbatim>\<open>getItemId\<close>,
  \<^verbatim>\<open>findResolvedReferencesByIds\<close> and \<^verbatim>\<open>denormalizeResolvedReferences\<close> of
  \<^verbatim>\<open>MappingUtils\<close>, the item filter of the API and the HTTP client \<^verbatim>\<open>fetch\<close>,
  which answers a request with a response or fails.

  The custom mapper is handed bound methods of the mapper
  (\<^verbatim>\<open>registerReferencedItem\<close>, \<^verbatim>\<open>mapDataEntries\<close>, ...) and not the mapper itself: it
  can add to the registries and to the log, and to nothing else. The model gives it the
  mapper and keeps of the mapper it returns the registries and the log
  (\<open>customMapperEffects\<close>). The result \<^verbatim>\<open>undefined\<close> defers to the built-in mapping.
  The custom mapper is handed the API as well, through which it could send requests of
  its own; the world is no argument of the custom mapper of the model, so whatever is
  stated about the requests sent while items are mapped is stated for a mapper without
  custom mapper.
\<close>

record collaborators =
  customMapper :: "(json \<Rightarrow> path \<Rightarrow> mapper \<Rightarrow> (json \<times> mapper) result) option"
  xmlParser_parse :: "json \<Rightarrow> json result"
  parseISO :: "json \<Rightarrow> json"
  ImageMapAreaType_RECT :: json
  ImageMapAreaType_CIRCLE :: json
  ImageMapAreaType_POLY :: json
  getItemId :: "json \<Rightarrow> string option \<Rightarrow> json result"
  findResolvedReferencesByIds :: "json list \<Rightarrow> ResolvedReferencesInfo \<Rightarrow> json list result"
  denormalizeResolvedReferences ::
    "json list \<Rightarrow> ReferencedItemsInfo \<Rightarrow> ResolvedReferencesInfo \<Rightarrow> json list result"
  caasItemFilter :: "(MapResponse \<Rightarrow> json \<Rightarrow> MapResponse result) option"
  fetch :: "request \<Rightarrow> http_response result"

definition customMapperEffects :: "mapper \<Rightarrow> mapper \<Rightarrow> mapper" where
  "customMapperEffects m m' =
     m\<lparr>referencedItems := referencedItems m',
       remoteReferences := remoteReferences m',
       logged := logged m'\<rparr>"

definition callCustomMapper ::
  "collaborators \<Rightarrow> json \<Rightarrow> path \<Rightarrow> mapper \<Rightarrow> (json \<times> mapper) result" where
  "callCustomMapper env entry path m =
     (case customMapper env of
        None \<Rightarrow> Inr (JUndefined, m)
      | Some custom \<Rightarrow>
          andThen (custom entry path m) (\<lambda>(r, m'). Inr (r, customMapperEffects m m')))"

section \<open>The content tree mapper\<close>

definition buildMediaUrl :: "mapper \<Rightarrow> json \<Rightarrow> json \<Rightarrow> json result" where
  "buildMediaUrl m url revision =
     (if truthy revision \<and> contentMode (api m) = PREVIEW
      then andThen (asString url) (\<lambda>s.
           Inr (JStr (s @ (if CHR ''?'' \<in> set s then ''&'' else ''?'') @ ''rev='' @
                      toStr revision)))
      else Inr url)"

text \<open>The cases of \<open>mapDataEntry\<close> that neither recurse nor touch the mapper.\<close>

definition mapCombobox :: "json \<Rightarrow> json result" where
  "mapCombobox entry =
     andThen (getProp entry ''value'') (\<lambda>v.
     if truthy v
     then andThen (getProp v ''identifier'') (\<lambda>k.
          andThen (getProp v ''label'') (\<lambda>l.
          Inr (JObj [(''type'', JStr ''Option''), (''key'', k), (''value'', l)])))
     else Inr JNull)"

definition mapRadiobutton :: "json \<Rightarrow> json result" where
  "mapRadiobutton entry =
     andThen (getProp entry ''value'') (\<lambda>v.
     if truthy v
     then andThen (getProp v ''identifier'') (\<lambda>k.
          andThen (getProp v ''label'') (\<lambda>l.
          Inr (JObj (assign [(''type'', JStr ''Option''), (''key'', k), (''value'', l)]
                       (ownProperties v)))))
     else Inr JNull)"

definition mapDate :: "collaborators \<Rightarrow> json \<Rightarrow> json result" where
  "mapDate env entry =
     andThen (getProp entry ''value'') (\<lambda>v.
     Inr (if truthy v then parseISO env v else JNull))"

definition mapToggle :: "json \<Rightarrow> json result" where
  "mapToggle entry =
     andThen (getProp entry ''value'') (\<lambda>v. Inr (if truthy v then v else JBool False))"

definition mapOption :: "json \<Rightarrow> json result" where
  "mapOption entry =
     andThen (getProp entry ''identifier'') (\<lambda>k.
     andThen (getProp entry ''label'') (\<lambda>l.
     Inr (JObj [(''type'', JStr ''Option''), (''key'', k), (''value'', l)])))"

definition lastSegment :: "string \<Rightarrow> string" where
  "lastSegment s = rev (takeWhile (\<lambda>c. c \<noteq> CHR ''/'') (rev s))"

definition mapPermissionGroup :: "json \<Rightarrow> json result" where
  "mapPermissionGroup g =
     andThen (getProp g ''groupPath'') (\<lambda>groupPath.
     andThen (asString groupPath) (\<lambda>s.
     andThen (getProp g ''groupName'') (\<lambda>groupName.
     Inr (JObj [(''groupId'', JStr (lastSegment s)),
                (''groupName'', groupName),
                (''groupPath'', groupPath)]))))"

definition mapPermissionActivity :: "json \<Rightarrow> json result" where
  "mapPermissionActivity activity =
     andThen (getProp activity ''allowed'') (\<lambda>allowed.
     andThen (asArray allowed) (\<lambda>as.
     andThen (mapM mapPermissionGroup as) (\<lambda>allowed'.
     andThen (getProp activity ''forbidden'') (\<lambda>forbidden.
     andThen (asArray forbidden) (\<lambda>fs.
     andThen (mapM mapPermissionGroup fs) (\<lambda>forbidden'.
     Inr (JObj [(''allowed'', JArr allowed'), (''forbidden'', JArr forbidden')])))))))"

definition mapPermission :: "json \<Rightarrow> json result" where
  "mapPermission entry =
     andThen (getProp entry ''fsType'') (\<lambda>fsType.
     andThen (getProp entry ''name'') (\<lambda>name.
     andThen (getProp entry ''value'') (\<lambda>v.
     andThen (asArray v) (\<lambda>activities.
     andThen (mapM mapPermissionActivity activities) (\<lambda>v'.
     Inr (JObj [(''type'', JStr ''Permission''), (''fsType'', fsType), (''name'', name),
                (''value'', JArr v')]))))))"

text \<open>The cases that register references.\<close>

definition orProject :: "json \<Rightarrow> string option \<Rightarrow> string option result" where
  "orProject remoteProject remoteProjectId =
     (if truthy remoteProject then asOptString remoteProject else Inr remoteProjectId)"

definition registerFrom ::
  "mapper \<Rightarrow> json \<Rightarrow> path \<Rightarrow> string option \<Rightarrow> string option \<Rightarrow> (json \<times> mapper) result" where
  "registerFrom m identifier path remoteProjectId imageMapResolution =
     andThen (asString identifier) (\<lambda>ident.
     andThen (registerReferencedItem m ident path remoteProjectId imageMapResolution)
       (\<lambda>(token, m'). Inr (JStr token, m')))"

definition mapReference ::
  "json \<Rightarrow> path \<Rightarrow> string option \<Rightarrow> mapper \<Rightarrow> (json \<times> mapper) result" where
  "mapReference entry path remoteProjectId m =
     andThen (getProp entry ''value'') (\<lambda>v.
     if \<not> truthy v then Inr (JNull, m)
     else andThen (getProp v ''fsType'') (\<lambda>fsType.
       if fsType = JStr ''Media''
       then andThen (getProp v ''identifier'') (\<lambda>identifier.
            andThen (getProp v ''remoteProject'') (\<lambda>remoteProject.
            andThen (orProject remoteProject remoteProjectId) (\<lambda>project.
            registerFrom m identifier path project None)))
       else if fsType \<in> set [JStr ''PageRef'', JStr ''GCAPage'']
       then andThen (getProp v ''identifier'') (\<lambda>identifier.
            andThen (getProp v ''remoteProject'') (\<lambda>remoteProject.
            let reference =
                  [(''type'', JStr ''Reference''),
                   (''referenceId'', identifier),
                   (''referenceRemoteProject'',
                      if truthy remoteProject then remoteProject else opt_json remoteProjectId),
                   (''referenceType'', fsType)]
            in if ''section'' \<in> set (map fst (ownProperties v))
               then andThen (getProp v ''section'') (\<lambda>section.
                    Inr (JObj (assign reference [(''section'', section)]), m))
               else Inr (JObj reference, m)))
       else Inr (entry, m)))"

definition mapIndex ::
  "json \<Rightarrow> path \<Rightarrow> string option \<Rightarrow> mapper \<Rightarrow> (json \<times> mapper) result" where
  "mapIndex entry path remoteProjectId m =
     andThen (getProp entry ''dapType'') (\<lambda>dapType.
     if dapType = JStr ''DatasetDataAccessPlugin''
     then andThen (getProp entry ''value'') (\<lambda>v.
          andThen (asArray v) (\<lambda>records.
          andThen (Promise_all_map
                     (\<lambda>record index m.
                        let identifier =
                              optProp (optProp (optProp record ''value'') ''target'') ''identifier''
                        in if \<not> truthy identifier then Inr (JNull, m)
                           else registerFrom m identifier (path @ [idx index]) remoteProjectId None)
                     records 0 m) (\<lambda>(tokens, m').
          Inr (JArr (filter truthy tokens), m'))))
     else Inr (entry, m))"

text \<open>
  The recursive core. \<open>mapDataEntry\<close> calls itself on the children of an entry, directly
  and through \<open>mapDataEntries\<close>, \<open>mapSection\<close>, \<open>mapImageMap\<close> and
  \<open>mapLinksInRichTextElements\<close>. These are written first, with the mapping of a child
  entry as the parameter \<open>mapEntry\<close>; \<open>mapDataEntry\<close> then closes the recursion. The
  recursion of the program follows the content tree, except that rich text is parsed
  from a string by the external parser and its links are mapped again: the fuel of
  \<open>mapDataEntry\<close> bounds the depth of nested entries.
\<close>

type_synonym entry_mapper =
  "json \<Rightarrow> path \<Rightarrow> string option \<Rightarrow> string option \<Rightarrow> mapper \<Rightarrow> (json \<times> mapper) result"

definition mapDataEntries_with :: "entry_mapper \<Rightarrow> entry_mapper" where
  "mapDataEntries_with mapEntry entries path remoteProjectLocale remoteProjectId m =
     (let props = ownProperties (if truthy entries then entries else JObj [])
      in andThen (Promise_all_map
                    (\<lambda>(key, entry) index.
                       mapEntry entry (path @ [JStr key]) remoteProjectLocale remoteProjectId)
                    props 0 m) (\<lambda>(mappedEntries, m1).
         Inr (JObj (assign [] (zip (map fst props) mappedEntries)), m1)))"

definition mapSection_with :: "entry_mapper \<Rightarrow> entry_mapper" where
  "mapSection_with mapEntry section path remoteProjectLocale remoteProjectId m =
     andThen (getProp section ''identifier'') (\<lambda>identifier.
     andThen (getPath section [''template'', ''uid'']) (\<lambda>sectionType.
     andThen (getProp section ''formData'') (\<lambda>formData.
     andThen (mapDataEntries_with mapEntry formData (path @ [JStr ''data''])
                remoteProjectLocale remoteProjectId m) (\<lambda>(data, m1).
     andThen (getProp section ''displayed'') (\<lambda>displayed.
     Inr (JObj [(''id'', identifier),
                (''type'', JStr ''Section''),
                (''sectionType'', sectionType),
                (''previewId'', JStr (buildPreviewId m identifier remoteProjectLocale)),
                (''data'', data),
                (''displayed'', displayed),
                (''children'', JArr [])], m1))))))"

definition mapImageMapArea_with :: "collaborators \<Rightarrow> entry_mapper \<Rightarrow> entry_mapper" where
  "mapImageMapArea_with env mapEntry area path remoteProjectLocale remoteProjectId m =
     andThen (getProp area ''areaType'') (\<lambda>areaType.
     andThen (getProp area ''link'') (\<lambda>link.
     andThen
       (if truthy link
        then andThen (getPath link [''template'', ''uid'']) (\<lambda>template.
             andThen (getProp link ''formData'') (\<lambda>formData.
             andThen (mapDataEntries_with mapEntry formData
                        (path @ [JStr ''link'', JStr ''data''])
                        remoteProjectLocale remoteProjectId m) (\<lambda>(data, m1).
             Inr (JObj [(''template'', template), (''data'', data)], m1))))
        else Inr (link, m)) (\<lambda>(link', m1).
     let base = [(''areaType'', areaType), (''link'', link')]
     in if areaType = ImageMapAreaType_RECT env
        then andThen (getProp area ''leftTop'') (\<lambda>leftTop.
             andThen (getProp area ''rightBottom'') (\<lambda>rightBottom.
             Inr (JObj (assign base [(''leftTop'', leftTop), (''rightBottom'', rightBottom)]),
                  m1)))
        else if areaType = ImageMapAreaType_CIRCLE env
        then andThen (getProp area ''center'') (\<lambda>center.
             andThen (getProp area ''radius'') (\<lambda>radius.
             Inr (JObj (assign base [(''center'', center), (''radius'', radius)]), m1)))
        else if areaType = ImageMapAreaType_POLY env
        then andThen (getProp area ''points'') (\<lambda>points.
             Inr (JObj (assign base [(''points'', points)]), m1))
        else Inr (JNull, m1))))"

definition mapImageMap_with :: "collaborators \<Rightarrow> entry_mapper \<Rightarrow> entry_mapper" where
  "mapImageMap_with env mapEntry imageMap path remoteProjectLocale remoteProjectId m =
     andThen (getProp imageMap ''value'') (\<lambda>v.
     if \<not> truthy v then Inl (Error ''ImageMap value is null'')
     else andThen (getProp v ''media'') (\<lambda>media.
          andThen (getProp v ''areas'') (\<lambda>areas.
          andThen (getProp v ''resolution'') (\<lambda>resolution.
          let m0 = logger DEBUG ''CaaSMapper.mapImageMap - imageMap'' [imageMap] m
          in andThen (asArray areas) (\<lambda>areaList.
             andThen (Promise_all_map
                        (\<lambda>area index.
                           mapImageMapArea_with env mapEntry area
                             (path @ [JStr ''areas'', idx index])
                             remoteProjectLocale remoteProjectId)
                        areaList 0 m0) (\<lambda>(mappedAreas, m1).
             andThen
               (if truthy media
                then andThen (getProp media ''identifier'') (\<lambda>identifier.
                     andThen (getProp media ''remoteProject'') (\<lambda>remoteProject.
                     andThen (asOptString remoteProject) (\<lambda>project.
                     andThen (getProp resolution ''uid'') (\<lambda>uid.
                     andThen (asOptString uid) (\<lambda>imageMapResolution.
                     registerFrom m1 identifier (path @ [JStr ''media'']) project
                       imageMapResolution)))))
                else Inr (JNull, m1)) (\<lambda>(image, m2).
             Inr (JObj [(''type'', JStr ''ImageMap''),
                        (''areas'', JArr (filter truthy mappedAreas)),
                        (''media'', image)], m2))))))))"

text \<open>
  \<open>mapLinksInRichTextElements\<close> follows the tree of rich text elements: it recurses on
  the \<^verbatim>\<open>content\<close> of an element, which is a part of the element.
\<close>

lemma andThen_cong [fundef_cong]:
  "r = r' \<Longrightarrow> (\<And>x. r' = Inr x \<Longrightarrow> f x = f' x) \<Longrightarrow> andThen r f = andThen r' f'"
  by (auto simp: andThen_def split: sum.splits)

lemma Promise_all_map_cong [fundef_cong]:
  "xs = ys \<Longrightarrow> i = j \<Longrightarrow> m = m' \<Longrightarrow> (\<And>x k s. x \<in> set ys \<Longrightarrow> f x k s = g x k s)
     \<Longrightarrow> Promise_all_map f xs i m = Promise_all_map g ys j m'"
proof (induction ys arbitrary: xs i j m m')
  case Nil
  then show ?case by simp
next
  case (Cons y ys)
  have "Promise_all_map f ys k s = Promise_all_map g ys k s" for k s
    using Cons.IH [of ys k k s s] Cons.prems(4) by simp
  with Cons.prems show ?case by simp
qed

lemma size_map_of: "map_of kvs k = Some v \<Longrightarrow> size v < size (JObj kvs)"
  by (induction kvs) (auto split: if_splits)

lemma size_getProp: "getProp j k = Inr v \<Longrightarrow> v \<noteq> JUndefined \<Longrightarrow> size v < size j"
  by (cases j) (auto split: option.splits dest: size_map_of)

lemma getProp_setProp_other: "k \<noteq> k' \<Longrightarrow> getProp (setProp j k' v) k = getProp j k"
  by (cases j) (auto simp: update_conv')

lemma size_element: "x \<in> set xs \<Longrightarrow> size x < size (JArr xs)"
  by (induction xs) auto

function mapLinksInRichTextElements_with :: "entry_mapper \<Rightarrow> entry_mapper" where
  "mapLinksInRichTextElements_with mapEntry richTextElements path remoteProjectLocale
       remoteProjectId m =
     andThen (asArray richTextElements) (\<lambda>elements.
     andThen (Promise_all_map
                (\<lambda>richTextElement index m.
                   andThen (getProp richTextElement ''type'') (\<lambda>elementType.
                   andThen
                     (if elementType = JStr ''link''
                      then andThen (getPath richTextElement [''data'', ''type'']) (\<lambda>template.
                           andThen (getPath richTextElement [''data'', ''data'']) (\<lambda>linkData.
                           andThen (mapDataEntries_with mapEntry linkData
                                      (path @ [idx index, JStr ''data'', JStr ''data''])
                                      remoteProjectLocale remoteProjectId m) (\<lambda>(data, m1).
                           Inr (setProp richTextElement ''data''
                                  (JObj [(''type'', JStr ''Link''), (''template'', template),
                                         (''data'', data), (''meta'', JObj [])]), m1))))
                      else Inr (richTextElement, m)) (\<lambda>(richTextElement', m1).
                   andThen (getProp richTextElement' ''content'') (\<lambda>content.
                   case content of
                     JArr cs \<Rightarrow>
                       andThen (mapLinksInRichTextElements_with mapEntry content
                                  (path @ [idx index, JStr ''content''])
                                  remoteProjectLocale remoteProjectId m1) (\<lambda>(content', m2).
                       Inr (setProp richTextElement' ''content'' content', m2))
                   | _ \<Rightarrow> Inr (richTextElement', m1)))))
                elements 0 m) (\<lambda>(rs, m1).
     Inr (JArr rs, m1)))"
  by pat_completeness auto
termination
proof (relation "measure (\<lambda>(mapEntry, richTextElements, path, l, p, m). size richTextElements)",
    goal_cases)
  case 1
  then show ?case by simp
next
  case (2 mapEntry richTextElements path remoteProjectLocale remoteProjectId m elements
      richTextElement i s elementType x e' m1 content cs)
  from 2 have "getProp e' ''content'' = getProp richTextElement ''content''"
    by (auto simp: andThen_def getProp_setProp_other split: if_splits sum.splits prod.splits)
  with 2 show ?case
    by (cases richTextElements) (auto dest!: size_getProp size_element)
qed

declare mapLinksInRichTextElements_with.simps [simp del]

text \<open>
  The cases of \<open>mapDataEntry\<close> that map children, one definition per case, and
  the dispatch on the kind of the entry.
\<close>

definition mapRichText :: "collaborators \<Rightarrow> entry_mapper \<Rightarrow> entry_mapper" where
  "mapRichText env mapEntry entry path remoteProjectLocale remoteProjectId m =
     andThen (getProp entry ''value'') (\<lambda>v.
     andThen (if truthy v then xmlParser_parse env v else Inr (JArr [])) (\<lambda>richTextElements.
     mapLinksInRichTextElements_with mapEntry richTextElements path
       remoteProjectLocale remoteProjectId m))"

definition mapLink :: "entry_mapper \<Rightarrow> entry_mapper" where
  "mapLink mapEntry entry path remoteProjectLocale remoteProjectId m =
     andThen (getProp entry ''value'') (\<lambda>v.
     if truthy v
     then andThen (getPath v [''template'', ''uid'']) (\<lambda>template.
          andThen (getProp v ''formData'') (\<lambda>formData.
          andThen (mapDataEntries_with mapEntry formData (path @ [JStr ''data''])
                     remoteProjectLocale remoteProjectId m) (\<lambda>(data, m1).
          andThen (getProp v ''metaFormData'') (\<lambda>metaFormData.
          andThen (mapDataEntries_with mapEntry metaFormData (path @ [JStr ''meta''])
                     remoteProjectLocale remoteProjectId m1) (\<lambda>(meta, m2).
          Inr (JObj [(''type'', JStr ''Link''), (''template'', template),
                     (''data'', data), (''meta'', meta)], m2))))))
     else Inr (JNull, m))"

definition mapChildren ::
  "entry_mapper \<Rightarrow> json list \<Rightarrow> path \<Rightarrow> string option \<Rightarrow> string option \<Rightarrow> mapper
     \<Rightarrow> (json \<times> mapper) result" where
  "mapChildren mapEntry children path remoteProjectLocale remoteProjectId m =
     andThen (Promise_all_map
                (\<lambda>childEntry index.
                   mapEntry childEntry (path @ [idx index]) remoteProjectLocale remoteProjectId)
                children 0 m) (\<lambda>(rs, m1).
     Inr (JArr rs, m1))"

definition mapList :: "entry_mapper \<Rightarrow> entry_mapper" where
  "mapList mapEntry entry path remoteProjectLocale remoteProjectId m =
     andThen (getProp entry ''value'') (\<lambda>v.
     if \<not> truthy v then Inr (JArr [], m)
     else andThen (asArray v) (\<lambda>children.
          mapChildren mapEntry children path remoteProjectLocale remoteProjectId m))"

definition mapImageMapEntry :: "collaborators \<Rightarrow> entry_mapper \<Rightarrow> entry_mapper" where
  "mapImageMapEntry env mapEntry entry path remoteProjectLocale remoteProjectId m =
     andThen (getProp entry ''value'') (\<lambda>v.
     if \<not> truthy entry \<or> \<not> truthy v then Inr (JNull, m)
     else mapImageMap_with env mapEntry entry path remoteProjectLocale remoteProjectId m)"

definition mapDatasetEntry :: "entry_mapper \<Rightarrow> entry_mapper" where
  "mapDatasetEntry mapEntry entry path remoteProjectLocale remoteProjectId m =
     andThen (getProp entry ''value'') (\<lambda>v.
     if \<not> truthy v then Inr (JNull, m)
     else (case v of
             JArr children \<Rightarrow>
               mapChildren mapEntry children path remoteProjectLocale remoteProjectId m
           | _ \<Rightarrow>
               andThen (getProp v ''fsType'') (\<lambda>valueType.
               if valueType = JStr ''DatasetReference''
               then andThen (getPath v [''target'', ''identifier'']) (\<lambda>identifier.
                    registerFrom m identifier path remoteProjectId None)
               else Inr (JNull, m))))"

definition mapCard :: "entry_mapper \<Rightarrow> path \<Rightarrow> string option \<Rightarrow> string option \<Rightarrow> json \<Rightarrow> nat
    \<Rightarrow> mapper \<Rightarrow> (json \<times> mapper) result" where
  "mapCard mapEntry path remoteProjectLocale remoteProjectId catalogCard index m =
     andThen (getPath catalogCard [''template'', ''fsType'']) (\<lambda>templateType.
     if templateType = JStr ''SectionTemplate'' \<or> templateType = JStr ''LinkTemplate''
     then andThen (getPath catalogCard [''template'', ''name'']) (\<lambda>name.
          andThen (getPath catalogCard [''template'', ''displayName'']) (\<lambda>displayName.
          mapSection_with mapEntry
            (JObj (assign (ownProperties catalogCard)
                     [(''fsType'', JStr ''Section''), (''name'', name),
                      (''displayName'', displayName)]))
            (path @ [idx index]) remoteProjectLocale remoteProjectId m))
     else if templateType = JStr ''PageTemplate''
     then andThen (getProp catalogCard ''identifier'') (\<lambda>identifier.
          andThen (getPath catalogCard [''template'', ''uid'']) (\<lambda>template.
          andThen (getProp catalogCard ''formData'') (\<lambda>formData.
          andThen (mapDataEntries_with mapEntry formData (path @ [idx index, JStr ''data''])
                     remoteProjectLocale remoteProjectId m) (\<lambda>(data, m1).
          Inr (JObj [(''id'', identifier),
                     (''previewId'', JStr (buildPreviewId m identifier remoteProjectLocale)),
                     (''template'', template),
                     (''data'', data)], m1)))))
     else Inr (catalogCard, m))"

definition mapCatalog :: "entry_mapper \<Rightarrow> entry_mapper" where
  "mapCatalog mapEntry entry path remoteProjectLocale remoteProjectId m =
     andThen (getProp entry ''value'') (\<lambda>v.
     andThen (asArray (if truthy v then v else JArr [])) (\<lambda>cards.
     andThen (Promise_all_map
                (mapCard mapEntry path remoteProjectLocale remoteProjectId) cards 0 m)
       (\<lambda>(rs, m1).
     Inr (JArr rs, m1))))"

definition mapDataEntry_body :: "collaborators \<Rightarrow> entry_mapper \<Rightarrow> entry_mapper" where
  "mapDataEntry_body env mapEntry entry path remoteProjectLocale remoteProjectId m0 =
     andThen (callCustomMapper env entry path m0) (\<lambda>(result, m).
     if result \<noteq> JUndefined then Inr (result, m)
     else andThen (getProp entry ''fsType'') (\<lambda>fsType.
       if fsType = JStr ''CMS_INPUT_COMBOBOX'' then
         andThen (mapCombobox entry) (\<lambda>r. Inr (r, m))
       else if fsType = JStr ''CMS_INPUT_DOM'' \<or> fsType = JStr ''CMS_INPUT_DOMTABLE'' then
         mapRichText env mapEntry entry path remoteProjectLocale remoteProjectId m
       else if fsType = JStr ''CMS_INPUT_NUMBER'' \<or> fsType = JStr ''CMS_INPUT_TEXT''
               \<or> fsType = JStr ''CMS_INPUT_TEXTAREA'' then
         andThen (getProp entry ''value'') (\<lambda>simpleValue. Inr (simpleValue, m))
       else if fsType = JStr ''CMS_INPUT_RADIOBUTTON'' then
         andThen (mapRadiobutton entry) (\<lambda>r. Inr (r, m))
       else if fsType = JStr ''CMS_INPUT_DATE'' then
         andThen (mapDate env entry) (\<lambda>r. Inr (r, m))
       else if fsType = JStr ''CMS_INPUT_LINK'' then
         mapLink mapEntry entry path remoteProjectLocale remoteProjectId m
       else if fsType = JStr ''CMS_INPUT_LIST'' then
         mapList mapEntry entry path remoteProjectLocale remoteProjectId m
       else if fsType = JStr ''CMS_INPUT_CHECKBOX'' then
         mapList mapEntry entry path remoteProjectLocale remoteProjectId m
       else if fsType = JStr ''CMS_INPUT_IMAGEMAP'' then
         mapImageMapEntry env mapEntry entry path remoteProjectLocale remoteProjectId m
       else if fsType = JStr ''FS_DATASET'' then
         mapDatasetEntry mapEntry entry path remoteProjectLocale remoteProjectId m
       else if fsType = JStr ''CMS_INPUT_TOGGLE'' then
         andThen (mapToggle entry) (\<lambda>r. Inr (r, m))
       else if fsType = JStr ''FS_CATALOG'' then
         mapCatalog mapEntry entry path remoteProjectLocale remoteProjectId m
       else if fsType = JStr ''FS_REFERENCE'' then
         mapReference entry path remoteProjectId m
       else if fsType = JStr ''FS_INDEX'' then
         mapIndex entry path remoteProjectId m
       else if fsType = JStr ''Option'' then
         andThen (mapOption entry) (\<lambda>r. Inr (r, m))
       else if fsType = JStr ''CMS_INPUT_PERMISSION'' then
         andThen (mapPermission entry) (\<lambda>r. Inr (r, m))
       else Inr (entry, m)))"

primrec mapDataEntry :: "collaborators \<Rightarrow> nat \<Rightarrow> entry_mapper" where
  "mapDataEntry env 0 = (\<lambda>entry path remoteProjectLocale remoteProjectId m. Inl OutOfFuel)"
| "mapDataEntry env (Suc n) = mapDataEntry_body env (mapDataEntry env n)"

definition mapDataEntries :: "collaborators \<Rightarrow> nat \<Rightarrow> entry_mapper" where
  "mapDataEntries env fuel = mapDataEntries_with (mapDataEntry env fuel)"

definition mapSection :: "collaborators \<Rightarrow> nat \<Rightarrow> entry_mapper" where
  "mapSection env fuel = mapSection_with (mapDataEntry env fuel)"

definition mapImageMap :: "collaborators \<Rightarrow> nat \<Rightarrow> entry_mapper" where
  "mapImageMap env fuel = mapImageMap_with env (mapDataEntry env fuel)"


section \<open>Mapping pages, datasets and media\<close>

definition UNKNOWN_BODY_CONTENT :: string where
  "UNKNOWN_BODY_CONTENT = ''Unknown BodyContent could not be mapped.''"

definition mapContent2Section :: "mapper \<Rightarrow> json \<Rightarrow> string option \<Rightarrow> json result" where
  "mapContent2Section m content2Section remoteProjectLocale =
     andThen (getProp content2Section ''identifier'') (\<lambda>identifier.
     andThen (getProp content2Section ''entityType'') (\<lambda>entityType.
     andThen (getProp content2Section ''filterParams'') (\<lambda>filterParams.
     andThen (getProp content2Section ''maxPageCount'') (\<lambda>maxPageCount.
     andThen (getProp content2Section ''ordering'') (\<lambda>ordering.
     andThen (getProp content2Section ''query'') (\<lambda>query.
     andThen (getProp content2Section ''recordCountPerPage'') (\<lambda>recordCountPerPage.
     andThen (getProp content2Section ''schema'') (\<lambda>schema.
     andThen (getPath content2Section [''template'', ''uid'']) (\<lambda>sectionType.
     Inr (JObj [(''id'', identifier),
                (''previewId'', JStr (buildPreviewId m identifier remoteProjectLocale)),
                (''type'', JStr ''Section''),
                (''data'', JObj [(''entityType'', entityType),
                                 (''filterParams'', filterParams),
                                 (''maxPageCount'', maxPageCount),
                                 (''ordering'', ordering),
                                 (''query'', query),
                                 (''recordCountPerPage'', recordCountPerPage),
                                 (''schema'', schema)]),
                (''sectionType'', sectionType),
                (''children'', JArr [])]))))))))))"

definition mapBodyContent :: "collaborators \<Rightarrow> nat \<Rightarrow> entry_mapper" where
  "mapBodyContent env fuel content path remoteProjectLocale remoteProjectId m =
     andThen (getProp content ''fsType'') (\<lambda>fsType.
     if fsType = JStr ''Content2Section'' then
       andThen (mapContent2Section m content remoteProjectLocale) (\<lambda>r. Inr (r, m))
     else if fsType = JStr ''Section'' \<or> fsType = JStr ''SectionReference''
             \<or> fsType = JStr ''GCASection'' then
       mapSection env fuel content path remoteProjectLocale remoteProjectId m
     else Inl (Error (UNKNOWN_BODY_CONTENT @ '' fsType=['' @ toStr fsType @ '']'')))"

definition mapPageBody :: "collaborators \<Rightarrow> nat \<Rightarrow> entry_mapper" where
  "mapPageBody env fuel body path remoteProjectLocale remoteProjectId m =
     andThen (getProp body ''name'') (\<lambda>name.
     andThen (getProp body ''identifier'') (\<lambda>identifier.
     andThen (getProp body ''children'') (\<lambda>children.
     andThen (asArray children) (\<lambda>cs.
     andThen (Promise_all_map
                (\<lambda>child index.
                   mapBodyContent env fuel child (path @ [JStr ''children'', idx index])
                     remoteProjectLocale remoteProjectId)
                cs 0 m) (\<lambda>(rs, m1).
     Inr (JObj [(''type'', JStr ''PageBody''),
                (''name'', name),
                (''previewId'', JStr (buildPreviewId m identifier remoteProjectLocale)),
                (''children'', JArr rs)], m1))))))"

definition mapPageRef :: "collaborators \<Rightarrow> nat \<Rightarrow> entry_mapper" where
  "mapPageRef env fuel pageRef path remoteProjectLocale remoteProjectId m =
     andThen (getPath pageRef [''page'', ''identifier'']) (\<lambda>pageId.
     andThen (getProp pageRef ''identifier'') (\<lambda>identifier.
     andThen (getPath pageRef [''page'', ''name'']) (\<lambda>name.
     andThen (getPath pageRef [''page'', ''template'', ''uid'']) (\<lambda>layout.
     andThen (getPath pageRef [''page'', ''children'']) (\<lambda>children.
     andThen (asArray children) (\<lambda>cs.
     andThen (Promise_all_map
                (\<lambda>child index.
                   mapPageBody env fuel child (path @ [JStr ''children'', idx index])
                     remoteProjectLocale remoteProjectId)
                cs 0 m) (\<lambda>(rs, m1).
     andThen (getPath pageRef [''page'', ''formData'']) (\<lambda>formData.
     andThen (mapDataEntries env fuel formData (path @ [JStr ''data''])
                remoteProjectLocale remoteProjectId m1) (\<lambda>(data, m2).
     andThen (getPath pageRef [''page'', ''metaFormData'']) (\<lambda>metaFormData.
     andThen (mapDataEntries env fuel metaFormData (path @ [JStr ''meta''])
                remoteProjectLocale remoteProjectId m2) (\<lambda>(meta, m3).
     andThen (getProp pageRef ''metaFormData'') (\<lambda>refMetaFormData.
     andThen
       (if truthy refMetaFormData
        then andThen (mapDataEntries env fuel refMetaFormData (path @ [JStr ''metaPageRef''])
                        remoteProjectLocale remoteProjectId m3) (\<lambda>(metaPageRef, m4).
             Inr ([(''metaPageRef'', metaPageRef)], m4))
        else Inr ([], m3)) (\<lambda>(metaPageRef, m4).
     Inr (JObj ([(''type'', JStr ''Page''),
                 (''id'', pageId),
                 (''refId'', identifier),
                 (''previewId'', JStr (buildPreviewId m identifier remoteProjectLocale)),
                 (''name'', name),
                 (''layout'', layout),
                 (''children'', JArr rs),
                 (''data'', data),
                 (''meta'', meta)]
                @ metaPageRef
                @ [(''remoteProjectId'', opt_json remoteProjectId)]), m4))))))))))))))"

definition mapProjectProperties :: "collaborators \<Rightarrow> nat \<Rightarrow> entry_mapper" where
  "mapProjectProperties env fuel properties path remoteProjectLocale remoteProjectId m =
     andThen (getProp properties ''formData'') (\<lambda>formData.
     andThen (mapDataEntries env fuel formData (path @ [JStr ''data''])
                remoteProjectLocale remoteProjectId m) (\<lambda>(data, m1).
     andThen (getPath properties [''template'', ''uid'']) (\<lambda>layout.
     andThen (getProp properties ''metaFormData'') (\<lambda>metaFormData.
     andThen (mapDataEntries env fuel metaFormData (path @ [JStr ''meta''])
                remoteProjectLocale remoteProjectId m1) (\<lambda>(meta, m2).
     andThen (getProp properties ''name'') (\<lambda>name.
     andThen (getProp properties ''identifier'') (\<lambda>identifier.
     Inr (JObj [(''type'', JStr ''ProjectProperties''),
                (''data'', data),
                (''layout'', layout),
                (''meta'', meta),
                (''name'', name),
                (''previewId'', JStr (buildPreviewId m identifier remoteProjectLocale)),
                (''id'', identifier),
                (''remoteProjectId'', opt_json remoteProjectId)], m2))))))))"

definition mapGCAPage :: "collaborators \<Rightarrow> nat \<Rightarrow> entry_mapper" where
  "mapGCAPage env fuel gcaPage path remoteProjectLocale remoteProjectId m =
     andThen (getProp gcaPage ''identifier'') (\<lambda>identifier.
     andThen (getProp gcaPage ''name'') (\<lambda>name.
     andThen (getPath gcaPage [''template'', ''uid'']) (\<lambda>layout.
     andThen (getProp gcaPage ''children'') (\<lambda>children.
     andThen (asArray children) (\<lambda>cs.
     andThen (Promise_all_map
                (\<lambda>child index.
                   mapPageBody env fuel child (path @ [JStr ''children'', idx index])
                     remoteProjectLocale remoteProjectId)
                cs 0 m) (\<lambda>(rs, m1).
     andThen (getProp gcaPage ''formData'') (\<lambda>formData.
     andThen (mapDataEntries env fuel formData (path @ [JStr ''data''])
                remoteProjectLocale remoteProjectId m1) (\<lambda>(data, m2).
     andThen (getProp gcaPage ''metaFormData'') (\<lambda>metaFormData.
     andThen (mapDataEntries env fuel metaFormData (path @ [JStr ''meta''])
                remoteProjectLocale remoteProjectId m2) (\<lambda>(meta, m3).
     Inr (JObj [(''type'', JStr ''GCAPage''),
                (''id'', identifier),
                (''previewId'', JStr (buildPreviewId m identifier remoteProjectLocale)),
                (''name'', name),
                (''layout'', layout),
                (''children'', JArr rs),
                (''data'', data),
                (''meta'', meta),
                (''remoteProjectId'', opt_json remoteProjectId)], m3)))))))))))"

definition mapDataset :: "collaborators \<Rightarrow> nat \<Rightarrow> entry_mapper" where
  "mapDataset env fuel dataset path remoteProjectLocale remoteProjectId m =
     andThen (getProp dataset ''identifier'') (\<lambda>identifier.
     andThen (getProp dataset ''schema'') (\<lambda>schema.
     andThen (getProp dataset ''entityType'') (\<lambda>entityType.
     andThen (getProp dataset ''formData'') (\<lambda>formData.
     andThen (mapDataEntries env fuel formData (path @ [JStr ''data''])
                remoteProjectLocale remoteProjectId m) (\<lambda>(data, m1).
     andThen (getProp dataset ''route'') (\<lambda>route.
     andThen (getProp dataset ''routes'') (\<lambda>routes.
     andThen (getProp dataset ''template'') (\<lambda>template.
     andThen (getPath dataset [''locale'', ''language'']) (\<lambda>language.
     andThen (getPath dataset [''locale'', ''country'']) (\<lambda>country.
     Inr (JObj [(''type'', JStr ''Dataset''),
                (''id'', identifier),
                (''previewId'', JStr (buildPreviewId m identifier remoteProjectLocale)),
                (''schema'', schema),
                (''entityType'', entityType),
                (''data'', data),
                (''route'', route),
                (''routes'', routes),
                (''template'', optProp template ''uid''),
                (''children'', JArr []),
                (''remoteProjectId'', opt_json remoteProjectId),
                (''locale'', JStr (toStr language @ ''_'' @ toStr country))], m1)))))))))))"

text \<open>
  \<open>mapMediaPictureResolutionUrls\<close> rewrites the \<^verbatim>\<open>url\<close> of every resolution in place;
  the assignment needs an object to assign to.
\<close>

fun assignProp :: "json \<Rightarrow> string \<Rightarrow> json \<Rightarrow> json result" where
  "assignProp (JObj kvs) k v = Inr (JObj (AList.update k v kvs))"
| "assignProp j k v = Inl TypeError"

definition mapMediaPictureResolutionUrls :: "mapper \<Rightarrow> json \<Rightarrow> json \<Rightarrow> json result" where
  "mapMediaPictureResolutionUrls m resolutions revision =
     andThen (mapM (\<lambda>(resolution, r).
                andThen (getProp r ''url'') (\<lambda>url.
                andThen (buildMediaUrl m url revision) (\<lambda>url'.
                andThen (assignProp r ''url'' url') (\<lambda>r'.
                Inr (resolution, r')))))
              (ownProperties resolutions)) (\<lambda>kvs.
     Inr (case resolutions of
            JObj _ \<Rightarrow> JObj kvs
          | JArr _ \<Rightarrow> JArr (map snd kvs)
          | _ \<Rightarrow> resolutions))"

definition mapMediaPicture :: "collaborators \<Rightarrow> nat \<Rightarrow> entry_mapper" where
  "mapMediaPicture env fuel item path remoteProjectLocale remoteProjectId m =
     andThen (getProp item ''identifier'') (\<lambda>identifier.
     andThen (getProp item ''metaFormData'') (\<lambda>metaFormData.
     andThen (mapDataEntries env fuel metaFormData (path @ [JStr ''meta''])
                remoteProjectLocale remoteProjectId m) (\<lambda>(meta, m1).
     andThen (getProp item ''description'') (\<lambda>description.
     andThen (getProp item ''resolutionsMetaData'') (\<lambda>resolutionsMetaData.
     andThen (getProp item ''changeInfo'') (\<lambda>changeInfo.
     andThen (mapMediaPictureResolutionUrls m resolutionsMetaData
                (optProp changeInfo ''revision'')) (\<lambda>resolutions.
     Inr (JObj [(''type'', JStr ''Image''),
                (''id'', identifier),
                (''previewId'', JStr (buildPreviewId m identifier remoteProjectLocale)),
                (''meta'', meta),
                (''description'', description),
                (''resolutions'', resolutions),
                (''remoteProjectId'', opt_json remoteProjectId)], m1))))))))"

definition mapMediaFile :: "collaborators \<Rightarrow> nat \<Rightarrow> entry_mapper" where
  "mapMediaFile env fuel item path remoteProjectLocale remoteProjectId m =
     andThen (getProp item ''identifier'') (\<lambda>identifier.
     andThen (getProp item ''metaFormData'') (\<lambda>metaFormData.
     andThen (mapDataEntries env fuel metaFormData (path @ [JStr ''meta''])
                remoteProjectLocale remoteProjectId m) (\<lambda>(meta, m1).
     andThen (getProp item ''fileName'') (\<lambda>fileName.
     andThen (getProp item ''fileMetaData'') (\<lambda>fileMetaData.
     andThen (getProp item ''url'') (\<lambda>url.
     Inr (JObj [(''type'', JStr ''File''),
                (''id'', identifier),
                (''previewId'', JStr (buildPreviewId m identifier remoteProjectLocale)),
                (''meta'', meta),
                (''fileName'', fileName),
                (''fileMetaData'', fileMetaData),
                (''url'', url),
                (''remoteProjectId'', opt_json remoteProjectId)], m1)))))))"

definition mapMedia :: "collaborators \<Rightarrow> nat \<Rightarrow> entry_mapper" where
  "mapMedia env fuel item path remoteProjectLocale remoteProjectId m =
     (if item = JNull then Inr (JNull, m)
      else andThen (getProp item ''mediaType'') (\<lambda>mediaType.
           if mediaType = JStr ''PICTURE'' then
             mapMediaPicture env fuel item path remoteProjectLocale remoteProjectId m
           else if mediaType = JStr ''FILE'' then
             mapMediaFile env fuel item path remoteProjectLocale remoteProjectId m
           else Inr (item, m)))"

section \<open>The response assembler\<close>

text \<open>
  \<open>resolver\<close> is the type of \<open>resolveAllReferences\<close>: from the filter context, the
  mapper and the world to the mapper and the world after the round.
\<close>

type_synonym resolver = "json \<Rightarrow> mapper \<Rightarrow> world \<Rightarrow> (mapper \<times> world) result"

definition addToResolvedReferences ::
  "collaborators \<Rightarrow> json \<Rightarrow> string option \<Rightarrow> mapper \<Rightarrow> mapper result" where
  "addToResolvedReferences env item remoteProjectId m =
     andThen (getItemId env item remoteProjectId) (\<lambda>ident.
     if truthy ident
     then Inr ((logger DEBUG ''Add to resolvedReferences'' [ident] m)
                 \<lparr>resolvedReferences := AList.update (toStr ident) item (resolvedReferences m)\<rparr>)
     else Inr (logger WARNING ''No id for item'' [item] m))"

text \<open>The callback of \<^verbatim>\<open>unmappedItems.map\<close> in \<open>mapFilterResponse\<close>.\<close>

definition mapFilterResponse_item ::
  "collaborators \<Rightarrow> nat \<Rightarrow> string option \<Rightarrow> string option \<Rightarrow> json \<Rightarrow> nat \<Rightarrow> mapper
     \<Rightarrow> (json \<times> mapper) result" where
  "mapFilterResponse_item env fuel remoteProjectLocale remoteProjectId unmappedItem index m =
     andThen (getProp unmappedItem ''fsType'') (\<lambda>fsType.
     if fsType = JStr ''Dataset'' then
       andThen (getItemId env unmappedItem remoteProjectId) (\<lambda>itemId.
       mapDataset env fuel unmappedItem [itemId] remoteProjectLocale remoteProjectId m)
     else if fsType = JStr ''PageRef'' then
       andThen (getItemId env unmappedItem remoteProjectId) (\<lambda>itemId.
       mapPageRef env fuel unmappedItem [itemId] remoteProjectLocale remoteProjectId m)
     else if fsType = JStr ''Media'' then
       andThen (getItemId env unmappedItem remoteProjectId) (\<lambda>itemId.
       mapMedia env fuel unmappedItem [itemId] remoteProjectLocale remoteProjectId m)
     else if fsType = JStr ''GCAPage'' then
       andThen (getItemId env unmappedItem remoteProjectId) (\<lambda>itemId.
       mapGCAPage env fuel unmappedItem [itemId] remoteProjectLocale remoteProjectId m)
     else if fsType = JStr ''ProjectProperties'' then
       andThen (getItemId env unmappedItem remoteProjectId) (\<lambda>itemId.
       mapProjectProperties env fuel unmappedItem [itemId] remoteProjectLocale
         remoteProjectId m)
     else Inr (unmappedItem,
               logger WARNING
                 (''Item at index ['' @ show_nat index @ ''] with type ['' @ toStr fsType @
                  ''] could not be mapped!'') [] m))"

fun cacheItems ::
  "collaborators \<Rightarrow> string option \<Rightarrow> json list \<Rightarrow> mapper \<Rightarrow> mapper result" where
  "cacheItems env remoteProjectId [] m = Inr m"
| "cacheItems env remoteProjectId (item # items) m =
     andThen (if truthy item then addToResolvedReferences env item remoteProjectId m else Inr m)
       (\<lambda>m1. cacheItems env remoteProjectId items m1)"

text \<open>
  The remote registries are merged by
  \<^verbatim>\<open>remoteReferencesValues.reduce((result, current) => Object.assign(result, current))\<close>:
  without initial value the accumulator is the first registry itself, so the merge is
  written into the registry of the first remote project.
\<close>

definition mergeRemoteReferences ::
  "(string \<times> ReferencedItemsInfo) list \<Rightarrow> ReferencedItemsInfo \<times> (string \<times> ReferencedItemsInfo) list"
  where
  "mergeRemoteReferences remote =
     (case remote of
        [] \<Rightarrow> ([], [])
      | (key, first) # rest \<Rightarrow>
          (let merged = foldl assign first (map snd rest) in (merged, (key, merged) # rest)))"

definition mapFilterResponse_with ::
  "collaborators \<Rightarrow> nat \<Rightarrow> resolver \<Rightarrow> json \<Rightarrow> json \<Rightarrow> json \<Rightarrow> string option \<Rightarrow> string option
     \<Rightarrow> mapper \<Rightarrow> world \<Rightarrow> (MapResponse \<times> mapper \<times> world) result" where
  "mapFilterResponse_with env fuel resolveAllReferences unmappedItems additionalParams
       filterContext remoteProjectLocale remoteProjectId m w =
     andThen (asArray unmappedItems) (\<lambda>unmapped.
     andThen
       (if truthy (optProp additionalParams ''keys'') then Inr (unmapped, m)
        else andThen (Promise_all_map
                        (mapFilterResponse_item env fuel remoteProjectLocale remoteProjectId)
                        unmapped 0 m) (\<lambda>(mapped, m1).
             Inr (filter truthy mapped, m1))) (\<lambda>(items, m1).
     andThen (cacheItems env remoteProjectId items m1) (\<lambda>m2.
     andThen (if length items > 0 then resolveAllReferences filterContext m2 w
              else Inr (m2, w)) (\<lambda>(m3, w1).
     andThen (mapM (\<lambda>item. getItemId env item None) items) (\<lambda>ids.
     andThen (findResolvedReferencesByIds env ids (resolvedReferences m3)) (\<lambda>found.
     let (remoteReferencesMerged, remote) = mergeRemoteReferences (remoteReferences m3);
         m4 = m3\<lparr>remoteReferences := remote\<rparr>
     in Inr (\<lparr> mappedItems = found,
                referenceMap = assign (referencedItems m4) remoteReferencesMerged,
                mr_resolvedReferences = resolvedReferences m4 \<rparr>, m4, w1)))))))"


section \<open>The resolution scheduler\<close>

text \<open>\<^verbatim>\<open>chunk\<close> of lodash: consecutive groups of \<open>n\<close> elements, the last one shorter.\<close>

function chunk :: "'a list \<Rightarrow> nat \<Rightarrow> 'a list list" where
  "chunk xs n = (if n = 0 \<or> xs = [] then [] else take n xs # chunk (drop n xs) n)"
  by pat_completeness auto
termination
  by (relation "measure (\<lambda>(xs, n). length xs)") auto

declare chunk.simps [simp del]

definition api_logger :: "log_level \<Rightarrow> string \<Rightarrow> json list \<Rightarrow> world \<Rightarrow> world" where
  "api_logger lvl msg args w = w\<lparr>api_logged := api_logged w @ [Log lvl msg args]\<rparr>"

text \<open>
  The registry a round reads for a project: the local one, or the one of the remote
  project (reading the keys of a registry that does not exist throws).
\<close>

definition registryOf :: "mapper \<Rightarrow> string option \<Rightarrow> ReferencedItemsInfo result" where
  "registryOf m remoteProjectId =
     (if truthy_str remoteProjectId
      then (case map_of (remoteReferences m) (the remoteProjectId) of
              Some registry \<Rightarrow> Inr registry
            | None \<Rightarrow> Inl TypeError)
      else Inr (referencedItems m))"

definition storeId :: "string \<Rightarrow> string" where
  "storeId ident = substring ident (indexOf ident (CHR ''#'') + 1) (indexOf ident (CHR ''.''))"

definition idsToFetchFromCaaS :: "mapper \<Rightarrow> ReferencedItemsInfo \<Rightarrow> string list" where
  "idsToFetchFromCaaS m registry =
     (let referencedIds = map fst registry;
          resolvedIds = set (map fst (resolvedReferences m))
      in map storeId (filter (\<lambda>ident. ident \<notin> resolvedIds) referencedIds))"

text \<open>The parameters of the \<open>fetchByFilter\<close> call for one chunk of ids.\<close>

definition chunkParams ::
  "mapper \<Rightarrow> string option \<Rightarrow> json \<Rightarrow> string list \<Rightarrow> FetchByFilterParams" where
  "chunkParams m remoteProjectId filterContext ids =
     (let remoteProjectData = getRemoteConfigForProject m remoteProjectId;
          remoteProjectLocale = map_option rc_locale remoteProjectData;
          loc = (if truthy_str remoteProjectLocale then the remoteProjectLocale
                 else m_locale m)
      in \<lparr> p_filters = [\<lparr> q_operator = IN,
                           q_value = JArr (map JStr ids),
                           q_field = ''identifier'' \<rparr>],
           p_locale = Some (if truthy_str remoteProjectLocale then the remoteProjectLocale
                            else loc),
           p_page = None,
           p_pagesize = Some (int REFERENCED_ITEMS_CHUNK_SIZE),
           p_additionalParams = JUndefined,
           p_remoteProject = remoteProjectId,
           p_fetchOptions = JUndefined,
           p_filterContext = filterContext,
           p_sort = None,
           p_normalized = Some True \<rparr>)"

text \<open>
  \<open>resolveReferencesPerProject\<close> up to its first \<^verbatim>\<open>await\<close>: it logs, computes the ids
  to fetch and their chunks, and calls \<open>fetchByFilter\<close> once per chunk with the
  parameters returned here.
\<close>

definition resolveReferencesPerProject ::
  "mapper \<Rightarrow> string option \<Rightarrow> json \<Rightarrow> (FetchByFilterParams list \<times> mapper) result" where
  "resolveReferencesPerProject m remoteProjectId filterContext =
     (let m1 = logger DEBUG ''CaaSMapper.resolveReferencesPerProject''
                 [JObj [(''remoteProjectId'', opt_json remoteProjectId)]] m
      in andThen (registryOf m1 remoteProjectId) (\<lambda>registry.
         let idsToFetch = idsToFetchFromCaaS m1 registry;
             idChunks = chunk idsToFetch REFERENCED_ITEMS_CHUNK_SIZE;
             m2 = (if logLevel m1 = DEBUG
                   then logger DEBUG ''CaaSMapper.resolveReferencesPerProject: Id data''
                          [JObj [(''project'',
                                    JStr (if truthy_str remoteProjectId then the remoteProjectId
                                          else ''localProject'')),
                                 (''resolvedIdsArray'',
                                    JArr (map (JStr \<circ> fst) (resolvedReferences m1))),
                                 (''referencedIds'', JArr (map (JStr \<circ> fst) registry)),
                                 (''idsToFetchFromCaaS'', JArr (map JStr idsToFetch))]] m1
                   else m1)
         in if length idsToFetch > 0
            then Inr (map (chunkParams m2 remoteProjectId filterContext) idChunks, m2)
            else Inr ([], logger DEBUG
                            ''CaaSMapper.resolveReferencesPerProject: Nothing to fetch'' [] m2)))"

section \<open>fetchByFilter\<close>

definition buildCaaSUrl :: "api \<Rightarrow> request \<Rightarrow> world \<Rightarrow> (request \<times> world) result" where
  "buildCaaSUrl a req w =
     (if truthy_str (r_remoteProject req)
         \<and> find (\<lambda>config. Some (rc_id config) = r_remoteProject req) (map snd (remotes a)) = None
      then Inl (ApiError UNKNOWN_REMOTE)
      else Inr (req, api_logger INFO ''[buildCaaSUrl] built URL:'' [] w))"

text \<open>
  \<open>fetchByFilter\<close> up to its first \<^verbatim>\<open>await\<close>: the fallbacks for page and page size,
  the URL, and the request handed to \<^verbatim>\<open>fetch\<close>.
\<close>

definition fetchByFilter_request ::
  "api \<Rightarrow> FetchByFilterParams \<Rightarrow> world \<Rightarrow> (request \<times> int \<times> int \<times> world) result" where
  "fetchByFilter_request a params w =
     (let page0 = (case p_page params of Some p \<Rightarrow> p | None \<Rightarrow> 1);
          pagesize0 = (case p_pagesize params of Some p \<Rightarrow> p | None \<Rightarrow> 30);
          additionalParams = (if p_additionalParams params = JUndefined then JObj []
                              else p_additionalParams params);
          w1 = (if pagesize0 < 1
                then api_logger WARNING
                       ''[fetchByFilter] pagesize must be greater than zero! Using fallback of 30.''
                       [] w
                else w);
          pagesize = (if pagesize0 < 1 then 30 else pagesize0);
          w2 = (if page0 < 1
                then api_logger WARNING
                       ''[fetchByFilter] page must be greater than zero! Using fallback of 1.''
                       [] w1
                else w1);
          page = (if page0 < 1 then 1 else page0)
      in andThen (buildCaaSUrl a
                    \<lparr> r_filters = p_filters params,
                      r_locale = p_locale params,
                      r_page = page,
                      r_pagesize = pagesize,
                      r_additionalParams =
                        JObj (assign (ownProperties additionalParams) [(''rep'', JStr ''hal'')]),
                      r_remoteProject = p_remoteProject params,
                      r_sort = (case p_sort params of Some s \<Rightarrow> s | None \<Rightarrow> []),
                      r_fetchOptions = p_fetchOptions params \<rparr> w2) (\<lambda>(req, w3).
         Inr (req, page, pagesize, w3\<lparr>requests := requests w3 @ [req]\<rparr>)))"

fun lengthOf :: "json \<Rightarrow> json" where
  "lengthOf (JArr xs) = JNum (int (length xs))"
| "lengthOf (JStr s) = JNum (int (length s))"
| "lengthOf j = optProp j ''length''"

fun elementAt :: "json \<Rightarrow> nat \<Rightarrow> json" where
  "elementAt (JArr xs) i = (if i < length xs then xs ! i else JUndefined)"
| "elementAt (JStr s) i = (if i < length s then JStr [s ! i] else JUndefined)"
| "elementAt j i = optProp j (show_nat i)"

definition getRemoteConfigById :: "api \<Rightarrow> string \<Rightarrow> remote_config result" where
  "getRemoteConfigById a remoteProjectId =
     (case find (\<lambda>config. rc_id config = remoteProjectId) (map snd (remotes a)) of
        Some foundRemoteProject \<Rightarrow> Inr foundRemoteProject
      | None \<Rightarrow> Inl (ApiError UNKNOWN_REMOTE))"

definition filterMapResponse ::
  "collaborators \<Rightarrow> MapResponse \<Rightarrow> json \<Rightarrow> world \<Rightarrow> (MapResponse \<times> world) result" where
  "filterMapResponse env response filterContext w =
     (case caasItemFilter env of
        None \<Rightarrow> Inr (response, w)
      | Some itemFilter \<Rightarrow>
          andThen (mapM (\<lambda>caasItem.
                     andThen (getProp caasItem ''type'') (\<lambda>t.
                     andThen (getProp caasItem ''id'') (\<lambda>i.
                     Inr (JObj [(''type'', t), (''id'', i)]))))
                   (mappedItems response)) (\<lambda>summary.
          andThen (itemFilter response filterContext) (\<lambda>filtered.
          Inr (filtered,
               api_logger DEBUG ''fetchByFilter''
                 [JStr ''caasItemFilter is defined, filtering items'', JArr summary] w))))"

text \<open>
  \<open>fetchByFilter\<close> from the response on. When the response holds no documents it
  returns before any mapper is looked at; otherwise it maps the documents on the mapper
  it was given, or on a new one.
\<close>

definition fetchByFilter_response ::
  "collaborators \<Rightarrow> nat \<Rightarrow> resolver \<Rightarrow> api \<Rightarrow> FetchByFilterParams \<Rightarrow> mapper option
     \<Rightarrow> int \<Rightarrow> int \<Rightarrow> http_response \<Rightarrow> world
     \<Rightarrow> (FetchResponse \<times> mapper option \<times> world) result" where
  "fetchByFilter_response env fuel resolveAllReferences a params mapperArg page pagesize
       caasApiResponse w =
     (if \<not> ok caasApiResponse
      then (if status caasApiResponse = 401 then Inl (ApiError NOT_AUTHORIZED)
            else Inl (ApiError UNKNOWN_ERROR))
      else
        andThen (json_body caasApiResponse) (\<lambda>data.
        andThen (getProp data ''_embedded'') (\<lambda>embedded.
        andThen (if \<not> truthy embedded then Inr (JArr [])
                 else andThen (getProp embedded ''rh:doc'') (\<lambda>docs.
                      Inr (if \<not> truthy docs then JArr [] else docs))) (\<lambda>unmappedItems.
        if lengthOf unmappedItems = JNum 0
        then Inr (\<lparr> fr_page = 1,
                    fr_pagesize = 30,
                    fr_totalPages = JUndefined,
                    fr_size = JUndefined,
                    fr_items = [],
                    fr_referenceMap = None,
                    fr_resolvedReferences = None \<rparr>, mapperArg, w)
        else
          andThen (if truthy_str (p_remoteProject params)
                   then andThen (getRemoteConfigById a (the (p_remoteProject params)))
                          (\<lambda>config. Inr (Some (rc_locale config)))
                   else Inr None) (\<lambda>remoteProjectLocale.
          andThen (if truthy_str (p_locale params) then Inr (the (p_locale params))
                   else andThen (getPath (elementAt unmappedItems 0) [''locale'', ''language''])
                          (\<lambda>language.
                        andThen (getPath (elementAt unmappedItems 0) [''locale'', ''country''])
                          (\<lambda>country.
                        Inr (toStr language @ ''_'' @ toStr country)))) (\<lambda>mapperLocale.
          let mapper = (case mapperArg of
                          Some given \<Rightarrow> given
                        | None \<Rightarrow> CaaSMapper a mapperLocale None (api_maxReferenceDepth a)
                                    (api_logLevel a));
              additionalParams = (if p_additionalParams params = JUndefined then JObj []
                                  else p_additionalParams params);
              normalized = (case p_normalized params of Some b \<Rightarrow> b | None \<Rightarrow> False)
          in andThen (mapFilterResponse_with env fuel resolveAllReferences unmappedItems
                        additionalParams (p_filterContext params) remoteProjectLocale
                        (p_remoteProject params) mapper w) (\<lambda>(mapped, mapper', w1).
             andThen (filterMapResponse env mapped (p_filterContext params) w1)
               (\<lambda>(response, w2).
             andThen (getProp data ''_total_pages'') (\<lambda>totalPages.
             andThen (getProp data ''_size'') (\<lambda>total.
             andThen (if normalized then Inr (mappedItems response)
                      else denormalizeResolvedReferences env (mappedItems response)
                             (referenceMap response) (mr_resolvedReferences response))
               (\<lambda>items.
             Inr (\<lparr> fr_page = page,
                    fr_pagesize = pagesize,
                    fr_totalPages = totalPages,
                    fr_size = total,
                    fr_items = items,
                    fr_referenceMap =
                      (if normalized then Some (referenceMap response) else None),
                    fr_resolvedReferences =
                      (if normalized then Some (mr_resolvedReferences response) else None) \<rparr>,
                  Some mapper', w2))))))))))))"

text \<open>
  One round. All calls of a round run to their first \<^verbatim>\<open>await\<close> before any response is
  looked at: the ids of every project are computed on the registries and the cache as
  they are when the round starts, and all requests of the round are issued
  (\<open>startRound\<close>). The responses are then worked off one after the other in the order
  of their requests (\<open>receiveAll\<close>), each to its end, nested rounds included; this is
  one of the schedules of the asynchronous program.
\<close>

fun perProject ::
  "string option list \<Rightarrow> json \<Rightarrow> mapper \<Rightarrow> (FetchByFilterParams list \<times> mapper) result" where
  "perProject [] filterContext m = Inr ([], m)"
| "perProject (remoteProjectId # rest) filterContext m =
     andThen (resolveReferencesPerProject m remoteProjectId filterContext) (\<lambda>(ps, m1).
     andThen (perProject rest filterContext m1) (\<lambda>(qs, m2).
     Inr (ps @ qs, m2)))"

fun issueAll ::
  "api \<Rightarrow> FetchByFilterParams list \<Rightarrow> world
     \<Rightarrow> ((FetchByFilterParams \<times> request \<times> int \<times> int) list \<times> world) result" where
  "issueAll a [] w = Inr ([], w)"
| "issueAll a (params # rest) w =
     andThen (fetchByFilter_request a params w) (\<lambda>(req, page, pagesize, w1).
     andThen (issueAll a rest w1) (\<lambda>(issued, w2).
     Inr ((params, req, page, pagesize) # issued, w2)))"

fun receiveAll ::
  "collaborators \<Rightarrow> nat \<Rightarrow> resolver \<Rightarrow> (FetchByFilterParams \<times> request \<times> int \<times> int) list
     \<Rightarrow> mapper \<Rightarrow> world \<Rightarrow> (mapper \<times> world) result" where
  "receiveAll env fuel resolveAllReferences [] m w = Inr (m, w)"
| "receiveAll env fuel resolveAllReferences ((params, req, page, pagesize) # rest) m w =
     andThen (fetch env req) (\<lambda>caasApiResponse.
     andThen (fetchByFilter_response env fuel resolveAllReferences (api m) params (Some m)
                page pagesize caasApiResponse w) (\<lambda>(response, mapper', w1).
     receiveAll env fuel resolveAllReferences rest
       (case mapper' of Some m1 \<Rightarrow> m1 | None \<Rightarrow> m) w1))"

definition startRound ::
  "json \<Rightarrow> mapper \<Rightarrow> world
     \<Rightarrow> ((FetchByFilterParams \<times> request \<times> int \<times> int) list \<times> mapper \<times> world) result" where
  "startRound filterContext m w =
     (let m1 = m\<lparr>referenceDepth := referenceDepth m + 1\<rparr>;
          remoteIds = map fst (remoteReferences m1);
          m2 = logger DEBUG ''CaaSMapper.resolveAllReferences''
                 [JObj [(''remoteIds'', JArr (map JStr remoteIds))]] m1
      in andThen (perProject (None # map Some remoteIds) filterContext m2) (\<lambda>(calls, m3).
         andThen (issueAll (api m3) calls w) (\<lambda>(issued, w1).
         Inr (issued, m3, w1))))"

definition maxDepthReached :: "mapper \<Rightarrow> mapper" where
  "maxDepthReached m =
     logger WARNING
       (''Maximum reference depth of '' @ show_int (maxReferenceDepth m) @
        '' has been exceeded.'') [] m"

text \<open>
  \<open>resolveAllReferences\<close>: the fuel bounds the nesting of rounds (a response of a
  round is mapped by \<open>mapFilterResponse\<close>, which runs the next round) and, with
  them, the nesting of the entries mapped.
\<close>

primrec resolveAllReferences :: "collaborators \<Rightarrow> nat \<Rightarrow> resolver" where
  "resolveAllReferences env 0 =
     (\<lambda>filterContext m w.
        if referenceDepth m \<ge> maxReferenceDepth m then Inr (maxDepthReached m, w)
        else Inl OutOfFuel)"
| "resolveAllReferences env (Suc n) =
     (\<lambda>filterContext m w.
        if referenceDepth m \<ge> maxReferenceDepth m then Inr (maxDepthReached m, w)
        else andThen (startRound filterContext m w) (\<lambda>(issued, m1, w1).
             receiveAll env n (resolveAllReferences env n) issued m1 w1))"

definition mapFilterResponse ::
  "collaborators \<Rightarrow> nat \<Rightarrow> json \<Rightarrow> json \<Rightarrow> json \<Rightarrow> string option \<Rightarrow> string option
     \<Rightarrow> mapper \<Rightarrow> world \<Rightarrow> (MapResponse \<times> mapper \<times> world) result" where
  "mapFilterResponse env fuel = mapFilterResponse_with env fuel (resolveAllReferences env fuel)"

definition fetchByFilter ::
  "collaborators \<Rightarrow> nat \<Rightarrow> api \<Rightarrow> FetchByFilterParams \<Rightarrow> mapper option \<Rightarrow> world
     \<Rightarrow> (FetchResponse \<times> mapper option \<times> world) result" where
  "fetchByFilter env fuel a params mapperArg w =
     andThen (fetchByFilter_request a params w) (\<lambda>(req, page, pagesize, w1).
     andThen (fetch env req) (\<lambda>caasApiResponse.
     fetchByFilter_response env fuel (resolveAllReferences env fuel) a params mapperArg
       page pagesize caasApiResponse w1))"


section \<open>Notions used in the statements\<close>

text \<open>The kinds \<open>mapDataEntry\<close> has a case for, and the kinds \<open>mapBodyContent\<close> has.\<close>

definition dataEntryKinds :: "string list" where
  "dataEntryKinds =
     [''CMS_INPUT_COMBOBOX'', ''CMS_INPUT_DOM'', ''CMS_INPUT_DOMTABLE'', ''CMS_INPUT_NUMBER'',
      ''CMS_INPUT_TEXT'', ''CMS_INPUT_TEXTAREA'', ''CMS_INPUT_RADIOBUTTON'', ''CMS_INPUT_DATE'',
      ''CMS_INPUT_LINK'', ''CMS_INPUT_LIST'', ''CMS_INPUT_CHECKBOX'', ''CMS_INPUT_IMAGEMAP'',
      ''FS_DATASET'', ''CMS_INPUT_TOGGLE'', ''FS_CATALOG'', ''FS_REFERENCE'', ''FS_INDEX'',
      ''Option'', ''CMS_INPUT_PERMISSION'']"

definition bodyContentKinds :: "string list" where
  "bodyContentKinds = [''Content2Section'', ''Section'', ''SectionReference'', ''GCASection'']"


definition isKind :: "string list \<Rightarrow> json \<Rightarrow> bool" where
  "isKind kinds fsType = (fsType \<in> set (map JStr kinds))"

text \<open>Collaborators for the examples: no custom mapper, a parser that finds no elements.\<close>

definition example_collaborators :: collaborators where
  "example_collaborators =
     \<lparr> customMapper = None,
       xmlParser_parse = (\<lambda>markup. Inr (JArr [])),
       parseISO = (\<lambda>date. date),
       ImageMapAreaType_RECT = JStr ''rect'',
       ImageMapAreaType_CIRCLE = JStr ''circle'',
       ImageMapAreaType_POLY = JStr ''poly'',
       getItemId = (\<lambda>item remoteProjectId. Inr (optProp item ''identifier'')),
       findResolvedReferencesByIds =
         (\<lambda>ids resolved.
            Inr (map (\<lambda>i. case map_of resolved (toStr i) of Some item \<Rightarrow> item
                                | None \<Rightarrow> JUndefined) ids)),
       denormalizeResolvedReferences = (\<lambda>items referenceMap resolved. Inr items),
       caasItemFilter = None,
       fetch = (\<lambda>req. Inl (Rejected ''no connection'')) \<rparr>"


text \<open>A custom mapper that answers every entry with the same string.\<close>

definition constant_customMapper :: "json \<Rightarrow> path \<Rightarrow> mapper \<Rightarrow> (json \<times> mapper) result" where
  "constant_customMapper entry path m = Inr (JStr ''custom'', m)"

definition custom_collaborators :: collaborators where
  "custom_collaborators = example_collaborators\<lparr>customMapper := Some constant_customMapper\<rparr>"

definition unknown_entry :: json where
  "unknown_entry = JObj [(''fsType'', JStr ''CMS_INPUT_FUTURE''), (''value'', JNum 3)]"

definition imagemap_without_value :: json where
  "imagemap_without_value = JObj [(''fsType'', JStr ''CMS_INPUT_IMAGEMAP''), (''value'', JNull)]"

definition unknown_body_content :: json where
  "unknown_body_content = JObj [(''fsType'', JStr ''Teaser''), (''identifier'', JStr ''t1'')]"

text \<open>\<open>fetchByFilter\<close> on a response without documents.\<close>

definition noDocuments :: "json \<Rightarrow> bool" where
  "noDocuments data =
     (let embedded = optProp data ''_embedded''
      in \<not> truthy embedded \<or> \<not> truthy (optProp embedded ''rh:doc'')
         \<or> optProp embedded ''rh:doc'' = JArr [])"

definition emptyResponse :: FetchResponse where
  "emptyResponse =
     \<lparr> fr_page = 1, fr_pagesize = 30, fr_totalPages = JUndefined, fr_size = JUndefined,
       fr_items = [], fr_referenceMap = None, fr_resolvedReferences = None \<rparr>"

definition empty_store :: "request \<Rightarrow> http_response result" where
  "empty_store req =
     Inr \<lparr> ok = True, status = 200,
           json_body = Inr (JObj [(''_embedded'', JObj [(''rh:doc'', JArr [])])]) \<rparr>"

definition example_params :: FetchByFilterParams where
  "example_params =
     \<lparr> p_filters = [\<lparr> q_operator = EQUALS, q_value = JStr ''Media'', q_field = ''fsType'' \<rparr>],
       p_locale = Some ''en_GB'',
       p_page = Some 5,
       p_pagesize = Some 10,
       p_additionalParams = JUndefined,
       p_remoteProject = None,
       p_fetchOptions = JUndefined,
       p_filterContext = JUndefined,
       p_sort = None,
       p_normalized = None \<rparr>"

definition example_request :: request where
  "example_request =
     \<lparr> r_filters = [\<lparr> q_operator = EQUALS, q_value = JStr ''Media'', q_field = ''fsType'' \<rparr>],
       r_locale = Some ''en_GB'',
       r_page = 5,
       r_pagesize = 10,
       r_additionalParams = JObj [(''rep'', JStr ''hal'')],
       r_remoteProject = None,
       r_sort = [],
       r_fetchOptions = JUndefined \<rparr>"

definition new_world :: world where
  "new_world = \<lparr> requests = [], api_logged = [] \<rparr>"

text \<open>The registry of a project as a round reads it, empty where there is none.\<close>

definition registryFor :: "mapper \<Rightarrow> string option \<Rightarrow> ReferencedItemsInfo" where
  "registryFor m remoteProjectId =
     (case registryOf m remoteProjectId of Inr registry \<Rightarrow> registry | Inl e \<Rightarrow> [])"

text \<open>Two mappers hold the same data when they differ in the log and the depth counter only.\<close>

definition sameData :: "mapper \<Rightarrow> mapper \<Rightarrow> bool" where
  "sameData m m' =
     (api m' = api m \<and> m_locale m' = m_locale m \<and> logLevel m' = logLevel m \<and>
      maxReferenceDepth m' = maxReferenceDepth m \<and>
      resolvedReferences m' = resolvedReferences m \<and>
      referencedItems m' = referencedItems m \<and>
      remoteReferences m' = remoteReferences m)"

text \<open>
  What mapping a content tree leaves as it is: everything but the registries and the
  log. \<open>framed f\<close> says that the step \<open>f\<close>, where it succeeds, leaves it so.
\<close>

definition mappingFrame :: "mapper \<Rightarrow> mapper \<Rightarrow> bool" where
  "mappingFrame m m' =
     (api m' = api m \<and> m_locale m' = m_locale m \<and> logLevel m' = logLevel m \<and>
      referenceDepth m' = referenceDepth m \<and> maxReferenceDepth m' = maxReferenceDepth m \<and>
      resolvedReferences m' = resolvedReferences m)"

definition framed :: "(mapper \<Rightarrow> ('a \<times> mapper) result) \<Rightarrow> bool" where
  "framed f = (\<forall>m r m'. f m = Inr (r, m') \<longrightarrow> mappingFrame m m')"

definition framedEntry :: "entry_mapper \<Rightarrow> bool" where
  "framedEntry mapEntry =
     (\<forall>entry path remoteProjectLocale remoteProjectId.
        framed (mapEntry entry path remoteProjectLocale remoteProjectId))"

text \<open>The depth counter has reached the configured maximum.\<close>

definition depthExhausted :: "mapper \<Rightarrow> bool" where
  "depthExhausted m = (maxReferenceDepth m \<le> referenceDepth m)"

text \<open>A store with one page that references one picture, and the request of all documents.\<close>

definition example_media :: json where
  "example_media =
     JObj [(''_id'', JStr ''m1.en_GB''), (''fsType'', JStr ''Media''),
           (''mediaType'', JStr ''PICTURE''), (''identifier'', JStr ''m1''),
           (''metaFormData'', JObj []), (''description'', JNull),
           (''resolutionsMetaData'',
              JObj [(''ORIGINAL'', JObj [(''url'', JStr ''http://x/y.png'')])]),
           (''changeInfo'', JObj [(''revision'', JNum 7)]),
           (''locale'', JObj [(''language'', JStr ''en''), (''country'', JStr ''GB'')])]"

definition example_page :: json where
  "example_page =
     JObj [(''_id'', JStr ''p1.en_GB''), (''fsType'', JStr ''PageRef''),
           (''identifier'', JStr ''p1''),
           (''page'',
              JObj [(''identifier'', JStr ''pp1''), (''name'', JStr ''home''),
                    (''template'', JObj [(''uid'', JStr ''homepage'')]),
                    (''children'', JArr []),
                    (''formData'',
                       JObj [(''pt_image'',
                                JObj [(''fsType'', JStr ''FS_REFERENCE''),
                                      (''value'', JObj [(''fsType'', JStr ''Media''),
                                                        (''identifier'', JStr ''m1'')])])]),
                    (''metaFormData'', JObj [])]),
           (''locale'', JObj [(''language'', JStr ''en''), (''country'', JStr ''GB'')])]"

definition hal :: "json list \<Rightarrow> http_response" where
  "hal docs =
     \<lparr> ok = True, status = 200,
       json_body = Inr (JObj [(''_embedded'', JObj [(''rh:doc'', JArr docs)]),
                              (''_size'', JNum (int (length docs))),
                              (''_total_pages'', JNum 1)]) \<rparr>"

definition example_store :: "request \<Rightarrow> http_response result" where
  "example_store req =
     (if r_filters req = [] then Inr (hal [example_page]) else Inr (hal [example_media]))"

text \<open>
  Modelled from the spec: \<^verbatim>\<open>getItemId\<close> of \<^verbatim>\<open>MappingUtils\<close>, which is not among
  the sources and is a parameter of the model. Where an example needs it, it is what the
  spec says of the keys of the cache: the canonical id of an entity, \<^verbatim>\<open>uuid.locale\<close>,
  prefixed by \<^verbatim>\<open>project#\<close> for an entity of a remote project. A mapped entity carries
  that id as \<^verbatim>\<open>previewId\<close>, a document of the store as \<^verbatim>\<open>_id\<close>; an item with
  neither has no id.
\<close>

definition getItemId_spec :: "json \<Rightarrow> string option \<Rightarrow> json result" where
  "getItemId_spec item remoteProjectId =
     andThen (getProp item ''previewId'') (\<lambda>previewId.
     andThen (getProp item ''_id'') (\<lambda>storeKey.
     andThen (getProp item ''remoteProjectId'') (\<lambda>own.
     let ident = (if truthy previewId then previewId else storeKey);
         project = (if truthy_str remoteProjectId then JStr (the remoteProjectId) else own)
     in Inr (if truthy project \<and> truthy ident
             then JStr (toStr project @ ''#'' @ toStr ident)
             else ident))))"

text \<open>
  Modelled from the spec: \<^verbatim>\<open>findResolvedReferencesByIds\<close> of \<^verbatim>\<open>MappingUtils\<close>,
  which is not among the sources and is a parameter of the model. Where an example needs
  it, it is what the spec says of the items returned: the final cached versions of the
  top-level items, looked up by their ids; an id the cache does not hold yields no item.
\<close>

definition findResolvedReferencesByIds_spec ::
  "json list \<Rightarrow> ResolvedReferencesInfo \<Rightarrow> json list result" where
  "findResolvedReferencesByIds_spec ids resolved =
     Inr (filter truthy
            (map (\<lambda>ident. case map_of resolved (toStr ident) of
                             Some item \<Rightarrow> item
                           | None \<Rightarrow> JUndefined) ids))"

definition store_collaborators :: collaborators where
  "store_collaborators =
     example_collaborators
       \<lparr> getItemId := getItemId_spec,
         findResolvedReferencesByIds := findResolvedReferencesByIds_spec,
         fetch := example_store \<rparr>"

definition all_documents :: FetchByFilterParams where
  "all_documents = example_params\<lparr>p_filters := [], p_page := None, p_pagesize := None,
                                   p_normalized := Some True\<rparr>"

definition depth0_api :: api where
  "depth0_api = example_api\<lparr>api_maxReferenceDepth := Some 0\<rparr>"





text \<open>
  A mapper with references into two remote projects, one of them already in the cache;
  a project whose key holds a dot; and what a round asks the store for.
\<close>

definition round_api :: api where
  "round_api =
     \<lparr> remotes = [(''media'', \<lparr>rc_id = ''media'', rc_locale = ''en_GB''\<rparr>),
                  (''shop'', \<lparr>rc_id = ''shop'', rc_locale = ''de_DE''\<rparr>)],
       contentMode = RELEASE,
       api_maxReferenceDepth = None,
       api_logLevel = ERROR \<rparr>"

definition round_mapper :: mapper where
  "round_mapper =
     (CaaSMapper round_api ''en_GB'' None None ERROR)
       \<lparr> resolvedReferences := [(''p1.en_GB'', JObj [(''type'', JStr ''Page'')]),
                                (''shop#s2.de_DE'', JObj [(''type'', JStr ''Dataset'')])],
         referencedItems :=
           [(''m1.en_GB'', [[JStr ''p1.en_GB'', JStr ''data'', JStr ''image'']]),
            (''p1.en_GB'', [[JStr ''p1.en_GB'', JStr ''data'', JStr ''self'']]),
            (''d1.en_GB'', [[JStr ''p1.en_GB'', JStr ''data'', JStr ''product'']])],
         remoteReferences :=
           [(''media'', [(''media#m2.en_GB'', [[JStr ''p1.en_GB'', JStr ''data'', JStr ''logo'']])]),
            (''shop'', [(''shop#s1.de_DE'', [[JStr ''p1.en_GB'', JStr ''data'', JStr ''offer'']]),
                        (''shop#s2.de_DE'', [[JStr ''p1.en_GB'', JStr ''data'', JStr ''seen'']])])] \<rparr>"

definition dotted_api :: api where
  "dotted_api =
     \<lparr> remotes = [(''my.project'', \<lparr>rc_id = ''my.project'', rc_locale = ''en_GB''\<rparr>)],
       contentMode = RELEASE,
       api_maxReferenceDepth = None,
       api_logLevel = ERROR \<rparr>"

definition dotted_mapper :: mapper where
  "dotted_mapper = CaaSMapper dotted_api ''en_GB'' None None ERROR"

definition issuedFilters ::
  "((FetchByFilterParams \<times> request \<times> int \<times> int) list \<times> mapper \<times> world) result
     \<Rightarrow> (string option \<times> json list) list result" where
  "issuedFilters r =
     (case r of
        Inl e \<Rightarrow> Inl e
      | Inr (issued, m', w') \<Rightarrow>
          Inr (map (\<lambda>(params, req, page, pagesize).
                      (r_remoteProject req, map q_value (r_filters req))) issued))"

definition registerThenRound ::
  "mapper \<Rightarrow> string \<Rightarrow> path \<Rightarrow> string option
     \<Rightarrow> (string \<times> (string \<times> path list) list \<times> (string option \<times> json list) list) result" where
  "registerThenRound m identifier path remoteProjectId =
     andThen (registerReferencedItem m identifier path remoteProjectId None) (\<lambda>(token, m1).
     andThen (issuedFilters (startRound JUndefined m1 new_world)) (\<lambda>filters.
     Inr (token, bucket m1 (the remoteProjectId), filters)))"

text \<open>
  The mapper of a request with a depth bound of 0, the page of the store as it is mapped,
  and what a run of \<open>mapFilterResponse\<close> returns, caches and warns of.
\<close>

definition depth0_mapper :: mapper where
  "depth0_mapper =
     CaaSMapper depth0_api ''en_GB'' None (api_maxReferenceDepth depth0_api)
       (api_logLevel depth0_api)"

definition mapped_page :: json where
  "mapped_page =
     JObj [(''type'', JStr ''Page''), (''id'', JStr ''pp1''), (''refId'', JStr ''p1''),
           (''previewId'', JStr ''p1.en_GB''), (''name'', JStr ''home''),
           (''layout'', JStr ''homepage''), (''children'', JArr []),
           (''data'', JObj [(''pt_image'', JStr ''[REFERENCED-ITEM-m1.en_GB]'')]),
           (''meta'', JObj []), (''remoteProjectId'', JUndefined)]"


section \<open>Identifier unification and reference registration\<close>

lemma indexOf_notin: "c \<notin> set s \<Longrightarrow> indexOf s c = - 1"
  by (induction s) auto

lemma indexOf_append: "c \<notin> set u \<Longrightarrow> indexOf (u @ c # r) c = int (length u)"
  by (induction u) (auto simp: Let_def)

lemma substring_prefix: "substring (u @ r) 0 (int (length u)) = u"
  by (simp add: substring_def Let_def min_def max_def)


lemma registered_update:
  "registered (AList.update k v reg) k' = (if k' = k then v else registered reg k')"
  by (simp add: registered_def update_conv')

lemma unifyId_logger [simp]: "unifyId (logger lvl msg args m) i c = unifyId m i c"
  by (cases c) (simp_all add: unifyId_def logger_def Let_def)

lemma logger_fields [simp]:
  "referencedItems (logger lvl msg args m) = referencedItems m"
  "remoteReferences (logger lvl msg args m) = remoteReferences m"
  "resolvedReferences (logger lvl msg args m) = resolvedReferences m"
  "referenceDepth (logger lvl msg args m) = referenceDepth m"
  "maxReferenceDepth (logger lvl msg args m) = maxReferenceDepth m"
  "api (logger lvl msg args m) = api m"
  "m_locale (logger lvl msg args m) = m_locale m"
  "logLevel (logger lvl msg args m) = logLevel m"
  "logged (logger lvl msg args m) = logged m @ [Log lvl msg args]"
  by (simp_all add: logger_def)


text \<open>
  Claim C5. A \<open>remoteProjectId\<close> without matching remote configuration: the call
  succeeds, a warning is logged, and token and mapper are those of the same call without
  \<open>remoteProjectId\<close> on the mapper that holds the warning. The path is appended to the
  local registry under the identifier unified without remote configuration, the remote
  registries are unchanged, and without resolution key the token is the local one.
\<close>

theorem registerReferencedItem_missing_remote:
  assumes "remoteProjectId \<noteq> []"
    and "getRemoteConfigForProject m (Some remoteProjectId) = None"
  shows "\<exists>token m' warning.
    registerReferencedItem m identifier path (Some remoteProjectId) imageMapResolution
      = Inr (token, m') \<and>
    registerReferencedItem (logger WARNING warning [] m) identifier path None imageMapResolution
      = Inr (token, m') \<and>
    Log WARNING warning [] \<in> set (logged m') \<and>
    (\<not> truthy_str imageMapResolution \<longrightarrow>
       token = ''[REFERENCED-ITEM-'' @ unifyId m identifier None @ '']'') \<and>
    registered (referencedItems m') (unifyId m identifier None) =
      registered (referencedItems m) (unifyId m identifier None) @ [path] \<and>
    remoteReferences m' = remoteReferences m"
  using assms
  by (auto simp: registerReferencedItem_def Let_def placeholder_def registered_update
      getRemoteConfigForProject_def)

lemma example_mapper_fields:
  "api example_mapper = example_api"
  "m_locale example_mapper = ''en_GB''"
  "referenceDepth example_mapper = 0"
  "maxReferenceDepth example_mapper = 10"
  "resolvedReferences example_mapper = []"
  "referencedItems example_mapper = []"
  "remoteReferences example_mapper = [(''media'', [])]"
  "logLevel example_mapper = ERROR"
  by (simp_all add: example_mapper_def CaaSMapper_def logger_def example_api_def
      DEFAULT_MAX_REFERENCE_DEPTH_def)

lemma example_remote_config:
  "getRemoteConfigForProject example_mapper (Some ''media'')
     = Some \<lparr>rc_id = ''media'', rc_locale = ''en_GB''\<rparr>"
  "getRemoteConfigForProject example_mapper (Some ''shop'') = None"
  "getRemoteConfigForProject example_mapper None = None"
  by (simp_all add: getRemoteConfigForProject_def example_mapper_fields example_api_def)


text \<open>
  Claim C3. \<open>unifyId\<close> depends on the mapper only through its locale. A raw id
  \<open>uuid.locale\<close> (first separator after position 0) keeps its uuid; its locale is
  replaced by the remote configuration's locale when one is supplied with a locale, and
  kept otherwise. A raw id without separator gets \<open>.\<close> and the remote configuration's
  locale, else the mapper's locale, appended. With a remote configuration the result is
  prefixed with the configuration's id and \<open>#\<close>. The two examples of the specification
  are the last two conjuncts.
\<close>

theorem unifyId_spec:
  "(m_locale m = m_locale m' \<longrightarrow> unifyId m rawId cfg = unifyId m' rawId cfg) \<and>
   (uuid \<noteq> [] \<and> CHR ''.'' \<notin> set uuid \<longrightarrow>
      unifyId m (uuid @ ''.'' @ loc) cfg =
        (case cfg of None \<Rightarrow> [] | Some c \<Rightarrow> rc_id c @ ''#'') @ uuid @ ''.'' @
        (case cfg of None \<Rightarrow> loc | Some c \<Rightarrow> if rc_locale c \<noteq> [] then rc_locale c else loc)) \<and>
   (CHR ''.'' \<notin> set rawId \<longrightarrow>
      unifyId m rawId cfg =
        (case cfg of None \<Rightarrow> [] | Some c \<Rightarrow> rc_id c @ ''#'') @ rawId @ ''.'' @
        (case cfg of None \<Rightarrow> m_locale m
         | Some c \<Rightarrow> if rc_locale c \<noteq> [] then rc_locale c else m_locale m)) \<and>
   (m_locale m = ''en_GB'' \<longrightarrow> unifyId m ''abc123'' None = ''abc123.en_GB'') \<and>
   unifyId m ''abc123.de_DE'' (Some \<lparr>rc_id = ''media'', rc_locale = ''en_GB''\<rparr>)
     = ''media#abc123.en_GB''"
proof (intro conjI impI)
  show "unifyId m rawId cfg = unifyId m' rawId cfg" if "m_locale m = m_locale m'"
    unfolding unifyId_def Let_def using that by (cases cfg) simp_all
next
  assume h: "uuid \<noteq> [] \<and> CHR ''.'' \<notin> set uuid"
  then have i: "indexOf (uuid @ ''.'' @ loc) (CHR ''.'') = int (length uuid)"
    using indexOf_append [of "CHR ''.''" uuid loc] by simp
  have s: "substring (uuid @ ''.'' @ loc) 0 (int (length uuid)) = uuid"
    by (rule substring_prefix)
  from h have pos: "0 < int (length uuid)" by simp
  show "unifyId m (uuid @ ''.'' @ loc) cfg =
        (case cfg of None \<Rightarrow> [] | Some c \<Rightarrow> rc_id c @ ''#'') @ uuid @ ''.'' @
        (case cfg of None \<Rightarrow> loc | Some c \<Rightarrow> if rc_locale c \<noteq> [] then rc_locale c else loc)"
    unfolding unifyId_def Let_def i s using pos
    by (cases cfg) simp_all
next
  assume "CHR ''.'' \<notin> set rawId"
  then have "indexOf rawId (CHR ''.'') = - 1" by (rule indexOf_notin)
  then show "unifyId m rawId cfg =
        (case cfg of None \<Rightarrow> [] | Some c \<Rightarrow> rc_id c @ ''#'') @ rawId @ ''.'' @
        (case cfg of None \<Rightarrow> m_locale m
         | Some c \<Rightarrow> if rc_locale c \<noteq> [] then rc_locale c else m_locale m)"
    unfolding unifyId_def Let_def by (cases cfg) simp_all
next
  show "unifyId m ''abc123'' None = ''abc123.en_GB''" if "m_locale m = ''en_GB''"
    using that by (simp add: unifyId_def)
next
  show "unifyId m ''abc123.de_DE'' (Some \<lparr>rc_id = ''media'', rc_locale = ''en_GB''\<rparr>)
     = ''media#abc123.en_GB''"
    by (simp add: unifyId_def substring_def)
qed

theorem unifyId_spec_witness:
  "m_locale example_mapper = m_locale example_mapper \<and>
   ''abc123'' \<noteq> [] \<and> CHR ''.'' \<notin> set ''abc123'' \<and>
   m_locale example_mapper = ''en_GB'' \<and>
   unifyId example_mapper (''abc123'' @ ''.'' @ ''de_DE'') None = ''abc123.de_DE'' \<and>
   unifyId example_mapper ''abc123'' None = ''abc123.en_GB''"
  using unifyId_spec [of example_mapper example_mapper "''abc123''" None "''abc123''" "''de_DE''"]
  by (simp add: example_mapper_fields)


theorem registerReferencedItem_missing_remote_witness:
  "''shop'' \<noteq> [] \<and> getRemoteConfigForProject example_mapper (Some ''shop'') = None \<and>
   (\<exists>m'. registerReferencedItem example_mapper ''abc123'' [JStr ''data''] (Some ''shop'') None
          = Inr (''[REFERENCED-ITEM-abc123.en_GB]'', m') \<and>
        registered (referencedItems m') ''abc123.en_GB'' = [[JStr ''data'']])"
proof -
  have u: "unifyId example_mapper ''abc123'' None = ''abc123.en_GB''"
    by (simp add: unifyId_def example_mapper_fields)
  have n: "''shop'' \<noteq> []" by simp
  show ?thesis
    using registerReferencedItem_missing_remote [OF n example_remote_config(2),
        of "''abc123''" "[JStr ''data'']" None]
    by (auto simp: example_remote_config u registered_def example_mapper_fields)
qed

section \<open>Unknown kinds and malformed nodes\<close>

lemma callCustomMapper_None [simp]:
  "customMapper env = None \<Longrightarrow> callCustomMapper env entry path m = Inr (JUndefined, m)"
  by (simp add: callCustomMapper_def)

lemma andThen_Inr [simp]: "andThen (Inr x) f = f x"
  by (simp add: andThen_def)

lemma andThen_Inl [simp]: "andThen (Inl e) f = Inl e"
  by (simp add: andThen_def)

text \<open>
  Claim C8, as amended. When no custom mapper is configured, or the custom mapper
  defers with \<^verbatim>\<open>undefined\<close>, a data entry whose \<^verbatim>\<open>fsType\<close> is none of the kinds
  \<open>mapDataEntry\<close> has a case for is returned unchanged: no error, the node is kept, and
  the mapper is the one the custom mapper left. This holds with any positive fuel.
\<close>

theorem mapDataEntry_unknown_kind:
  assumes "callCustomMapper env entry path m = Inr (JUndefined, m')"
    and "getProp entry ''fsType'' = Inr fsType"
    and "\<not> isKind dataEntryKinds fsType"
  shows "mapDataEntry env (Suc n) entry path remoteProjectLocale remoteProjectId m
           = Inr (entry, m')"
  using assms by (simp add: mapDataEntry_body_def isKind_def dataEntryKinds_def)

text \<open>
  The claim as stated fails with a custom mapper: it is asked first, and what it returns
  is the result, also for an entry of unknown kind.
\<close>

theorem mapDataEntry_unknown_kind_counterexample:
  "getProp unknown_entry ''fsType'' = Inr (JStr ''CMS_INPUT_FUTURE'') \<and>
   \<not> isKind dataEntryKinds (JStr ''CMS_INPUT_FUTURE'') \<and>
   mapDataEntry custom_collaborators (Suc 0) unknown_entry [] None None example_mapper
     = Inr (JStr ''custom'', example_mapper) \<and>
   JStr ''custom'' \<noteq> unknown_entry"
  by (simp add: unknown_entry_def isKind_def dataEntryKinds_def mapDataEntry_body_def
      callCustomMapper_def custom_collaborators_def constant_customMapper_def
      customMapperEffects_def)

theorem mapDataEntry_unknown_kind_witness:
  "callCustomMapper example_collaborators unknown_entry [JStr ''data''] example_mapper
     = Inr (JUndefined, example_mapper) \<and>
   getProp unknown_entry ''fsType'' = Inr (JStr ''CMS_INPUT_FUTURE'') \<and>
   \<not> isKind dataEntryKinds (JStr ''CMS_INPUT_FUTURE'') \<and>
   mapDataEntry example_collaborators (Suc 0) unknown_entry [JStr ''data''] None None
     example_mapper = Inr (unknown_entry, example_mapper)"
proof -
  have a: "callCustomMapper example_collaborators unknown_entry [JStr ''data''] example_mapper
     = Inr (JUndefined, example_mapper)"
    by (simp add: example_collaborators_def)
  have b: "getProp unknown_entry ''fsType'' = Inr (JStr ''CMS_INPUT_FUTURE'')"
    by (simp add: unknown_entry_def)
  have c: "\<not> isKind dataEntryKinds (JStr ''CMS_INPUT_FUTURE'')"
    by (simp add: isKind_def dataEntryKinds_def)
  from mapDataEntry_unknown_kind [OF a b c, of 0 None None] a b c show ?thesis by simp
qed

text \<open>
  Claim C6, as amended. For an image-map entry without value (and no result of the
  custom mapper) \<open>mapDataEntry\<close> returns \<^verbatim>\<open>null\<close> and leaves the mapper as it is: the
  guard before the call of \<open>mapImageMap\<close> answers. The error
  \<^verbatim>\<open>ImageMap value is null\<close> is raised by \<open>mapImageMap\<close> itself, when it is called
  on such an entry.
\<close>

theorem mapDataEntry_imagemap_without_value:
  assumes "callCustomMapper env entry path m = Inr (JUndefined, m')"
    and "getProp entry ''fsType'' = Inr (JStr ''CMS_INPUT_IMAGEMAP'')"
    and "getProp entry ''value'' = Inr v"
    and "\<not> truthy v"
  shows "mapDataEntry env (Suc n) entry path remoteProjectLocale remoteProjectId m
           = Inr (JNull, m') \<and>
         mapImageMap env k entry path remoteProjectLocale remoteProjectId m
           = Inl (Error ''ImageMap value is null'')"
  using assms
  by (simp add: mapDataEntry_body_def mapImageMapEntry_def mapImageMap_def mapImageMap_with_def)

text \<open>The claim as stated fails: mapping the node gives \<^verbatim>\<open>null\<close>, not an error.\<close>

theorem mapDataEntry_imagemap_counterexample:
  "getProp imagemap_without_value ''fsType'' = Inr (JStr ''CMS_INPUT_IMAGEMAP'') \<and>
   getProp imagemap_without_value ''value'' = Inr JNull \<and>
   mapDataEntry example_collaborators (Suc 0) imagemap_without_value [] None None
     example_mapper = Inr (JNull, example_mapper)"
  by (simp add: imagemap_without_value_def mapDataEntry_body_def mapImageMapEntry_def
      example_collaborators_def)

theorem mapDataEntry_imagemap_without_value_witness:
  "callCustomMapper example_collaborators imagemap_without_value [] example_mapper
     = Inr (JUndefined, example_mapper) \<and>
   getProp imagemap_without_value ''fsType'' = Inr (JStr ''CMS_INPUT_IMAGEMAP'') \<and>
   getProp imagemap_without_value ''value'' = Inr JNull \<and> \<not> truthy JNull \<and>
   mapDataEntry example_collaborators (Suc 0) imagemap_without_value [] None None
     example_mapper = Inr (JNull, example_mapper) \<and>
   mapImageMap example_collaborators 0 imagemap_without_value [] None None example_mapper
     = Inl (Error ''ImageMap value is null'')"
proof -
  have a: "callCustomMapper example_collaborators imagemap_without_value [] example_mapper
     = Inr (JUndefined, example_mapper)"
    by (simp add: example_collaborators_def)
  have b: "getProp imagemap_without_value ''fsType'' = Inr (JStr ''CMS_INPUT_IMAGEMAP'')"
    by (simp add: imagemap_without_value_def)
  have c: "getProp imagemap_without_value ''value'' = Inr JNull"
    by (simp add: imagemap_without_value_def)
  have d: "\<not> truthy JNull" by simp
  from mapDataEntry_imagemap_without_value [OF a b c d, of 0 None None 0] a b c
  show ?thesis by simp
qed

text \<open>
  Claim C7. For a body-content node whose \<^verbatim>\<open>fsType\<close> is none of \<^verbatim>\<open>Content2Section\<close>,
  \<^verbatim>\<open>Section\<close>, \<^verbatim>\<open>SectionReference\<close> and \<^verbatim>\<open>GCASection\<close>, \<open>mapBodyContent\<close>
  raises an error whose message names the \<^verbatim>\<open>fsType\<close>, with any fuel. The same node
  given to \<open>mapDataEntry\<close> (no custom mapper, a kind it has no case for) is passed
  through.
\<close>

theorem mapBodyContent_unknown_kind:
  assumes "getProp content ''fsType'' = Inr fsType"
    and "\<not> isKind bodyContentKinds fsType"
  shows "mapBodyContent env fuel content path remoteProjectLocale remoteProjectId m
           = Inl (Error (''Unknown BodyContent could not be mapped. fsType=['' @
                         toStr fsType @ '']'')) \<and>
         (customMapper env = None \<and> \<not> isKind dataEntryKinds fsType \<longrightarrow>
            mapDataEntry env (Suc n) content path remoteProjectLocale remoteProjectId m
              = Inr (content, m))"
  using assms
  by (simp add: mapBodyContent_def isKind_def bodyContentKinds_def UNKNOWN_BODY_CONTENT_def
      mapDataEntry_body_def dataEntryKinds_def)

theorem mapBodyContent_unknown_kind_witness:
  "getProp unknown_body_content ''fsType'' = Inr (JStr ''Teaser'') \<and>
   \<not> isKind bodyContentKinds (JStr ''Teaser'') \<and>
   customMapper example_collaborators = None \<and>
   \<not> isKind dataEntryKinds (JStr ''Teaser'') \<and>
   mapBodyContent example_collaborators 3 unknown_body_content [] None None example_mapper
     = Inl (Error ''Unknown BodyContent could not be mapped. fsType=[Teaser]'') \<and>
   mapDataEntry example_collaborators (Suc 0) unknown_body_content [] None None
     example_mapper = Inr (unknown_body_content, example_mapper)"
proof -
  have a: "getProp unknown_body_content ''fsType'' = Inr (JStr ''Teaser'')"
    by (simp add: unknown_body_content_def)
  have b: "\<not> isKind bodyContentKinds (JStr ''Teaser'')"
    by (simp add: isKind_def bodyContentKinds_def)
  have c: "customMapper example_collaborators = None"
    by (simp add: example_collaborators_def)
  have d: "\<not> isKind dataEntryKinds (JStr ''Teaser'')"
    by (simp add: isKind_def dataEntryKinds_def)
  from mapBodyContent_unknown_kind [OF a b, of example_collaborators 3 "[]" None None
      example_mapper 0] a b c d
  show ?thesis by simp
qed

section \<open>Requests: the empty response and the rounds of resolution\<close>

lemma getProp_truthy: "truthy j \<Longrightarrow> getProp j k = Inr (optProp j k)"
  by (cases j) auto

text \<open>
  Claim C10. When the response of the content store holds no documents
  (\<^verbatim>\<open>data._embedded\<close> or \<^verbatim>\<open>data._embedded['rh:doc']\<close> missing, or the list empty),
  \<open>fetchByFilter\<close> returns \<^verbatim>\<open>{page: 1, pagesize: 30, size: undefined, totalPages: undefined, items: []}\<close>
  whatever page and page size were asked for, with any fuel. The mapper handed in comes
  back as it was (none when none was given, so none is constructed), and the world
  differs from the one of the call in the request and its log entries only: no item is mapped
  and no round of reference resolution is run.
\<close>

theorem fetchByFilter_no_documents:
  assumes "fetchByFilter_request a params w = Inr (req, page, pagesize, w')"
    and "fetch env req = Inr caasApiResponse"
    and "ok caasApiResponse"
    and "json_body caasApiResponse = Inr data"
    and "data \<noteq> JNull" and "data \<noteq> JUndefined"
    and "noDocuments data"
  shows "fetchByFilter env fuel a params mapperArg w = Inr (emptyResponse, mapperArg, w') \<and>
         requests w' = requests w @ [req]"
proof -
  from assms(5,6) have e: "getProp data ''_embedded'' = Inr (optProp data ''_embedded'')"
    by (cases data) auto
  have r: "fetchByFilter_response env fuel R a params mapperArg page pagesize caasApiResponse w'
             = Inr (emptyResponse, mapperArg, w')" for R
    using assms(3,4,7) e
    by (auto simp: fetchByFilter_response_def noDocuments_def Let_def emptyResponse_def
        getProp_truthy)
  have q: "requests w' = requests w @ [req]"
    using assms(1)
    by (auto simp: fetchByFilter_request_def buildCaaSUrl_def Let_def api_logger_def
        andThen_def split: if_splits)
  show ?thesis using assms(1,2) r q by (simp add: fetchByFilter_def)
qed

theorem fetchByFilter_no_documents_witness:
  "fetchByFilter_request example_api example_params new_world
     = Inr (example_request, 5, 10,
            \<lparr> requests = [example_request],
              api_logged = [Log INFO ''[buildCaaSUrl] built URL:'' []] \<rparr>) \<and>
   fetch (example_collaborators\<lparr>fetch := empty_store\<rparr>) example_request
     = empty_store example_request \<and>
   noDocuments (JObj [(''_embedded'', JObj [(''rh:doc'', JArr [])])]) \<and>
   fetchByFilter (example_collaborators\<lparr>fetch := empty_store\<rparr>) 0 example_api example_params
     None new_world
     = Inr (emptyResponse, None,
            \<lparr> requests = [example_request],
              api_logged = [Log INFO ''[buildCaaSUrl] built URL:'' []] \<rparr>)"
proof -
  have a: "fetchByFilter_request example_api example_params new_world
     = Inr (example_request, 5, 10,
            \<lparr> requests = [example_request],
              api_logged = [Log INFO ''[buildCaaSUrl] built URL:'' []] \<rparr>)"
    by (simp add: fetchByFilter_request_def example_params_def new_world_def Let_def
        buildCaaSUrl_def example_request_def api_logger_def assign_def)
  have b: "fetch (example_collaborators\<lparr>fetch := empty_store\<rparr>) example_request
     = Inr \<lparr> ok = True, status = 200,
           json_body = Inr (JObj [(''_embedded'', JObj [(''rh:doc'', JArr [])])]) \<rparr>"
    by (simp add: empty_store_def)
  have c: "noDocuments (JObj [(''_embedded'', JObj [(''rh:doc'', JArr [])])])"
    by (simp add: noDocuments_def)
  from fetchByFilter_no_documents [OF a b _ _ _ _ c, of 0 None] a b c
  show ?thesis by (simp add: empty_store_def)
qed

lemma chunk_Nil [simp]: "chunk [] n = []"
  by (simp add: chunk.simps)

lemma chunk_step: "n > 0 \<Longrightarrow> xs \<noteq> [] \<Longrightarrow> chunk xs n = take n xs # chunk (drop n xs) n"
  by (subst chunk.simps) simp

lemma concat_chunk: "n > 0 \<Longrightarrow> concat (chunk xs n) = xs"
proof (induction xs n rule: chunk.induct)
  case (1 xs n)
  show ?case
  proof (cases "xs = []")
    case True
    then show ?thesis by simp
  next
    case False
    with 1 show ?thesis by (simp add: chunk_step)
  qed
qed

lemma chunk_sizes: "c \<in> set (chunk xs n) \<Longrightarrow> 0 < length c \<and> length c \<le> n"
proof (induction xs n rule: chunk.induct)
  case (1 xs n)
  show ?case
  proof (cases "n = 0 \<or> xs = []")
    case True
    with 1(2) show ?thesis by (auto simp: chunk.simps)
  next
    case False
    then have "chunk xs n = take n xs # chunk (drop n xs) n" by (simp add: chunk_step)
    with 1 False show ?thesis by auto
  qed
qed

lemma chunk_full: "Suc i < length (chunk xs n) \<Longrightarrow> length (chunk xs n ! i) = n"
proof (induction xs n arbitrary: i rule: chunk.induct)
  case (1 xs n)
  show ?case
  proof (cases "n = 0 \<or> xs = []")
    case True
    with 1(2) show ?thesis by (auto simp: chunk.simps)
  next
    case False
    then have c: "chunk xs n = take n xs # chunk (drop n xs) n" by (simp add: chunk_step)
    show ?thesis
    proof (cases i)
      case 0
      with 1(2) c have "chunk (drop n xs) n \<noteq> []" by auto
      then have "drop n xs \<noteq> []" by auto
      then have "n < length xs" by simp
      with 0 c show ?thesis by simp
    next
      case (Suc j)
      with 1(2) c have "Suc j < length (chunk (drop n xs) n)" by simp
      with 1(1) False have "length (chunk (drop n xs) n ! j) = n" by blast
      with Suc c show ?thesis by simp
    qed
  qed
qed

lemma length_chunk: "n > 0 \<Longrightarrow> length (chunk xs n) = (length xs + n - 1) div n"
proof (induction xs n rule: chunk.induct)
  case (1 xs n)
  show ?case
  proof (cases "xs = []")
    case True
    with 1(2) show ?thesis by simp
  next
    case False
    with 1 have ih: "length (chunk (drop n xs) n) = (length xs - n + n - 1) div n"
      by simp
    from False 1(2) have c: "chunk xs n = take n xs # chunk (drop n xs) n"
      by (simp add: chunk_step)
    show ?thesis
    proof (cases "length xs \<le> n")
      case True
      with False 1(2) have "(length xs + n - 1) div n = 1"
        by (cases xs) (auto simp: div_eq_dividend_iff Suc_le_eq le_div_geq)
      moreover from True 1(2) have "(length xs - n + n - 1) div n = 0" by simp
      ultimately show ?thesis using c ih by simp
    next
      case g: False
      then have "length xs + n - 1 = (length xs - n + n - 1) + n" by simp
      then have "(length xs + n - 1) div n = Suc ((length xs - n + n - 1) div n)"
        using 1(2) by (metis add.commute div_add_self1 less_numeral_extra(3) plus_1_eq_Suc)
      with c ih show ?thesis by simp
    qed
  qed
qed

lemma chunk_last: "n > 0 \<Longrightarrow> xs \<noteq> [] \<Longrightarrow> length xs \<le> n \<Longrightarrow> chunk xs n = [xs]"
  by (simp add: chunk_step)

lemma chunk_65: "length xs = 65 \<Longrightarrow> map length (chunk xs 30) = [30, 30, 5]"
proof -
  assume l: "length xs = 65"
  then have a: "xs \<noteq> []" by auto
  from l have b: "drop 30 xs \<noteq> []" by auto
  from l have c: "drop 60 xs \<noteq> []" and d: "length (drop 60 xs) \<le> 30" by auto
  have "chunk xs 30 = take 30 xs # chunk (drop 30 xs) 30"
    using a by (simp add: chunk_step)
  also have "chunk (drop 30 xs) 30 = take 30 (drop 30 xs) # chunk (drop 60 xs) 30"
    using b by (simp add: chunk_step)
  also have "chunk (drop 60 xs) 30 = [drop 60 xs]"
    using c d by (simp add: chunk_last)
  finally show ?thesis using l by simp
qed

lemma storeId_local:
  assumes "CHR ''.'' \<notin> set uuid" "CHR ''#'' \<notin> set uuid" "CHR ''#'' \<notin> set loc"
  shows "storeId (uuid @ ''.'' @ loc) = uuid"
proof -
  have h: "indexOf (uuid @ ''.'' @ loc) (CHR ''#'') = - 1"
    using assms by (intro indexOf_notin) auto
  have d: "indexOf (uuid @ ''.'' @ loc) (CHR ''.'') = int (length uuid)"
    using indexOf_append [OF assms(1), of loc] by simp
  show ?thesis
    unfolding storeId_def h d using substring_prefix [of uuid "''.'' @ loc"] by simp
qed

lemma storeId_remote:
  assumes "CHR ''.'' \<notin> set key" "CHR ''#'' \<notin> set key" "CHR ''.'' \<notin> set uuid"
  shows "storeId (key @ ''#'' @ uuid @ ''.'' @ loc) = uuid"
proof -
  have h: "indexOf (key @ ''#'' @ uuid @ ''.'' @ loc) (CHR ''#'') = int (length key)"
    using indexOf_append [OF assms(2), of "uuid @ ''.'' @ loc"] by simp
  have "CHR ''.'' \<notin> set (key @ ''#'' @ uuid)" using assms by auto
  from indexOf_append [OF this, of loc]
  have d: "indexOf (key @ ''#'' @ uuid @ ''.'' @ loc) (CHR ''.'') = int (length key + 1 + length uuid)"
    by simp
  show ?thesis
    unfolding storeId_def h d
    by (simp add: substring_def Let_def min_def max_def nat_add_distrib)
qed

lemma andThenE:
  assumes "andThen r f = Inr y"
  obtains x where "r = Inr x" and "f x = Inr y"
  using assms by (cases r) auto

lemma sameData_refl [simp]: "sameData m m"
  by (simp add: sameData_def)

lemma sameData_trans: "sameData a b \<Longrightarrow> sameData b c \<Longrightarrow> sameData a c"
  by (simp add: sameData_def)

lemma sameData_logger [simp]: "sameData m (logger lvl msg args m')  = sameData m m'"
  by (simp add: sameData_def)

lemma sameData_depth [simp]: "sameData m (m'\<lparr>referenceDepth := d\<rparr>) = sameData m m'"
  by (simp add: sameData_def)

lemma sameData_registryOf: "sameData m m' \<Longrightarrow> registryOf m' p = registryOf m p"
  by (simp add: sameData_def registryOf_def)

lemma sameData_registryFor: "sameData m m' \<Longrightarrow> registryFor m' p = registryFor m p"
  by (simp add: registryFor_def sameData_registryOf)

lemma sameData_ids: "sameData m m' \<Longrightarrow> idsToFetchFromCaaS m' r = idsToFetchFromCaaS m r"
  by (simp add: sameData_def idsToFetchFromCaaS_def)

lemma sameData_chunkParams: "sameData m m' \<Longrightarrow> chunkParams m' p c ids = chunkParams m p c ids"
  by (simp add: sameData_def chunkParams_def getRemoteConfigForProject_def Let_def)

lemma sameData_chunkParams_fun: "sameData m m' \<Longrightarrow> chunkParams m' p c = chunkParams m p c"
  by (rule ext) (rule sameData_chunkParams)

lemma round_data_logger [simp]:
  "chunkParams (logger lvl msg args m) = chunkParams m"
  "idsToFetchFromCaaS (logger lvl msg args m) = idsToFetchFromCaaS m"
  "registryOf (logger lvl msg args m) = registryOf m"
  "registryFor (logger lvl msg args m) = registryFor m"
  by (auto simp: fun_eq_iff sameData_chunkParams sameData_ids sameData_registryOf
      sameData_registryFor)

lemma round_data_depth [simp]:
  "chunkParams (m\<lparr>referenceDepth := d\<rparr>) = chunkParams m"
  "idsToFetchFromCaaS (m\<lparr>referenceDepth := d\<rparr>) = idsToFetchFromCaaS m"
  "registryOf (m\<lparr>referenceDepth := d\<rparr>) = registryOf m"
  "registryFor (m\<lparr>referenceDepth := d\<rparr>) = registryFor m"
  by (auto simp: fun_eq_iff sameData_chunkParams sameData_ids sameData_registryOf
      sameData_registryFor)

lemma resolveReferencesPerProject_calls:
  assumes "resolveReferencesPerProject m project filterContext = Inr (calls, m')"
  shows "calls = map (chunkParams m project filterContext)
                   (chunk (idsToFetchFromCaaS m (registryFor m project))
                      REFERENCED_ITEMS_CHUNK_SIZE)"
    and "sameData m m'"
proof -
  let ?m1 = "logger DEBUG ''CaaSMapper.resolveReferencesPerProject''
                 [JObj [(''remoteProjectId'', opt_json project)]] m"
  have s1: "sameData m ?m1" by simp
  from assms obtain registry where r: "registryOf ?m1 project = Inr registry"
    unfolding resolveReferencesPerProject_def Let_def by (elim andThenE)
  then have rf: "registryFor m project = registry"
    using sameData_registryOf [OF s1] by (simp add: registryFor_def)
  have ids: "idsToFetchFromCaaS ?m1 registry = idsToFetchFromCaaS m registry"
    by (rule sameData_ids [OF s1])
  from assms r show "calls = map (chunkParams m project filterContext)
                   (chunk (idsToFetchFromCaaS m (registryFor m project))
                      REFERENCED_ITEMS_CHUNK_SIZE)"
    unfolding resolveReferencesPerProject_def Let_def rf ids
    by (auto simp: sameData_chunkParams split: if_splits)
  from assms r show "sameData m m'"
    unfolding resolveReferencesPerProject_def Let_def
    by (auto split: if_splits)
qed

lemma perProject_calls:
  assumes "perProject projects filterContext m = Inr (calls, m')"
  shows "calls = concat (map (\<lambda>project.
                    map (chunkParams m project filterContext)
                      (chunk (idsToFetchFromCaaS m (registryFor m project))
                         REFERENCED_ITEMS_CHUNK_SIZE)) projects) \<and> sameData m m'"
  using assms
proof (induction projects arbitrary: m calls m')
  case Nil
  then show ?case by simp
next
  case (Cons project projects)
  from Cons.prems obtain ps m1 qs m2 where
    a: "resolveReferencesPerProject m project filterContext = Inr (ps, m1)"
    and b: "perProject projects filterContext m1 = Inr (qs, m2)"
    and c: "calls = ps @ qs" "m' = m2"
    by (auto elim!: andThenE)
  note r = resolveReferencesPerProject_calls [OF a]
  from Cons.IH [OF b] have q: "qs = concat (map (\<lambda>project.
                    map (chunkParams m1 project filterContext)
                      (chunk (idsToFetchFromCaaS m1 (registryFor m1 project))
                         REFERENCED_ITEMS_CHUNK_SIZE)) projects)" and s: "sameData m1 m2"
    by simp_all
  from r(2) have "(\<lambda>project.
                    map (chunkParams m1 project filterContext)
                      (chunk (idsToFetchFromCaaS m1 (registryFor m1 project))
                         REFERENCED_ITEMS_CHUNK_SIZE)) = (\<lambda>project.
                    map (chunkParams m project filterContext)
                      (chunk (idsToFetchFromCaaS m (registryFor m project))
                         REFERENCED_ITEMS_CHUNK_SIZE))"
    by (simp add: sameData_chunkParams_fun sameData_ids sameData_registryFor)
  with q r c s show ?case by (auto intro: sameData_trans)
qed

lemma fetchByFilter_request_fields:
  assumes "fetchByFilter_request a params w = Inr (req, page, pagesize, w')"
  shows "requests w' = requests w @ [req]"
    and "r_filters req = p_filters params"
    and "r_remoteProject req = p_remoteProject params"
    and "r_locale req = p_locale params"
    and "p_pagesize params = Some 30 \<Longrightarrow> r_pagesize req = 30"
  using assms
  by (auto simp: fetchByFilter_request_def buildCaaSUrl_def Let_def api_logger_def
      split: if_splits elim!: andThenE)

lemma issueAll_requests:
  assumes "issueAll a calls w = Inr (issued, w')"
  shows "map fst issued = calls \<and>
         requests w' = requests w @ map (\<lambda>(params, req, page, pagesize). req) issued \<and>
         (\<forall>(params, req, page, pagesize) \<in> set issued.
            r_filters req = p_filters params \<and> r_remoteProject req = p_remoteProject params \<and>
            r_locale req = p_locale params \<and>
            (p_pagesize params = Some 30 \<longrightarrow> r_pagesize req = 30))"
  using assms
proof (induction calls arbitrary: w issued w')
  case Nil
  then show ?case by simp
next
  case (Cons params calls)
  from Cons.prems obtain req page pagesize w1 rest w2 where
    a: "fetchByFilter_request a params w = Inr (req, page, pagesize, w1)"
    and b: "issueAll a calls w1 = Inr (rest, w2)"
    and c: "issued = (params, req, page, pagesize) # rest" "w' = w2"
    by (auto elim!: andThenE)
  from fetchByFilter_request_fields [OF a] Cons.IH [OF b] c show ?case by auto
qed

lemma ids_set:
  "set (idsToFetchFromCaaS m registry)
     = storeId ` (fst ` set registry - fst ` set (resolvedReferences m))"
  by (auto simp: idsToFetchFromCaaS_def Let_def)

lemma registryFor_project:
  "registryFor m project
     = (case project of
          None \<Rightarrow> referencedItems m
        | Some k \<Rightarrow> if k = [] then referencedItems m else bucket m k)"
  by (cases project)
     (simp_all add: registryFor_def registryOf_def bucket_def split: option.splits)

text \<open>
  Claim C2, as amended. A round issues one request per call of \<open>fetchByFilter\<close>, and
  the calls are, project by project (the local project first, then every remote
  registry), one per chunk of the ids to fetch of that project, taken on the registries
  and the cache as they are when the round starts. The registry read for the local
  project is \<open>referencedItems\<close>, the one read for a remote project is its own
  bucket of \<open>remoteReferences\<close>. The ids to fetch are the keys of that registry that
  are no keys of the cache, in the order of the registry, each cut to the part between
  its first \<^verbatim>\<open>#\<close> and its first \<^verbatim>\<open>.\<close>; this is the identifier of the
  store when neither the identifier nor the project key holds a \<^verbatim>\<open>.\<close> or a
  \<^verbatim>\<open>#\<close>. Each call asks for \<^verbatim>\<open>identifier IN chunk\<close> with page size 30 in the
  project of the registry. The chunks have 30 elements, the last one between 1 and 30,
  and together they are the list: 65 ids give chunks of 30, 30 and 5.
\<close>

theorem resolution_round_batches:
  assumes "startRound filterContext m w = Inr (issued, m', w')"
  shows "requests w' = requests w @ map (\<lambda>(params, req, page, pagesize). req) issued \<and>
    map fst issued =
      concat (map (\<lambda>project.
                map (chunkParams m project filterContext)
                  (chunk (idsToFetchFromCaaS m
                            (case project of
                               None \<Rightarrow> referencedItems m
                             | Some k \<Rightarrow> if k = [] then referencedItems m else bucket m k))
                     REFERENCED_ITEMS_CHUNK_SIZE))
              (None # map Some (map fst (remoteReferences m)))) \<and>
    (\<forall>(params, req, page, pagesize) \<in> set issued.
       r_filters req = p_filters params \<and> r_remoteProject req = p_remoteProject params \<and>
       r_pagesize req = 30) \<and>
    (\<forall>project ids.
       p_filters (chunkParams m project filterContext ids)
         = [\<lparr> q_operator = IN, q_value = JArr (map JStr ids), q_field = ''identifier'' \<rparr>] \<and>
       p_remoteProject (chunkParams m project filterContext ids) = project) \<and>
    (\<forall>registry.
       idsToFetchFromCaaS m registry
         = map storeId (filter (\<lambda>ident. ident \<notin> fst ` set (resolvedReferences m))
                          (map fst registry)) \<and>
       set (idsToFetchFromCaaS m registry)
         = storeId ` (fst ` set registry - fst ` set (resolvedReferences m))) \<and>
    (\<forall>uuid loc key.
       CHR ''.'' \<notin> set uuid \<and> CHR ''#'' \<notin> set uuid \<and> CHR ''#'' \<notin> set loc \<and>
       CHR ''.'' \<notin> set key \<and> CHR ''#'' \<notin> set key \<longrightarrow>
       storeId (uuid @ ''.'' @ loc) = uuid \<and>
       storeId (key @ ''#'' @ uuid @ ''.'' @ loc) = uuid) \<and>
    REFERENCED_ITEMS_CHUNK_SIZE = 30 \<and>
    (\<forall>ids :: string list.
       concat (chunk ids 30) = ids \<and>
       (\<forall>c \<in> set (chunk ids 30). 0 < length c \<and> length c \<le> 30) \<and>
       (\<forall>i. Suc i < length (chunk ids 30) \<longrightarrow> length (chunk ids 30 ! i) = 30) \<and>
       (length ids = 65 \<longrightarrow> map length (chunk ids 30) = [30, 30, 5]))"
    (is "?A \<and> ?B \<and> ?C \<and> ?D \<and> ?E \<and> ?F \<and> ?G \<and> ?H")
proof -
  let ?m1 = "m\<lparr>referenceDepth := referenceDepth m + 1\<rparr>"
  let ?m2 = "logger DEBUG ''CaaSMapper.resolveAllReferences''
               [JObj [(''remoteIds'', JArr (map JStr (map fst (remoteReferences ?m1))))]] ?m1"
  have s: "sameData m ?m2" by simp
  from assms obtain calls m3 where
    p: "perProject (None # map Some (map fst (remoteReferences m))) filterContext ?m2
          = Inr (calls, m3)"
    and i: "issueAll (api m3) calls w = Inr (issued, w')"
    unfolding startRound_def Let_def by (auto elim!: andThenE)
  from perProject_calls [OF p] s
  have c: "calls = concat (map (\<lambda>project.
                map (chunkParams m project filterContext)
                  (chunk (idsToFetchFromCaaS m
                            (case project of
                               None \<Rightarrow> referencedItems m
                             | Some k \<Rightarrow> if k = [] then referencedItems m else bucket m k))
                     REFERENCED_ITEMS_CHUNK_SIZE))
              (None # map Some (map fst (remoteReferences m))))"
    by (simp add: sameData_chunkParams sameData_ids sameData_registryFor registryFor_project)
  have ps: "p_pagesize params = Some 30" if "params \<in> set calls" for params
    using that unfolding c by (auto simp: chunkParams_def REFERENCED_ITEMS_CHUNK_SIZE_def Let_def)
  note q = issueAll_requests [OF i]
  have f: "\<forall>(params, req, page, pagesize) \<in> set issued.
       r_filters req = p_filters params \<and> r_remoteProject req = p_remoteProject params \<and>
       r_pagesize req = 30"
  proof -
    have "fst x \<in> set calls" if "x \<in> set issued" for x
      using that q by (metis (no_types, lifting) image_eqI set_map)
    with q ps show ?thesis by fastforce
  qed
  have k: "\<forall>ids :: string list.
       concat (chunk ids 30) = ids \<and>
       (\<forall>c \<in> set (chunk ids 30). 0 < length c \<and> length c \<le> 30) \<and>
       (\<forall>i. Suc i < length (chunk ids 30) \<longrightarrow> length (chunk ids 30 ! i) = 30) \<and>
       (length ids = 65 \<longrightarrow> map length (chunk ids 30) = [30, 30, 5])"
    using chunk_sizes chunk_full chunk_65 by (auto simp: concat_chunk)
  have st: "\<forall>uuid loc key.
       CHR ''.'' \<notin> set uuid \<and> CHR ''#'' \<notin> set uuid \<and> CHR ''#'' \<notin> set loc \<and>
       CHR ''.'' \<notin> set key \<and> CHR ''#'' \<notin> set key \<longrightarrow>
       storeId (uuid @ ''.'' @ loc) = uuid \<and>
       storeId (key @ ''#'' @ uuid @ ''.'' @ loc) = uuid"
    using storeId_local storeId_remote by blast
  have cp: "\<forall>project ids.
       p_filters (chunkParams m project filterContext ids)
         = [\<lparr> q_operator = IN, q_value = JArr (map JStr ids), q_field = ''identifier'' \<rparr>] \<and>
       p_remoteProject (chunkParams m project filterContext ids) = project"
    by (simp add: chunkParams_def Let_def)
  have idl: "\<forall>registry.
       idsToFetchFromCaaS m registry
         = map storeId (filter (\<lambda>ident. ident \<notin> fst ` set (resolvedReferences m))
                          (map fst registry)) \<and>
       set (idsToFetchFromCaaS m registry)
         = storeId ` (fst ` set registry - fst ` set (resolvedReferences m))"
    using ids_set by (simp add: idsToFetchFromCaaS_def Let_def)
  from q have a: ?A by simp
  from q c have b: ?B by simp
  have g: ?G by (simp add: REFERENCED_ITEMS_CHUNK_SIZE_def)
  from a b f cp idl st g k show ?thesis by (intro conjI)
qed

lemma round_eval:
  "issuedFilters (startRound JUndefined round_mapper new_world)
     = Inr [(None, [JArr [JStr ''m1'', JStr ''d1'']]),
            (Some ''media'', [JArr [JStr ''m2'']]),
            (Some ''shop'', [JArr [JStr ''s1'']])]"
  by code_simp

theorem resolution_round_batches_witness:
  "\<exists>issued m' w'.
     startRound JUndefined round_mapper new_world = Inr (issued, m', w') \<and>
     map (\<lambda>(params, req, page, pagesize). (r_remoteProject req, map q_value (r_filters req)))
       issued
       = [(None, [JArr [JStr ''m1'', JStr ''d1'']]),
          (Some ''media'', [JArr [JStr ''m2'']]),
          (Some ''shop'', [JArr [JStr ''s1'']])] \<and>
     requests w' = map (\<lambda>(params, req, page, pagesize). req) issued"
proof -
  from round_eval obtain issued m' w' where
    e: "startRound JUndefined round_mapper new_world = Inr (issued, m', w')"
    and v: "map (\<lambda>(params, req, page, pagesize).
                   (r_remoteProject req, map q_value (r_filters req))) issued
       = [(None, [JArr [JStr ''m1'', JStr ''d1'']]),
          (Some ''media'', [JArr [JStr ''m2'']]),
          (Some ''shop'', [JArr [JStr ''s1'']])]"
    by (auto simp: issuedFilters_def split: sum.splits)
  from resolution_round_batches [OF e]
  have "requests w' = requests new_world @ map (\<lambda>(params, req, page, pagesize). req) issued"
    by (elim conjE)
  with e v show ?thesis by (simp add: new_world_def)
qed

text \<open>
  The claim as stated fails for a project key that holds a \<^verbatim>\<open>.\<close>: the reference to
  \<^verbatim>\<open>abc123\<close> in the project \<^verbatim>\<open>my.project\<close> is registered under
  \<^verbatim>\<open>my.project#abc123.en_GB\<close>, and the round asks the store for the identifier
  \<^verbatim>\<open>.project#\<close>.
\<close>

theorem resolution_round_batches_counterexample:
  "registerThenRound dotted_mapper ''abc123'' [JStr ''data''] (Some ''my.project'')
     = Inr (''[REFERENCED-REMOTE-ITEM-my.project#abc123.en_GB]'',
            [(''my.project#abc123.en_GB'', [[JStr ''data'']])],
            [(Some ''my.project'', [JArr [JStr ''.project#'']])]) \<and>
   storeId ''my.project#abc123.en_GB'' = ''.project#'' \<and>
   ''.project#'' \<noteq> ''abc123''"
  by code_simp

section \<open>What mapping leaves unchanged\<close>

lemma mappingFrame_refl [simp]: "mappingFrame m m"
  by (simp add: mappingFrame_def)

lemma mappingFrame_trans: "mappingFrame a b \<Longrightarrow> mappingFrame b c \<Longrightarrow> mappingFrame a c"
  by (simp add: mappingFrame_def)

lemma mappingFrame_logger [simp]: "mappingFrame m (logger lvl msg args m') = mappingFrame m m'"
  by (simp add: mappingFrame_def)

lemma mappingFrame_logger_left [simp]: "mappingFrame (logger lvl msg args m) m' = mappingFrame m m'"
  by (simp add: mappingFrame_def)

lemma framedI: "(\<And>m r m'. f m = Inr (r, m') \<Longrightarrow> mappingFrame m m') \<Longrightarrow> framed f"
  by (simp add: framed_def)

lemma framedD: "framed f \<Longrightarrow> f m = Inr (r, m') \<Longrightarrow> mappingFrame m m'"
  by (simp add: framed_def)

lemma framedEntryD:
  "framedEntry me \<Longrightarrow> me entry path l p m = Inr (r, m') \<Longrightarrow> mappingFrame m m'"
  by (auto simp: framedEntry_def framed_def)

lemma registerReferencedItem_frame:
  "registerReferencedItem m i path rp res = Inr (t, m') \<Longrightarrow> mappingFrame m m'"
  by (auto simp: registerReferencedItem_def Let_def mappingFrame_def split: if_splits option.splits)

lemma registerFrom_frame:
  "registerFrom m i path rp res = Inr (t, m') \<Longrightarrow> mappingFrame m m'"
  by (auto simp: registerFrom_def elim!: andThenE dest!: registerReferencedItem_frame)

lemma callCustomMapper_frame:
  "callCustomMapper env entry path m = Inr (r, m') \<Longrightarrow> mappingFrame m m'"
  by (auto simp: callCustomMapper_def customMapperEffects_def mappingFrame_def
      split: option.splits elim!: andThenE)

lemma Promise_all_map_frame:
  assumes "\<And>x i m r m'. x \<in> set xs \<Longrightarrow> f x i m = Inr (r, m') \<Longrightarrow> mappingFrame m m'"
    and "Promise_all_map f xs i m = Inr (rs, m')"
  shows "mappingFrame m m'"
  using assms
proof (induction xs arbitrary: i m rs m')
  case Nil
  then show ?case by simp
next
  case (Cons x xs)
  from Cons.prems(2) obtain y m1 ys where
    a: "f x i m = Inr (y, m1)" and b: "Promise_all_map f xs (Suc i) m1 = Inr (ys, m')"
    by (auto elim!: andThenE)
  from Cons.prems(1) [OF _ a] have "mappingFrame m m1" by simp
  moreover have "mappingFrame m1 m'"
  proof (rule Cons.IH [OF _ b])
    fix x' i' s r s'
    assume "x' \<in> set xs" and "f x' i' s = Inr (r, s')"
    then show "mappingFrame s s'" using Cons.prems(1) [of x' i' s r s'] by simp
  qed
  ultimately show ?case by (rule mappingFrame_trans)
qed

lemma mapDataEntries_with_frame:
  assumes "framedEntry me"
  shows "framedEntry (mapDataEntries_with me)"
  unfolding framedEntry_def
proof (intro allI framedI)
  fix entries path l p m r m'
  assume "mapDataEntries_with me entries path l p m = Inr (r, m')"
  then obtain rs where
    "Promise_all_map (\<lambda>(key, entry) index. me entry (path @ [JStr key]) l p)
       (ownProperties (if truthy entries then entries else JObj [])) 0 m = Inr (rs, m')"
    by (auto simp: mapDataEntries_with_def Let_def elim!: andThenE)
  then show "mappingFrame m m'"
    by (rule Promise_all_map_frame [rotated]) (auto dest: framedEntryD [OF assms])
qed

lemma mapDataEntries_with_frameD:
  "framedEntry me \<Longrightarrow> mapDataEntries_with me entries path l p m = Inr (r, m')
     \<Longrightarrow> mappingFrame m m'"
  by (rule framedEntryD [OF mapDataEntries_with_frame])

lemma mapSection_with_frame:
  assumes "framedEntry me"
  shows "framedEntry (mapSection_with me)"
  unfolding framedEntry_def
  by (auto intro!: framedI simp: mapSection_with_def elim!: andThenE
      dest!: mapDataEntries_with_frameD [OF assms])

lemma mapImageMapArea_with_frame:
  assumes "framedEntry me"
  shows "framedEntry (mapImageMapArea_with env me)"
  unfolding framedEntry_def
  by (auto intro!: framedI simp: mapImageMapArea_with_def Let_def elim!: andThenE
      dest!: mapDataEntries_with_frameD [OF assms] split: if_splits)

lemma mapImageMap_with_frame:
  assumes "framedEntry me"
  shows "framedEntry (mapImageMap_with env me)"
  unfolding framedEntry_def
proof (intro allI framedI)
  fix imageMap path l p m r m'
  assume a: "mapImageMap_with env me imageMap path l p m = Inr (r, m')"
  then obtain areaList mappedAreas m1 image where
    b: "Promise_all_map (\<lambda>area index. mapImageMapArea_with env me area
                           (path @ [JStr ''areas'', idx index]) l p) areaList 0
          (logger DEBUG ''CaaSMapper.mapImageMap - imageMap'' [imageMap] m) = Inr (mappedAreas, m1)"
    and c: "mappingFrame m1 m'"
    by (auto simp: mapImageMap_with_def Let_def elim!: andThenE split: if_splits
        dest!: registerFrom_frame)
  from b have "mappingFrame (logger DEBUG ''CaaSMapper.mapImageMap - imageMap'' [imageMap] m) m1"
    by (rule Promise_all_map_frame [rotated])
      (auto dest: framedEntryD [OF mapImageMapArea_with_frame [OF assms]])
  with c show "mappingFrame m m'" by (auto intro: mappingFrame_trans)
qed

lemma mapLinksInRichTextElements_with_frameD:
  "framedEntry me \<Longrightarrow> mapLinksInRichTextElements_with me els path l p m = Inr (r, m')
     \<Longrightarrow> mappingFrame m m'"
proof (induction me els path l p m arbitrary: r m'
    rule: mapLinksInRichTextElements_with.induct)
  case (1 me els path l p m)
  note fe = "1.prems"(1)
  from "1.prems"(2) obtain elements rs where
    a: "asArray els = Inr elements"
    and b: "Promise_all_map
                (\<lambda>richTextElement index m.
                   andThen (getProp richTextElement ''type'') (\<lambda>elementType.
                   andThen
                     (if elementType = JStr ''link''
                      then andThen (getPath richTextElement [''data'', ''type'']) (\<lambda>template.
                           andThen (getPath richTextElement [''data'', ''data'']) (\<lambda>linkData.
                           andThen (mapDataEntries_with me linkData
                                      (path @ [idx index, JStr ''data'', JStr ''data''])
                                      l p m) (\<lambda>(data, m1).
                           Inr (setProp richTextElement ''data''
                                  (JObj [(''type'', JStr ''Link''), (''template'', template),
                                         (''data'', data), (''meta'', JObj [])]), m1))))
                      else Inr (richTextElement, m)) (\<lambda>(richTextElement', m1).
                   andThen (getProp richTextElement' ''content'') (\<lambda>content.
                   case content of
                     JArr cs \<Rightarrow>
                       andThen (mapLinksInRichTextElements_with me content
                                  (path @ [idx index, JStr ''content''])
                                  l p m1) (\<lambda>(content', m2).
                       Inr (setProp richTextElement' ''content'' content', m2))
                   | _ \<Rightarrow> Inr (richTextElement', m1)))))
                elements 0 m = Inr (rs, m')"
    by (subst (asm) mapLinksInRichTextElements_with.simps) (auto elim!: andThenE)
  show ?case
  proof (rule Promise_all_map_frame [OF _ b], goal_cases)
    case (1 x i s y s')
    from 1(2) obtain elementType e' m1 content where
      t: "getProp x ''type'' = Inr elementType"
      and lk: "(if elementType = JStr ''link''
                      then andThen (getPath x [''data'', ''type'']) (\<lambda>template.
                           andThen (getPath x [''data'', ''data'']) (\<lambda>linkData.
                           andThen (mapDataEntries_with me linkData
                                      (path @ [idx i, JStr ''data'', JStr ''data''])
                                      l p s) (\<lambda>(data, m1).
                           Inr (setProp x ''data''
                                  (JObj [(''type'', JStr ''Link''), (''template'', template),
                                         (''data'', data), (''meta'', JObj [])]), m1))))
                      else Inr (x, s)) = Inr (e', m1)"
      and c: "getProp e' ''content'' = Inr content"
      and rest: "(case content of
                     JArr cs \<Rightarrow>
                       andThen (mapLinksInRichTextElements_with me content
                                  (path @ [idx i, JStr ''content''])
                                  l p m1) (\<lambda>(content', m2).
                       Inr (setProp e' ''content'' content', m2))
                   | _ \<Rightarrow> Inr (e', m1)) = Inr (y, s')"
      by (auto elim!: andThenE)
    from lk have f1: "mappingFrame s m1"
      by (auto split: if_splits elim!: andThenE dest!: mapDataEntries_with_frameD [OF fe])
    have f2: "mappingFrame m1 s'"
    proof (cases content)
      case (JArr cs)
      with rest obtain content' where
        "mapLinksInRichTextElements_with me content (path @ [idx i, JStr ''content'']) l p m1
           = Inr (content', s')"
        by (auto elim!: andThenE)
      from "1.IH" [OF a 1(1) t lk refl c JArr fe this] show ?thesis .
    qed (use rest in auto)
    from f1 f2 show ?case by (rule mappingFrame_trans)
  qed
qed

lemma mapReference_frame:
  "mapReference entry path p m = Inr (r, m') \<Longrightarrow> mappingFrame m m'"
  by (auto simp: mapReference_def Let_def elim!: andThenE split: if_splits
      dest!: registerFrom_frame)

lemma mapIndex_frame:
  assumes "mapIndex entry path p m = Inr (r, m')"
  shows "mappingFrame m m'"
proof (cases "getProp entry ''dapType'' = Inr (JStr ''DatasetDataAccessPlugin'')")
  case True
  with assms obtain records tokens where
    "Promise_all_map
       (\<lambda>record index m.
          let identifier = optProp (optProp (optProp record ''value'') ''target'') ''identifier''
          in if \<not> truthy identifier then Inr (JNull, m)
             else registerFrom m identifier (path @ [idx index]) p None)
       records 0 m = Inr (tokens, m')"
    by (auto simp: mapIndex_def elim!: andThenE)
  then show ?thesis
    by (rule Promise_all_map_frame [rotated])
      (auto simp: Let_def split: if_splits dest!: registerFrom_frame)
next
  case False
  with assms show ?thesis
    by (auto simp: mapIndex_def elim!: andThenE split: if_splits)
qed

lemma framed_return: "framed (\<lambda>m. Inr (x, m))"
  by (simp add: framed_def)

lemma framed_error: "framed (\<lambda>m. Inl e)"
  by (simp add: framed_def)

lemma framed_if: "framed f \<Longrightarrow> framed g \<Longrightarrow> framed (\<lambda>m. if c then f m else g m)"
  by (simp add: framed_def)

lemma framed_from: "(\<And>m r m'. f m = Inr (r, m') \<Longrightarrow> mappingFrame m m') \<Longrightarrow> framed f"
  by (simp add: framed_def)

lemma framed_pure: "(\<And>m x. framed (g m x)) \<Longrightarrow> framed (\<lambda>m. andThen (r m) (\<lambda>x. g m x m))"
proof (rule framed_from)
  fix m y m'
  assume g: "\<And>m x. framed (g m x)" and a: "andThen (r m) (\<lambda>x. g m x m) = Inr (y, m')"
  from a obtain x where "g m x m = Inr (y, m')" by (auto elim!: andThenE)
  with g [of m x] show "mappingFrame m m'" by (auto dest!: framedD)
qed

lemma framed_bind:
  "framed f \<Longrightarrow> (\<And>m x. framed (g m x))
     \<Longrightarrow> framed (\<lambda>m. andThen (f m) (\<lambda>(x, m1). g m x m1))"
proof (rule framed_from)
  fix m r m'
  assume f: "framed f" and g: "\<And>m x. framed (g m x)"
    and a: "andThen (f m) (\<lambda>(x, m1). g m x m1) = Inr (r, m')"
  from a obtain x m1 where "f m = Inr (x, m1)" and "g m x m1 = Inr (r, m')"
    by (auto elim!: andThenE)
  with f g [of m x] show "mappingFrame m m'"
    by (auto dest!: framedD intro: mappingFrame_trans)
qed

lemma framed_entry: "framedEntry me \<Longrightarrow> framed (me entry path l p)"
  by (simp add: framedEntry_def)

lemma framed_Promise_all_map:
  "(\<And>x i. framed (f x i)) \<Longrightarrow> framed (Promise_all_map f xs i)"
  by (rule framed_from) (erule Promise_all_map_frame [rotated], auto dest: framedD)

lemma framed_mapDataEntries_with: "framedEntry me \<Longrightarrow> framed (mapDataEntries_with me e path l p)"
  by (rule framed_entry [OF mapDataEntries_with_frame])

lemma framed_mapSection_with: "framedEntry me \<Longrightarrow> framed (mapSection_with me e path l p)"
  by (rule framed_entry [OF mapSection_with_frame])

lemma framed_mapImageMap_with:
  "framedEntry me \<Longrightarrow> framed (mapImageMap_with env me e path l p)"
  by (rule framed_entry [OF mapImageMap_with_frame])

lemma framed_mapLinks:
  "framedEntry me \<Longrightarrow> framed (mapLinksInRichTextElements_with me e path l p)"
  by (rule framed_from) (erule (1) mapLinksInRichTextElements_with_frameD)

lemma framed_registerFrom: "framed (\<lambda>m. registerFrom m i path p res)"
  by (rule framed_from) (erule registerFrom_frame)

lemma framed_mapReference: "framed (mapReference entry path p)"
  by (rule framed_from) (erule mapReference_frame)

lemma framed_mapIndex: "framed (mapIndex entry path p)"
  by (rule framed_from) (erule mapIndex_frame)

lemma framed_callCustomMapper: "framed (callCustomMapper env entry path)"
  by (rule framed_from) (erule callCustomMapper_frame)

lemmas framed_steps =
  framed_return framed_error framed_if framed_bind framed_pure framed_Promise_all_map
  framed_mapDataEntries_with framed_mapSection_with framed_mapImageMap_with framed_mapLinks
  framed_registerFrom framed_mapReference framed_mapIndex framed_callCustomMapper

lemma framed_mapRichText: "framedEntry me \<Longrightarrow> framed (mapRichText env me entry path l p)"
  unfolding mapRichText_def [abs_def] by (intro framed_steps)

lemma framed_mapLink: "framedEntry me \<Longrightarrow> framed (mapLink me entry path l p)"
  unfolding mapLink_def [abs_def] by (intro framed_steps)

lemma framed_mapChildren: "framedEntry me \<Longrightarrow> framed (mapChildren me children path l p)"
  unfolding mapChildren_def [abs_def] by (intro framed_steps framed_entry)

lemma framed_mapList: "framedEntry me \<Longrightarrow> framed (mapList me entry path l p)"
  unfolding mapList_def [abs_def] by (intro framed_steps framed_mapChildren)

lemma framed_mapImageMapEntry:
  "framedEntry me \<Longrightarrow> framed (mapImageMapEntry env me entry path l p)"
  unfolding mapImageMapEntry_def [abs_def] by (intro framed_steps)

lemma framed_case_json:
  "framed a \<Longrightarrow> framed b \<Longrightarrow> (\<And>x. framed (c x)) \<Longrightarrow> (\<And>x. framed (d x)) \<Longrightarrow> (\<And>x. framed (e x))
     \<Longrightarrow> (\<And>x. framed (f x)) \<Longrightarrow> (\<And>x. framed (g x))
     \<Longrightarrow> framed (\<lambda>m. case j of JUndefined \<Rightarrow> a m | JNull \<Rightarrow> b m | JBool x \<Rightarrow> c x m
                      | JNum x \<Rightarrow> d x m | JStr x \<Rightarrow> e x m | JArr x \<Rightarrow> f x m | JObj x \<Rightarrow> g x m)"
  by (cases j) simp_all

lemma framed_mapDatasetEntry: "framedEntry me \<Longrightarrow> framed (mapDatasetEntry me entry path l p)"
  unfolding mapDatasetEntry_def [abs_def]
  by (intro framed_steps framed_case_json framed_mapChildren)

lemma framed_mapCard: "framedEntry me \<Longrightarrow> framed (mapCard me path l p c index)"
  unfolding mapCard_def [abs_def] by (intro framed_steps)

lemma framed_mapCatalog: "framedEntry me \<Longrightarrow> framed (mapCatalog me entry path l p)"
  unfolding mapCatalog_def [abs_def] by (intro framed_steps framed_mapCard)

lemma mapDataEntry_body_frame:
  assumes "framedEntry me"
  shows "framedEntry (mapDataEntry_body env me)"
  unfolding framedEntry_def mapDataEntry_body_def [abs_def]
  by (intro allI framed_steps framed_mapRichText framed_mapLink framed_mapList
      framed_mapImageMapEntry framed_mapDatasetEntry framed_mapCatalog assms)

lemma mapDataEntry_frame: "framedEntry (mapDataEntry env fuel)"
proof (induction fuel)
  case 0
  show ?case by (simp add: framedEntry_def framed_def)
next
  case (Suc n)
  then show ?case by (simp add: mapDataEntry_body_frame)
qed

lemma framed_return_logger: "framed (\<lambda>m. Inr (x, logger lvl msg args m))"
  by (simp add: framed_def)

lemma framed_mapDataEntries: "framed (mapDataEntries env fuel e path l p)"
  unfolding mapDataEntries_def by (rule framed_mapDataEntries_with [OF mapDataEntry_frame])

lemma framed_mapSection: "framed (mapSection env fuel e path l p)"
  unfolding mapSection_def by (rule framed_mapSection_with [OF mapDataEntry_frame])

lemmas framed_item_steps = framed_steps framed_return_logger framed_mapDataEntries framed_mapSection

lemma framed_mapBodyContent: "framed (mapBodyContent env fuel e path l p)"
  unfolding mapBodyContent_def [abs_def] by (intro framed_item_steps)

lemma framed_mapPageBody: "framed (mapPageBody env fuel e path l p)"
  unfolding mapPageBody_def [abs_def] by (intro framed_item_steps framed_mapBodyContent)

lemma framed_mapPageRef: "framed (mapPageRef env fuel e path l p)"
  unfolding mapPageRef_def [abs_def] by (intro framed_item_steps framed_mapPageBody)

lemma framed_mapProjectProperties: "framed (mapProjectProperties env fuel e path l p)"
  unfolding mapProjectProperties_def [abs_def] by (intro framed_item_steps)

lemma framed_mapGCAPage: "framed (mapGCAPage env fuel e path l p)"
  unfolding mapGCAPage_def [abs_def] by (intro framed_item_steps framed_mapPageBody)

lemma framed_mapDataset: "framed (mapDataset env fuel e path l p)"
  unfolding mapDataset_def [abs_def] by (intro framed_item_steps)

lemma framed_mapMediaPicture: "framed (mapMediaPicture env fuel e path l p)"
  unfolding mapMediaPicture_def [abs_def] by (intro framed_item_steps)

lemma framed_mapMediaFile: "framed (mapMediaFile env fuel e path l p)"
  unfolding mapMediaFile_def [abs_def] by (intro framed_item_steps)

lemma framed_mapMedia: "framed (mapMedia env fuel e path l p)"
  unfolding mapMedia_def [abs_def]
  by (intro framed_item_steps framed_mapMediaPicture framed_mapMediaFile)

lemma framed_mapFilterResponse_item: "framed (mapFilterResponse_item env fuel l p item index)"
  unfolding mapFilterResponse_item_def [abs_def]
  by (intro framed_item_steps framed_mapDataset framed_mapPageRef framed_mapMedia
      framed_mapGCAPage framed_mapProjectProperties)


section \<open>The depth bound and items of unknown kind\<close>

lemma addToResolvedReferences_depth:
  "addToResolvedReferences env item p m = Inr m' \<Longrightarrow>
     referenceDepth m' = referenceDepth m \<and> maxReferenceDepth m' = maxReferenceDepth m"
  by (auto simp: addToResolvedReferences_def elim!: andThenE split: if_splits)

lemma cacheItems_depth:
  "cacheItems env p items m = Inr m' \<Longrightarrow>
     referenceDepth m' = referenceDepth m \<and> maxReferenceDepth m' = maxReferenceDepth m"
proof (induction items arbitrary: m)
  case Nil
  then show ?case by simp
next
  case (Cons item items)
  from Cons.prems obtain m1 where
    a: "(if truthy item then addToResolvedReferences env item p m else Inr m) = Inr m1"
    and b: "cacheItems env p items m1 = Inr m'"
    by (auto elim!: andThenE)
  from a have "referenceDepth m1 = referenceDepth m \<and> maxReferenceDepth m1 = maxReferenceDepth m"
    by (auto split: if_splits dest: addToResolvedReferences_depth)
  with Cons.IH [OF b] show ?case by simp
qed

lemma resolveAllReferences_exhausted:
  "depthExhausted m \<Longrightarrow> resolveAllReferences env fuel filterContext m w = Inr (maxDepthReached m, w)"
  by (cases fuel) (simp_all add: depthExhausted_def)

lemma maxDepthReached_fields [simp]:
  "referencedItems (maxDepthReached m) = referencedItems m"
  "remoteReferences (maxDepthReached m) = remoteReferences m"
  "resolvedReferences (maxDepthReached m) = resolvedReferences m"
  "referenceDepth (maxDepthReached m) = referenceDepth m"
  "maxReferenceDepth (maxDepthReached m) = maxReferenceDepth m"
  "logged (maxDepthReached m) =
     logged m @ [Log WARNING (''Maximum reference depth of '' @ show_int (maxReferenceDepth m) @
                              '' has been exceeded.'') []]"
  by (simp_all add: maxDepthReached_def)

lemma mapFilterResponse_withE:
  assumes "mapFilterResponse_with env fuel res u ap fc l p m w = Inr (response, m', w')"
  obtains unmapped items m1 m2 m3 where
    "asArray u = Inr unmapped"
    "if truthy (optProp ap ''keys'') then items = unmapped \<and> m1 = m
     else \<exists>mapped. Promise_all_map (mapFilterResponse_item env fuel l p) unmapped 0 m
                     = Inr (mapped, m1) \<and> items = filter truthy mapped"
    "cacheItems env p items m1 = Inr m2"
    "if items = [] then m3 = m2 \<and> w' = w else res fc m2 w = Inr (m3, w')"
    "m' = m3\<lparr>remoteReferences := snd (mergeRemoteReferences (remoteReferences m3))\<rparr>"
    "mr_resolvedReferences response = resolvedReferences m3"
    "referenceMap response
       = assign (referencedItems m3) (fst (mergeRemoteReferences (remoteReferences m3)))"
    "\<exists>ids. mapM (\<lambda>item. getItemId env item None) items = Inr ids \<and>
       findResolvedReferencesByIds env ids (resolvedReferences m3) = Inr (mappedItems response)"
  using assms unfolding mapFilterResponse_with_def
  by (auto elim!: andThenE simp: Let_def split: if_splits prod.splits)

lemma mapFilterResponse_items_frame:
  assumes "if truthy (optProp ap ''keys'') then items = unmapped \<and> m1 = m
     else \<exists>mapped. Promise_all_map (mapFilterResponse_item env fuel l p) unmapped 0 m
                     = Inr (mapped, m1) \<and> items = filter truthy mapped"
  shows "mappingFrame m m1"
proof (cases "truthy (optProp ap ''keys'')")
  case True
  with assms show ?thesis by simp
next
  case False
  with assms obtain mapped where
    "Promise_all_map (mapFilterResponse_item env fuel l p) unmapped 0 m = Inr (mapped, m1)"
    by auto
  then show ?thesis
    by (rule framedD [OF framed_Promise_all_map [OF framed_mapFilterResponse_item]])
qed

lemma mapFilterResponse_exhausted:
  assumes "depthExhausted m"
    and "mapFilterResponse env fuel unmappedItems additionalParams filterContext l p m w
           = Inr (response, m', w')"
  shows "w' = w \<and> depthExhausted m' \<and>
         (\<exists>items m1 m2. mappingFrame m m1 \<and> cacheItems env p items m1 = Inr m2 \<and>
            resolvedReferences m' = resolvedReferences m2 \<and>
            mr_resolvedReferences response = resolvedReferences m2)"
proof -
  from assms(2) [unfolded mapFilterResponse_def] obtain unmapped items m1 m2 m3 where
    i: "if truthy (optProp additionalParams ''keys'') then items = unmapped \<and> m1 = m
     else \<exists>mapped. Promise_all_map (mapFilterResponse_item env fuel l p) unmapped 0 m
                     = Inr (mapped, m1) \<and> items = filter truthy mapped"
    and c: "cacheItems env p items m1 = Inr m2"
    and r: "if items = [] then m3 = m2 \<and> w' = w
            else resolveAllReferences env fuel filterContext m2 w = Inr (m3, w')"
    and m': "m' = m3\<lparr>remoteReferences := snd (mergeRemoteReferences (remoteReferences m3))\<rparr>"
    and rr: "mr_resolvedReferences response = resolvedReferences m3"
    by (rule mapFilterResponse_withE)
  note f1 = mapFilterResponse_items_frame [OF i]
  note d2 = cacheItems_depth [OF c]
  from assms(1) f1 d2 have e2: "depthExhausted m2"
    by (simp add: depthExhausted_def mappingFrame_def)
  from r e2 have r3: "w' = w \<and> (m3 = m2 \<or> m3 = maxDepthReached m2)"
    by (auto simp: resolveAllReferences_exhausted split: if_splits)
  from r3 e2 m' have "depthExhausted m'" by (auto simp: depthExhausted_def)
  moreover from r3 m' have "resolvedReferences m' = resolvedReferences m2" by auto
  moreover from r3 rr have "mr_resolvedReferences response = resolvedReferences m2" by auto
  ultimately show ?thesis using r3 f1 c by blast
qed

lemma mapFilterResponse_with_exhausted:
  "mapFilterResponse_with env fuel (resolveAllReferences env fuel) u ap fc l p m w
       = Inr (response, m', w')
   \<Longrightarrow> depthExhausted m \<longrightarrow> w' = w \<and> depthExhausted m'"
  using mapFilterResponse_exhausted [of m env fuel u ap fc l p w response m' w']
  by (simp add: mapFilterResponse_def)

lemma filterMapResponse_requests:
  "filterMapResponse env response filterContext w = Inr (response', w') \<Longrightarrow> requests w' = requests w"
  by (auto simp: filterMapResponse_def api_logger_def split: option.splits elim!: andThenE)

lemma CaaSMapper_exhausted:
  "api_maxReferenceDepth a = Some 0 \<Longrightarrow> depthExhausted (CaaSMapper a loc None (Some 0) lvl)"
  by (simp add: depthExhausted_def CaaSMapper_def)

lemma fetchByFilter_response_exhausted:
  assumes "case mapperArg of Some m \<Rightarrow> depthExhausted m | None \<Rightarrow> api_maxReferenceDepth a = Some 0"
    and "fetchByFilter_response env fuel (resolveAllReferences env fuel) a params mapperArg
           page pagesize caasApiResponse w = Inr (response, mapper', w')"
  shows "requests w' = requests w \<and>
         (case mapper' of Some m' \<Rightarrow> depthExhausted m' | None \<Rightarrow> mapperArg = None)"
  using assms unfolding fetchByFilter_response_def
  by (auto elim!: andThenE split: if_splits option.splits simp: Let_def CaaSMapper_exhausted
      dest!: mapFilterResponse_with_exhausted filterMapResponse_requests)

lemma addToResolvedReferences_registries:
  "addToResolvedReferences env item p m = Inr m' \<Longrightarrow>
     referencedItems m' = referencedItems m \<and> remoteReferences m' = remoteReferences m"
  by (auto simp: addToResolvedReferences_def elim!: andThenE split: if_splits)

lemma cacheItems_registries:
  "cacheItems env p items m = Inr m' \<Longrightarrow>
     referencedItems m' = referencedItems m \<and> remoteReferences m' = remoteReferences m"
proof (induction items arbitrary: m)
  case Nil
  then show ?case by simp
next
  case (Cons item items)
  from Cons.prems obtain m1 where
    a: "(if truthy item then addToResolvedReferences env item p m else Inr m) = Inr m1"
    and b: "cacheItems env p items m1 = Inr m'"
    by (auto elim!: andThenE)
  from a have "referencedItems m1 = referencedItems m \<and> remoteReferences m1 = remoteReferences m"
    by (auto split: if_splits dest: addToResolvedReferences_registries)
  with Cons.IH [OF b] show ?case by simp
qed

lemma addToResolvedReferences_cache:
  assumes "addToResolvedReferences env item p m = Inr m'"
    and "getItemId env item p = Inr ident" and "truthy ident"
  shows "map_of (resolvedReferences m') = (map_of (resolvedReferences m))(toStr ident \<mapsto> item)"
  using assms by (auto simp: addToResolvedReferences_def update_conv')

lemma cacheItems_other:
  assumes "cacheItems env p items m = Inr m'"
    and "mapM (\<lambda>item. getItemId env item p) items = Inr ids"
    and "list_all truthy items" and "list_all truthy ids"
    and "k \<notin> set (map toStr ids)"
  shows "map_of (resolvedReferences m') k = map_of (resolvedReferences m) k"
  using assms
proof (induction items arbitrary: m ids)
  case Nil
  then show ?case by simp
next
  case (Cons item items)
  from Cons.prems(2) obtain ident rest where
    i: "getItemId env item p = Inr ident"
    and r: "mapM (\<lambda>item. getItemId env item p) items = Inr rest"
    and ids: "ids = ident # rest"
    by (auto elim!: andThenE)
  from Cons.prems(1,3) obtain m1 where
    a: "addToResolvedReferences env item p m = Inr m1"
    and b: "cacheItems env p items m1 = Inr m'"
    by (auto elim!: andThenE)
  from Cons.prems(4) ids have t: "truthy ident" "list_all truthy rest" by simp_all
  from Cons.prems(5) ids have k: "k \<noteq> toStr ident" "k \<notin> set (map toStr rest)" by auto
  from Cons.prems(3) have "list_all truthy items" by simp
  from Cons.IH [OF b r this t(2) k(2)] addToResolvedReferences_cache [OF a i t(1)] k(1)
  show ?case by simp
qed

lemma cacheItems_lookup:
  assumes "cacheItems env p items m = Inr m'"
    and "mapM (\<lambda>item. getItemId env item p) items = Inr ids"
    and "list_all truthy items" and "list_all truthy ids"
    and "distinct (map toStr ids)"
  shows "map (\<lambda>ident. map_of (resolvedReferences m') (toStr ident)) ids = map Some items"
  using assms
proof (induction items arbitrary: m ids)
  case Nil
  then show ?case by simp
next
  case (Cons item items)
  from Cons.prems(2) obtain ident rest where
    i: "getItemId env item p = Inr ident"
    and r: "mapM (\<lambda>item. getItemId env item p) items = Inr rest"
    and ids: "ids = ident # rest"
    by (auto elim!: andThenE)
  from Cons.prems(1,3) obtain m1 where
    a: "addToResolvedReferences env item p m = Inr m1"
    and b: "cacheItems env p items m1 = Inr m'"
    by (auto elim!: andThenE)
  from Cons.prems(4) ids have t: "truthy ident" "list_all truthy rest" by simp_all
  from Cons.prems(5) ids have d: "toStr ident \<notin> set (map toStr rest)" "distinct (map toStr rest)"
    by auto
  from Cons.prems(3) have ti: "list_all truthy items" by simp
  from cacheItems_other [OF b r ti t(2) d(1)] addToResolvedReferences_cache [OF a i t(1)]
  have "map_of (resolvedReferences m') (toStr ident) = Some item" by simp
  with Cons.IH [OF b r ti t(2) d(2)] ids show ?case by simp
qed

lemma findResolvedReferencesByIds_spec_found:
  assumes "map (\<lambda>ident. map_of resolved (toStr ident)) ids = map Some items"
    and "list_all truthy items"
  shows "findResolvedReferencesByIds_spec ids resolved = Inr items"
proof -
  from assms(1)
  have "map (\<lambda>ident. case map_of resolved (toStr ident) of Some item \<Rightarrow> item
                      | None \<Rightarrow> JUndefined) ids = items"
  proof (induction ids arbitrary: items)
    case Nil
    then show ?case by simp
  next
    case (Cons i ids)
    then show ?case by (cases items) auto
  qed
  with assms(2) show ?thesis
    by (simp add: findResolvedReferencesByIds_spec_def list_all_iff)
qed

section \<open>The depth bound\<close>

lemma asArray_Inr: "asArray j = Inr xs \<Longrightarrow> j = JArr xs"
  by (cases j) auto

lemma mapFilterResponse_exhausted_items:
  assumes "depthExhausted m"
    and "mapFilterResponse env fuel unmappedItems additionalParams filterContext l p m w
           = Inr (response, m', w')"
  shows "\<exists>unmapped items m1 m2 ids.
      unmappedItems = JArr unmapped \<and>
      (if truthy (optProp additionalParams ''keys'') then items = unmapped \<and> m1 = m
       else \<exists>mapped. Promise_all_map (mapFilterResponse_item env fuel l p) unmapped 0 m
                       = Inr (mapped, m1) \<and> items = filter truthy mapped) \<and>
      resolvedReferences m1 = resolvedReferences m \<and>
      cacheItems env p items m1 = Inr m2 \<and>
      referencedItems m' = referencedItems m1 \<and>
      resolvedReferences m' = resolvedReferences m2 \<and>
      mr_resolvedReferences response = resolvedReferences m2 \<and>
      referenceMap response
        = assign (referencedItems m1) (fst (mergeRemoteReferences (remoteReferences m1))) \<and>
      mapM (\<lambda>item. getItemId env item None) items = Inr ids \<and>
      findResolvedReferencesByIds env ids (resolvedReferences m2) = Inr (mappedItems response) \<and>
      (findResolvedReferencesByIds env = findResolvedReferencesByIds_spec \<and>
       mapM (\<lambda>item. getItemId env item p) items = Inr ids \<and>
       list_all truthy items \<and> list_all truthy ids \<and> distinct (map toStr ids)
       \<longrightarrow> mappedItems response = items)"
proof -
  from assms(2) [unfolded mapFilterResponse_def] obtain unmapped items m1 m2 m3 where
    u: "asArray unmappedItems = Inr unmapped"
    and i: "if truthy (optProp additionalParams ''keys'') then items = unmapped \<and> m1 = m
     else \<exists>mapped. Promise_all_map (mapFilterResponse_item env fuel l p) unmapped 0 m
                     = Inr (mapped, m1) \<and> items = filter truthy mapped"
    and c: "cacheItems env p items m1 = Inr m2"
    and r: "if items = [] then m3 = m2 \<and> w' = w
            else resolveAllReferences env fuel filterContext m2 w = Inr (m3, w')"
    and m': "m' = m3\<lparr>remoteReferences := snd (mergeRemoteReferences (remoteReferences m3))\<rparr>"
    and rr: "mr_resolvedReferences response = resolvedReferences m3"
    and rm: "referenceMap response
       = assign (referencedItems m3) (fst (mergeRemoteReferences (remoteReferences m3)))"
    and f: "\<exists>ids. mapM (\<lambda>item. getItemId env item None) items = Inr ids \<and>
       findResolvedReferencesByIds env ids (resolvedReferences m3) = Inr (mappedItems response)"
    by (rule mapFilterResponse_withE)
  note f1 = mapFilterResponse_items_frame [OF i]
  note d2 = cacheItems_depth [OF c]
  note g2 = cacheItems_registries [OF c]
  from assms(1) f1 d2 have e2: "depthExhausted m2"
    by (simp add: depthExhausted_def mappingFrame_def)
  from r e2 have r3: "m3 = m2 \<or> m3 = maxDepthReached m2"
    by (auto simp: resolveAllReferences_exhausted split: if_splits)
  then have k: "resolvedReferences m3 = resolvedReferences m2"
    "referencedItems m3 = referencedItems m1" "remoteReferences m3 = remoteReferences m1"
    using g2 by auto
  from f obtain ids where
    g: "mapM (\<lambda>item. getItemId env item None) items = Inr ids"
    and h: "findResolvedReferencesByIds env ids (resolvedReferences m2) = Inr (mappedItems response)"
    unfolding k by blast
  have sp: "findResolvedReferencesByIds env = findResolvedReferencesByIds_spec \<and>
       mapM (\<lambda>item. getItemId env item p) items = Inr ids \<and>
       list_all truthy items \<and> list_all truthy ids \<and> distinct (map toStr ids)
       \<longrightarrow> mappedItems response = items"
  proof (intro impI, elim conjE)
    assume s: "findResolvedReferencesByIds env = findResolvedReferencesByIds_spec"
      and q: "mapM (\<lambda>item. getItemId env item p) items = Inr ids"
      and t: "list_all truthy items" "list_all truthy ids" "distinct (map toStr ids)"
    from cacheItems_lookup [OF c q t] t(1)
    have "findResolvedReferencesByIds_spec ids (resolvedReferences m2) = Inr items"
      by (rule findResolvedReferencesByIds_spec_found)
    with h s show "mappedItems response = items" by simp
  qed
  from f1 have f2: "resolvedReferences m1 = resolvedReferences m"
    by (simp add: mappingFrame_def)
  from m' k have n1: "referencedItems m' = referencedItems m1"
    and n2: "resolvedReferences m' = resolvedReferences m2"
    by simp_all
  from rr k have n3: "mr_resolvedReferences response = resolvedReferences m2" by simp
  from rm k have n4: "referenceMap response
        = assign (referencedItems m1) (fst (mergeRemoteReferences (remoteReferences m1)))"
    by simp
  show ?thesis
  proof (rule exI [of _ unmapped], rule exI [of _ items], rule exI [of _ m1],
      rule exI [of _ m2], rule exI [of _ ids])
    from asArray_Inr [OF u] i f2 c n1 n2 n3 n4 g h sp
    show "unmappedItems = JArr unmapped \<and>
      (if truthy (optProp additionalParams ''keys'') then items = unmapped \<and> m1 = m
       else \<exists>mapped. Promise_all_map (mapFilterResponse_item env fuel l p) unmapped 0 m
                       = Inr (mapped, m1) \<and> items = filter truthy mapped) \<and>
      resolvedReferences m1 = resolvedReferences m \<and>
      cacheItems env p items m1 = Inr m2 \<and>
      referencedItems m' = referencedItems m1 \<and>
      resolvedReferences m' = resolvedReferences m2 \<and>
      mr_resolvedReferences response = resolvedReferences m2 \<and>
      referenceMap response
        = assign (referencedItems m1) (fst (mergeRemoteReferences (remoteReferences m1))) \<and>
      mapM (\<lambda>item. getItemId env item None) items = Inr ids \<and>
      findResolvedReferencesByIds env ids (resolvedReferences m2) = Inr (mappedItems response) \<and>
      (findResolvedReferencesByIds env = findResolvedReferencesByIds_spec \<and>
       mapM (\<lambda>item. getItemId env item p) items = Inr ids \<and>
       list_all truthy items \<and> list_all truthy ids \<and> distinct (map toStr ids)
       \<longrightarrow> mappedItems response = items)"
      by (intro conjI)
  qed
qed

text \<open>
  Claim C1. A call of \<open>resolveAllReferences\<close> on a mapper whose depth counter has
  reached the bound returns, whatever the fuel, without issuing a request: the world is
  the one it was called in and the mapper differs from the one before in the warning
  logged only, so the registries and the cache are unchanged. The condition persists
  through \<open>mapFilterResponse\<close> and through \<open>fetchByFilter\<close> from its response on: the
  mapper handed back has reached the bound as well, so no later call on it starts a
  round, and without a custom mapper no request is sent at all; with a bound of 0 a
  top-level \<open>fetchByFilter\<close> then sends its own request and no other. What
  \<open>mapFilterResponse\<close> returns on such a mapper is built from the items as the mapping
  left them, placeholder tokens included: the registry is the one the mapping filled,
  the cache holds the items of this response in addition and nothing else, and
  \<open>mappedItems\<close> is what \<^verbatim>\<open>findResolvedReferencesByIds\<close> finds in that cache for the
  ids of these items, which is the list of these items itself when the helper looks
  the ids up and the items have ids of their own.
\<close>

theorem resolveAllReferences_depth_bound:
  assumes "depthExhausted m"
  shows "resolveAllReferences env fuel filterContext m w = Inr (maxDepthReached m, w) \<and>
         maxDepthReached m
           = m\<lparr>logged := logged m @
                 [Log WARNING (''Maximum reference depth of '' @
                               show_int (maxReferenceDepth m) @ '' has been exceeded.'') []]\<rparr> \<and>
         (\<forall>unmappedItems additionalParams l p response m' w'.
            mapFilterResponse env fuel unmappedItems additionalParams filterContext l p m w
              = Inr (response, m', w') \<longrightarrow>
            depthExhausted m' \<and> (customMapper env = None \<longrightarrow> w' = w) \<and>
            (\<exists>unmapped items m1 m2 ids.
               unmappedItems = JArr unmapped \<and>
               (if truthy (optProp additionalParams ''keys'') then items = unmapped \<and> m1 = m
                else \<exists>mapped. Promise_all_map (mapFilterResponse_item env fuel l p) unmapped 0 m
                                = Inr (mapped, m1) \<and> items = filter truthy mapped) \<and>
               resolvedReferences m1 = resolvedReferences m \<and>
               cacheItems env p items m1 = Inr m2 \<and>
               referencedItems m' = referencedItems m1 \<and>
               resolvedReferences m' = resolvedReferences m2 \<and>
               mr_resolvedReferences response = resolvedReferences m2 \<and>
               referenceMap response
                 = assign (referencedItems m1)
                     (fst (mergeRemoteReferences (remoteReferences m1))) \<and>
               mapM (\<lambda>item. getItemId env item None) items = Inr ids \<and>
               findResolvedReferencesByIds env ids (resolvedReferences m2)
                 = Inr (mappedItems response) \<and>
               (findResolvedReferencesByIds env = findResolvedReferencesByIds_spec \<and>
                mapM (\<lambda>item. getItemId env item p) items = Inr ids \<and>
                list_all truthy items \<and> list_all truthy ids \<and> distinct (map toStr ids)
                \<longrightarrow> mappedItems response = items))) \<and>
         (\<forall>a params page pagesize caasApiResponse response mapper' w'.
            fetchByFilter_response env fuel (resolveAllReferences env fuel) a params (Some m)
              page pagesize caasApiResponse w = Inr (response, mapper', w') \<longrightarrow>
            (\<exists>m'. mapper' = Some m' \<and> depthExhausted m') \<and>
            (customMapper env = None \<longrightarrow> requests w' = requests w)) \<and>
         (\<forall>a params response mapper' w'.
            api_maxReferenceDepth a = Some 0 \<longrightarrow>
            fetchByFilter env fuel a params None w = Inr (response, mapper', w') \<longrightarrow>
            (\<forall>m'. mapper' = Some m' \<longrightarrow> depthExhausted m') \<and>
            (customMapper env = None \<longrightarrow> (\<exists>req. requests w' = requests w @ [req])))"
    (is "?A \<and> ?B \<and> ?C \<and> ?D \<and> ?E")
proof -
  have a: ?A using assms by (rule resolveAllReferences_exhausted)
  have b: ?B by (simp add: maxDepthReached_def logger_def)
  have c: ?C
  proof (intro allI impI)
    fix unmappedItems additionalParams l p response m' w'
    assume r: "mapFilterResponse env fuel unmappedItems additionalParams filterContext l p m w
              = Inr (response, m', w')"
    from mapFilterResponse_exhausted [OF assms r]
    have "depthExhausted m' \<and> (customMapper env = None \<longrightarrow> w' = w)" by simp
    with mapFilterResponse_exhausted_items [OF assms r]
    show "depthExhausted m' \<and> (customMapper env = None \<longrightarrow> w' = w) \<and>
            (\<exists>unmapped items m1 m2 ids.
               unmappedItems = JArr unmapped \<and>
               (if truthy (optProp additionalParams ''keys'') then items = unmapped \<and> m1 = m
                else \<exists>mapped. Promise_all_map (mapFilterResponse_item env fuel l p) unmapped 0 m
                                = Inr (mapped, m1) \<and> items = filter truthy mapped) \<and>
               resolvedReferences m1 = resolvedReferences m \<and>
               cacheItems env p items m1 = Inr m2 \<and>
               referencedItems m' = referencedItems m1 \<and>
               resolvedReferences m' = resolvedReferences m2 \<and>
               mr_resolvedReferences response = resolvedReferences m2 \<and>
               referenceMap response
                 = assign (referencedItems m1)
                     (fst (mergeRemoteReferences (remoteReferences m1))) \<and>
               mapM (\<lambda>item. getItemId env item None) items = Inr ids \<and>
               findResolvedReferencesByIds env ids (resolvedReferences m2)
                 = Inr (mappedItems response) \<and>
               (findResolvedReferencesByIds env = findResolvedReferencesByIds_spec \<and>
                mapM (\<lambda>item. getItemId env item p) items = Inr ids \<and>
                list_all truthy items \<and> list_all truthy ids \<and> distinct (map toStr ids)
                \<longrightarrow> mappedItems response = items))"
      by (intro conjI) (elim conjE, assumption)+
  qed
  have d: ?D
  proof (intro allI impI)
    fix a params page pagesize caasApiResponse response mapper' w'
    assume r: "fetchByFilter_response env fuel (resolveAllReferences env fuel) a params (Some m)
              page pagesize caasApiResponse w = Inr (response, mapper', w')"
    from assms have "case Some m of Some m \<Rightarrow> depthExhausted m
                     | None \<Rightarrow> api_maxReferenceDepth a = Some 0"
      by simp
    from fetchByFilter_response_exhausted [OF this r]
    show "(\<exists>m'. mapper' = Some m' \<and> depthExhausted m') \<and>
          (customMapper env = None \<longrightarrow> requests w' = requests w)"
      by (cases mapper') simp_all
  qed
  have e: ?E
  proof (intro allI impI)
    fix a params response mapper' w'
    assume z: "api_maxReferenceDepth a = Some 0"
      and r: "fetchByFilter env fuel a params None w = Inr (response, mapper', w')"
    from r obtain req page pagesize w1 caasApiResponse where
      q: "fetchByFilter_request a params w = Inr (req, page, pagesize, w1)"
      and s: "fetchByFilter_response env fuel (resolveAllReferences env fuel) a params None
                page pagesize caasApiResponse w1 = Inr (response, mapper', w')"
      unfolding fetchByFilter_def by (auto elim!: andThenE)
    from z have "case None of Some m \<Rightarrow> depthExhausted m
                 | None \<Rightarrow> api_maxReferenceDepth a = Some 0"
      by simp
    from fetchByFilter_response_exhausted [OF this s] fetchByFilter_request_fields(1) [OF q]
    show "(\<forall>m'. mapper' = Some m' \<longrightarrow> depthExhausted m') \<and>
          (customMapper env = None \<longrightarrow> (\<exists>req. requests w' = requests w @ [req]))"
      by auto
  qed
  from a b c d e show ?thesis by (intro conjI)
qed

lemma depth0_exhausted: "depthExhausted depth0_mapper"
  by (simp add: depthExhausted_def depth0_mapper_def depth0_api_def CaaSMapper_def)

lemma depth0_page_mapped:
  "case Promise_all_map (mapFilterResponse_item store_collaborators 3 None None)
          [example_page] 0 depth0_mapper of
     Inl e \<Rightarrow> False
   | Inr (mapped, m1) \<Rightarrow>
       mapped = [mapped_page] \<and>
       referencedItems m1 = [(''m1.en_GB'', [[JStr ''p1.en_GB'', JStr ''data'', JStr ''pt_image'']])]"
  by code_simp

lemma depth0_page_id:
  "mapM (\<lambda>item. getItemId store_collaborators item None) [mapped_page] = Inr [JStr ''p1.en_GB'']"
  by code_simp

lemma depth0_response:
  "case mapFilterResponse store_collaborators 3 (JArr [example_page]) (JObj []) JUndefined
          None None depth0_mapper new_world of
     Inl e \<Rightarrow> False
   | Inr r \<Rightarrow> True"
  by code_simp

lemma depth0_run:
  "case fetchByFilter store_collaborators 3 depth0_api all_documents None new_world of
     Inl e \<Rightarrow> False
   | Inr (response, mapper', w') \<Rightarrow>
       fr_items response = [mapped_page] \<and> mapper' \<noteq> None"
  by code_simp

lemma store_helpers:
  "customMapper store_collaborators = None"
  "findResolvedReferencesByIds store_collaborators = findResolvedReferencesByIds_spec"
  by (simp_all add: store_collaborators_def example_collaborators_def)

theorem resolveAllReferences_depth_bound_witness:
  "depthExhausted depth0_mapper \<and>
   resolveAllReferences store_collaborators 3 JUndefined depth0_mapper new_world
     = Inr (maxDepthReached depth0_mapper, new_world) \<and>
   (\<exists>response m'.
      mapFilterResponse store_collaborators 3 (JArr [example_page]) (JObj []) JUndefined
        None None depth0_mapper new_world = Inr (response, m', new_world) \<and>
      depthExhausted m' \<and>
      mappedItems response = [mapped_page] \<and>
      optProp mapped_page ''data'' = JObj [(''pt_image'', JStr ''[REFERENCED-ITEM-m1.en_GB]'')] \<and>
      referencedItems m'
        = [(''m1.en_GB'', [[JStr ''p1.en_GB'', JStr ''data'', JStr ''pt_image'']])] \<and>
      map fst (resolvedReferences m') = [''p1.en_GB'']) \<and>
   api_maxReferenceDepth depth0_api = Some 0 \<and>
   (\<exists>response m' w' req.
      fetchByFilter store_collaborators 3 depth0_api all_documents None new_world
        = Inr (response, Some m', w') \<and>
      requests w' = [req] \<and> depthExhausted m' \<and> fr_items response = [mapped_page])"
    (is "?W1 \<and> ?W2 \<and> ?W3 \<and> ?W4 \<and> ?W5")
proof -
  note t = resolveAllReferences_depth_bound [OF depth0_exhausted,
      of store_collaborators 3 JUndefined new_world]
  from t have w2: ?W2 by (elim conjE)
  have w4: ?W4 by (simp add: depth0_api_def)
  have w3: ?W3
  proof -
    from depth0_response obtain response m' w' where
      r: "mapFilterResponse store_collaborators 3 (JArr [example_page]) (JObj []) JUndefined
            None None depth0_mapper new_world = Inr (response, m', w')"
      by (auto split: sum.splits)
    from t have "\<forall>unmappedItems additionalParams l p response m' w'.
            mapFilterResponse store_collaborators 3 unmappedItems additionalParams JUndefined
              l p depth0_mapper new_world = Inr (response, m', w') \<longrightarrow>
            depthExhausted m' \<and> (customMapper store_collaborators = None \<longrightarrow> w' = new_world) \<and>
            (\<exists>unmapped items m1 m2 ids.
               unmappedItems = JArr unmapped \<and>
               (if truthy (optProp additionalParams ''keys'')
                then items = unmapped \<and> m1 = depth0_mapper
                else \<exists>mapped.
                       Promise_all_map (mapFilterResponse_item store_collaborators 3 l p)
                         unmapped 0 depth0_mapper = Inr (mapped, m1) \<and>
                       items = filter truthy mapped) \<and>
               resolvedReferences m1 = resolvedReferences depth0_mapper \<and>
               cacheItems store_collaborators p items m1 = Inr m2 \<and>
               referencedItems m' = referencedItems m1 \<and>
               resolvedReferences m' = resolvedReferences m2 \<and>
               mr_resolvedReferences response = resolvedReferences m2 \<and>
               referenceMap response
                 = assign (referencedItems m1)
                     (fst (mergeRemoteReferences (remoteReferences m1))) \<and>
               mapM (\<lambda>item. getItemId store_collaborators item None) items = Inr ids \<and>
               findResolvedReferencesByIds store_collaborators ids (resolvedReferences m2)
                 = Inr (mappedItems response) \<and>
               (findResolvedReferencesByIds store_collaborators
                  = findResolvedReferencesByIds_spec \<and>
                mapM (\<lambda>item. getItemId store_collaborators item p) items = Inr ids \<and>
                list_all truthy items \<and> list_all truthy ids \<and> distinct (map toStr ids)
                \<longrightarrow> mappedItems response = items))"
      by (elim conjE)
    note tc = this [rule_format, OF r]
    have e: "depthExhausted m'"
      and w0: "customMapper store_collaborators = None \<longrightarrow> w' = new_world"
      and ex: "\<exists>unmapped items m1 m2 ids.
               JArr [example_page] = JArr unmapped \<and>
               (if truthy (optProp (JObj []) ''keys'')
                then items = unmapped \<and> m1 = depth0_mapper
                else \<exists>mapped.
                       Promise_all_map (mapFilterResponse_item store_collaborators 3 None None)
                         unmapped 0 depth0_mapper = Inr (mapped, m1) \<and>
                       items = filter truthy mapped) \<and>
               resolvedReferences m1 = resolvedReferences depth0_mapper \<and>
               cacheItems store_collaborators None items m1 = Inr m2 \<and>
               referencedItems m' = referencedItems m1 \<and>
               resolvedReferences m' = resolvedReferences m2 \<and>
               mr_resolvedReferences response = resolvedReferences m2 \<and>
               referenceMap response
                 = assign (referencedItems m1)
                     (fst (mergeRemoteReferences (remoteReferences m1))) \<and>
               mapM (\<lambda>item. getItemId store_collaborators item None) items = Inr ids \<and>
               findResolvedReferencesByIds store_collaborators ids (resolvedReferences m2)
                 = Inr (mappedItems response) \<and>
               (findResolvedReferencesByIds store_collaborators
                  = findResolvedReferencesByIds_spec \<and>
                mapM (\<lambda>item. getItemId store_collaborators item None) items = Inr ids \<and>
                list_all truthy items \<and> list_all truthy ids \<and> distinct (map toStr ids)
                \<longrightarrow> mappedItems response = items)"
      by (rule tc [THEN conjunct1], rule tc [THEN conjunct2, THEN conjunct1],
          rule tc [THEN conjunct2, THEN conjunct2])
    from w0 store_helpers(1) have w: "w' = new_world" by simp
    from ex obtain unmapped items m1 m2 ids where
      u: "JArr [example_page] = JArr unmapped"
      and p: "if truthy (optProp (JObj []) ''keys'')
                then items = unmapped \<and> m1 = depth0_mapper
                else \<exists>mapped.
                       Promise_all_map (mapFilterResponse_item store_collaborators 3 None None)
                         unmapped 0 depth0_mapper = Inr (mapped, m1) \<and>
                       items = filter truthy mapped"
      and f: "resolvedReferences m1 = resolvedReferences depth0_mapper"
      and c: "cacheItems store_collaborators None items m1 = Inr m2"
      and g: "referencedItems m' = referencedItems m1"
      and k: "resolvedReferences m' = resolvedReferences m2"
      and i: "mapM (\<lambda>item. getItemId store_collaborators item None) items = Inr ids"
      and h0: "findResolvedReferencesByIds store_collaborators
                  = findResolvedReferencesByIds_spec \<and>
                mapM (\<lambda>item. getItemId store_collaborators item None) items = Inr ids \<and>
                list_all truthy items \<and> list_all truthy ids \<and> distinct (map toStr ids)
                \<longrightarrow> mappedItems response = items"
      by (elim exE conjE)
    from h0 store_helpers(2)
    have h: "mapM (\<lambda>item. getItemId store_collaborators item None) items = Inr ids \<and>
                list_all truthy items \<and> list_all truthy ids \<and> distinct (map toStr ids)
                \<longrightarrow> mappedItems response = items"
      by simp
    from u p obtain mapped where
      pm: "Promise_all_map (mapFilterResponse_item store_collaborators 3 None None)
             [example_page] 0 depth0_mapper = Inr (mapped, m1)"
      and it: "items = filter truthy mapped"
      by auto
    with depth0_page_mapped have mp: "mapped = [mapped_page]"
      and rg: "referencedItems m1
                 = [(''m1.en_GB'', [[JStr ''p1.en_GB'', JStr ''data'', JStr ''pt_image'']])]"
      by simp_all
    have tp: "truthy mapped_page" by (simp add: mapped_page_def)
    with it mp have items: "items = [mapped_page]" by simp
    with i depth0_page_id have ids: "ids = [JStr ''p1.en_GB'']" by simp
    from h i items ids tp have mi: "mappedItems response = [mapped_page]" by simp
    have "map_of (resolvedReferences m2) (toStr (JStr ''p1.en_GB'')) = Some mapped_page"
      using cacheItems_lookup [OF c, of ids] i items ids tp by simp
    have ck: "map fst (resolvedReferences m2) = [''p1.en_GB'']"
    proof -
      from c items i ids tp have "resolvedReferences m2
        = AList.update ''p1.en_GB'' mapped_page (resolvedReferences m1)"
        by (auto simp: addToResolvedReferences_def elim!: andThenE)
      moreover note f
      ultimately show ?thesis
        by (simp add: depth0_mapper_def CaaSMapper_def)
    qed
    have "optProp mapped_page ''data''
            = JObj [(''pt_image'', JStr ''[REFERENCED-ITEM-m1.en_GB]'')]"
      by (simp add: mapped_page_def)
    with r w e mi g rg k ck show ?thesis by auto
  qed
  have w5: ?W5
  proof -
    from depth0_run obtain response m' w' where
      r: "fetchByFilter store_collaborators 3 depth0_api all_documents None new_world
            = Inr (response, Some m', w')"
      and v: "fr_items response = [mapped_page]"
      by (auto split: sum.splits)
    from t have "\<forall>a params response mapper' w'.
            api_maxReferenceDepth a = Some 0 \<longrightarrow>
            fetchByFilter store_collaborators 3 a params None new_world
              = Inr (response, mapper', w') \<longrightarrow>
            (\<forall>m'. mapper' = Some m' \<longrightarrow> depthExhausted m') \<and>
            (customMapper store_collaborators = None \<longrightarrow>
               (\<exists>req. requests w' = requests new_world @ [req]))"
      by (elim conjE)
    from this [rule_format, OF w4 r] store_helpers(1)
    obtain req where "requests w' = [req]" and "depthExhausted m'"
      by (auto simp: new_world_def)
    with r v show ?thesis by (intro exI conjI)
  qed
  from depth0_exhausted w2 w3 w4 w5 show ?thesis by (intro conjI)
qed

section \<open>Top-level items of unknown kind\<close>












end
